theory Spec2Isabelle
  imports Complex_Main "HOL-Library.Sublist" "HOL-Library.Monad_Syntax"
begin

section \<open>Wide strings\<close>

text \<open>
  The program works on \<^verbatim>\<open>std::wstring\<close>. A wide string is modelled as a HOL
  \<^typ>\<open>string\<close>, a list of code units: a HOL character stands for one code unit of the
  source, and every token the engine looks for is ASCII.
  The characters the source names by escape sequences are given names here.
\<close>

type_synonym wstring = string

definition BSLASH :: char where "BSLASH = CHR 0x5C"
definition DQUOTE :: char where "DQUOTE = CHR 0x22"
definition LF :: char where "LF = CHR 0x0A"
definition CR :: char where "CR = CHR 0x0D"
definition TAB :: char where "TAB = CHR 0x09"

text \<open>
  \<^verbatim>\<open>hay.find(needle)\<close>: the first index at which \<open>needle\<close> occurs, \<open>None\<close> for
  \<^verbatim>\<open>npos\<close>.
\<close>

fun find_first :: "wstring \<Rightarrow> wstring \<Rightarrow> nat option" where
  "find_first [] needle = (if needle = [] then Some 0 else None)"
| "find_first (c # cs) needle =
     (if prefix needle (c # cs) then Some 0 else map_option Suc (find_first cs needle))"

text \<open>\<^verbatim>\<open>hay.find(needle, pos)\<close>: the search starts at \<open>pos\<close>; past the end it fails.\<close>

definition wfind :: "wstring \<Rightarrow> wstring \<Rightarrow> nat \<Rightarrow> nat option" where
  "wfind hay needle pos =
     (if length hay < pos then None
      else map_option (\<lambda>i. pos + i) (find_first (drop pos hay) needle))"

text \<open>\<^verbatim>\<open>s.rfind(p, 0) == 0\<close>: \<open>s\<close> begins with \<open>p\<close>.\<close>

definition starts_with :: "wstring \<Rightarrow> wstring \<Rightarrow> bool" where
  "starts_with s p = prefix p s"

text \<open>
  \<^verbatim>\<open>s.replace(pos, n, to)\<close> for \<open>pos + n \<le> size\<close>, the only way the program calls it.
\<close>

definition wreplace :: "wstring \<Rightarrow> nat \<Rightarrow> nat \<Rightarrow> wstring \<Rightarrow> wstring" where
  "wreplace s pos n to = take pos s @ to @ drop (pos + n) s"

section \<open>Placeholder substitution\<close>

text \<open>
  \<^verbatim>\<open>ReplaceAll\<close> is the loop
  \<^verbatim>\<open>while ((pos = s.find(from, pos)) != npos) { s.replace(pos, from.length(), to); pos += to.length(); }\<close>.
  With an empty \<open>from\<close> the search succeeds at every position and the loop never ends, so
  the loop is a partial function: \<open>None\<close> is "does not return".
\<close>

partial_function (option) ReplaceAll_loop ::
  "wstring \<Rightarrow> wstring \<Rightarrow> wstring \<Rightarrow> nat \<Rightarrow> wstring option" where
  "ReplaceAll_loop s frm to pos =
     (case wfind s frm pos of
        None \<Rightarrow> Some s
      | Some p \<Rightarrow> ReplaceAll_loop (wreplace s p (length frm) to) frm to (p + length to))"

declare ReplaceAll_loop.simps [code]

definition ReplaceAll :: "wstring \<Rightarrow> wstring \<Rightarrow> wstring \<Rightarrow> wstring option" where
  "ReplaceAll s frm to = ReplaceAll_loop s frm to 0"

text \<open>
  What the loop computes for a non-empty token, as a single left-to-right pass: the text
  before the cursor is final, a match at the cursor is replaced and skipped.
\<close>

fun replace_scan :: "wstring \<Rightarrow> wstring \<Rightarrow> wstring \<Rightarrow> wstring" where
  "replace_scan [] frm to = []"
| "replace_scan (c # cs) frm to =
     (if prefix frm (c # cs) then to @ replace_scan (drop (length frm - 1) cs) frm to
      else c # replace_scan cs frm to)"

fun JsonEscape_char :: "char \<Rightarrow> wstring" where
  "JsonEscape_char c =
     (if c = BSLASH then [BSLASH, BSLASH]
      else if c = DQUOTE then [BSLASH, DQUOTE]
      else if c = LF then [BSLASH, CHR ''n'']
      else if c = CR then [BSLASH, CHR ''r'']
      else if c = TAB then [BSLASH, CHR ''t'']
      else [c])"

definition JsonEscape :: "wstring \<Rightarrow> wstring" where
  "JsonEscape s = concat (map JsonEscape_char s)"

datatype IOType = Text | Image

text \<open>
  The field names of the structs carry a prefix (\<open>m_\<close>, \<open>f_\<close>, \<open>t_\<close>, \<open>p_\<close>, \<open>r_\<close>), since
  several structs share field names and record fields are global constants.
\<close>

record ModelConfig =
  m_name :: wstring
  m_serverUrl :: wstring
  m_modelName :: wstring
  m_apiKey :: wstring
  m_providerId :: wstring

definition ReplacePlaceholders ::
  "wstring \<Rightarrow> ModelConfig \<Rightarrow> wstring \<Rightarrow> wstring \<Rightarrow> wstring \<Rightarrow> wstring \<Rightarrow> bool \<Rightarrow> wstring option" where
  "ReplacePlaceholders src m systemPrompt prompt imageB64 imageDataUrl jsonEsc =
     (let esc = (\<lambda>v. if jsonEsc then JsonEscape v else v) in
      do {
        out \<leftarrow> ReplaceAll src ''<<model>>'' (esc (m_modelName m));
        out \<leftarrow> ReplaceAll out ''<<system_prompt>>'' (esc systemPrompt);
        out \<leftarrow> ReplaceAll out ''<<prompt>>'' (esc prompt);
        out \<leftarrow> ReplaceAll out ''<<input_text>>'' (esc prompt);
        out \<leftarrow> ReplaceAll out ''<<api_key>>'' (esc (m_apiKey m));
        out \<leftarrow> ReplaceAll out ''<<image_url>>'' (esc imageDataUrl);
        ReplaceAll out ''<<image>>'' (esc imageB64)
      })"

record FilterDefinition =
  f_title :: wstring
  f_input :: IOType
  f_output :: IOType
  f_modelIndex :: nat
  f_prompt :: wstring

record TemplateDefinition =
  t_id :: wstring
  t_providerId :: wstring
  t_input :: IOType
  t_output :: IOType
  t_endpoint :: wstring
  t_resultPath :: wstring
  t_headers :: "(wstring \<times> wstring) list"
  t_payload :: wstring

record ApiProvider =
  p_id :: wstring
  p_defaultEndpoint :: wstring
  p_templates :: "TemplateDefinition list"
  p_modelsEndpoint :: wstring
  p_modelsMethod :: wstring
  p_modelsHeaders :: "(wstring \<times> wstring) list"
  p_modelsPayload :: wstring
  p_modelsResultPath :: wstring

text \<open>
  \<^verbatim>\<open>towlower\<close> in the "C" locale (the program never sets another): only the letters
  A to Z change.
\<close>

definition towlower :: "char \<Rightarrow> char" where
  "towlower c =
     (case map_of (zip ''ABCDEFGHIJKLMNOPQRSTUVWXYZ'' ''abcdefghijklmnopqrstuvwxyz'') c of
        Some l \<Rightarrow> l
      | None \<Rightarrow> c)"

definition ContainsNoCase :: "wstring \<Rightarrow> wstring \<Rightarrow> bool" where
  "ContainsNoCase hay needle =
     (let toLow = map towlower in wfind (toLow hay) (toLow needle) 0 \<noteq> None)"

section \<open>Catalog lookups\<close>

text \<open>The catalog \<^verbatim>\<open>g_providers\<close> and the model list \<^verbatim>\<open>g_models\<close> are passed explicitly.\<close>

definition FindProviderById :: "ApiProvider list \<Rightarrow> wstring \<Rightarrow> ApiProvider option" where
  "FindProviderById g_providers ident = find (\<lambda>p. p_id p = ident) g_providers"

definition FindTemplateByIO ::
  "ApiProvider \<Rightarrow> IOType \<Rightarrow> IOType \<Rightarrow> TemplateDefinition option" where
  "FindTemplateByIO provider inp outp =
     find (\<lambda>t. t_input t = inp \<and> t_output t = outp) (p_templates provider)"

fun FindTemplateAny ::
  "ApiProvider list \<Rightarrow> IOType \<Rightarrow> IOType \<Rightarrow> TemplateDefinition option" where
  "FindTemplateAny [] inp outp = None"
| "FindTemplateAny (p # ps) inp outp =
     (case FindTemplateByIO p inp outp of
        Some t \<Rightarrow> Some t
      | None \<Rightarrow> FindTemplateAny ps inp outp)"

section \<open>Endpoint resolution\<close>

text \<open>
  \<^verbatim>\<open>PrepareEndpoint\<close> writes \<open>host\<close>, \<open>path\<close> and \<open>useHttps\<close> through references and
  returns whether the host is non-empty. The model returns all four; \<open>useHttps\<close> is an
  in-out parameter, so its value at the call is an argument. Each assignment to \<open>host\<close>
  and \<open>path\<close> binds a fresh name (\<open>path1\<close>, \<open>host2\<close>, ...), in the order of the source.
\<close>

record Endpoint =
  ep_valid :: bool
  ep_host :: wstring
  ep_path :: wstring
  ep_useHttps :: bool

definition PrepareEndpoint :: "wstring \<Rightarrow> wstring \<Rightarrow> bool \<Rightarrow> Endpoint" where
  "PrepareEndpoint serverUrl tplPath useHttps0 =
     (let path1 = (if tplPath = [] then ''/v1/chat/completions'' else tplPath);
          absolute = (starts_with path1 ''http://'' \<or> starts_with path1 ''https://'');
          host2 = (if absolute then path1 else serverUrl);
          path2 = (if absolute then [] else path1);
          host3 = (if starts_with host2 ''https://'' then drop 8 host2
                   else if starts_with host2 ''http://'' then drop 7 host2
                   else host2);
          useHttps = (if starts_with host2 ''https://'' then True
                      else if starts_with host2 ''http://'' then False
                      else useHttps0);
          slash = wfind host3 ''/'' 0;
          path4 = (case slash of
                     Some sl \<Rightarrow> drop sl host3 @ (if path2 = [] then [] else path2)
                   | None \<Rightarrow> path2);
          host4 = (case slash of Some sl \<Rightarrow> take sl host3 | None \<Rightarrow> host3);
          path5 = (if path4 \<noteq> [] \<and> hd path4 \<noteq> CHR ''/'' then ''/'' @ path4 else path4)
      in \<lparr>ep_valid = (host4 \<noteq> []), ep_host = host4, ep_path = path5, ep_useHttps = useHttps\<rparr>)"

section \<open>Request construction\<close>

definition BuildBodyFromTemplate ::
  "TemplateDefinition \<Rightarrow> ModelConfig \<Rightarrow> wstring \<Rightarrow> wstring \<Rightarrow> wstring \<Rightarrow> wstring \<Rightarrow> wstring option" where
  "BuildBodyFromTemplate tpl m systemPrompt prompt imageB64 imageDataUrl =
     ReplacePlaceholders (t_payload tpl) m systemPrompt prompt imageB64 imageDataUrl True"

text \<open>The loop of \<^verbatim>\<open>BuildHeaderString\<close> over the header pairs, \<open>header\<close> its accumulator.\<close>

fun BuildHeaderString_loop ::
  "(wstring \<times> wstring) list \<Rightarrow> ModelConfig \<Rightarrow> wstring \<Rightarrow> wstring \<Rightarrow> wstring \<Rightarrow> wstring \<Rightarrow>
   wstring \<Rightarrow> wstring option" where
  "BuildHeaderString_loop [] m systemPrompt prompt imageB64 imageDataUrl header = Some header"
| "BuildHeaderString_loop (kv # kvs) m systemPrompt prompt imageB64 imageDataUrl header =
     do {
       val \<leftarrow> ReplacePlaceholders (snd kv) m systemPrompt prompt imageB64 imageDataUrl False;
       BuildHeaderString_loop kvs m systemPrompt prompt imageB64 imageDataUrl
         (header @ fst kv @ '': '' @ val @ [CR, LF])
     }"

definition BuildHeaderString ::
  "TemplateDefinition \<Rightarrow> ModelConfig \<Rightarrow> wstring \<Rightarrow> wstring \<Rightarrow> wstring \<Rightarrow> wstring \<Rightarrow> wstring option" where
  "BuildHeaderString tpl m systemPrompt prompt imageB64 imageDataUrl =
     BuildHeaderString_loop (t_headers tpl) m systemPrompt prompt imageB64 imageDataUrl []"

subsection \<open>The vocabulary of the endpoint contract\<close>

text \<open>
  The words of the specification of endpoint resolution: a fragment is absolute when it
  begins with a scheme; the string that carries the scheme is the fragment when it is
  absolute and the server base otherwise; stripping removes that scheme; the path suffix is
  what the fragment contributes to the path.
\<close>

definition is_absolute_url :: "wstring \<Rightarrow> bool" where
  "is_absolute_url fragment =
     (starts_with fragment ''http://'' \<or> starts_with fragment ''https://'')"

definition scheme_carrier :: "wstring \<Rightarrow> wstring \<Rightarrow> wstring" where
  "scheme_carrier serverBase fragment =
     (if is_absolute_url fragment then fragment else serverBase)"

definition strip_scheme :: "wstring \<Rightarrow> wstring" where
  "strip_scheme url =
     (if starts_with url ''https://'' then drop 8 url
      else if starts_with url ''http://'' then drop 7 url
      else url)"

definition path_suffix :: "wstring \<Rightarrow> wstring" where
  "path_suffix fragment =
     (if fragment = [] then ''/v1/chat/completions''
      else if is_absolute_url fragment then []
      else fragment)"

section \<open>The platform\<close>

text \<open>
  The engine calls the operating system and its libraries: the JSON parser, the regular
  expression engine, the HTTP stack, the clipboard, the code page and Base64 converters.
  None of them is code of the program, so each is a field of a record that the model
  functions take as their first argument. A bitmap handle is a number, 0 the null handle.
\<close>

datatype json =
    JNull
  | JBoolean bool
  | JNumber real
  | JString wstring
  | JArray "json list"
  | JObject "(wstring \<times> json) list"

type_synonym HBITMAP = nat

record HttpRequest =
  rq_host :: wstring
  rq_path :: wstring
  rq_useHttps :: bool
  rq_headers :: wstring
  rq_body :: string
  rq_method :: wstring

text \<open>
  What the HTTP stack does with one request: which of the calls succeed, the error code a
  failing call leaves, the status code (\<open>None\<close> when the status query fails), the
  chunks of the body that are read before the reading loop stops, each already decoded,
  and whether the loop stops at a failing \<^verbatim>\<open>WinHttpQueryDataAvailable\<close> or
  \<^verbatim>\<open>WinHttpReadData\<close> instead of at the end of the data.
\<close>

record WinHttpOutcome =
  wh_open :: bool
  wh_connect :: bool
  wh_openRequest :: bool
  wh_sendRequest :: bool
  wh_receiveResponse :: bool
  wh_lastError :: nat
  wh_status :: "nat option"
  wh_chunks :: "wstring list"
  wh_readError :: bool

record Platform =
  DEBUG :: bool
  GetString :: "wstring \<Rightarrow> wstring"
  WideCharToMultiByte :: "wstring \<Rightarrow> string"
  MultiByteToWideChar :: "string \<Rightarrow> wstring"
  CryptStringToBinary :: "wstring \<Rightarrow> string option"
  JsonParse :: "wstring \<Rightarrow> json option"
  Stringify :: "json \<Rightarrow> wstring"
  regex_search_icase :: "wstring \<Rightarrow> wstring \<Rightarrow> bool option"
  WinHttp :: "HttpRequest \<Rightarrow> WinHttpOutcome"
  GetClipboardText :: wstring
  GetClipboardBitmap :: HBITMAP
  BitmapToBase64Png :: "HBITMAP \<Rightarrow> wstring option"
  Base64ToBitmap :: "wstring \<Rightarrow> HBITMAP"
  SetClipboardText_throws :: "wstring \<Rightarrow> string option"
  SetClipboardBitmap_throws :: "HBITMAP \<Rightarrow> bool"

text \<open>
  \<^verbatim>\<open>LogLine\<close> writes a line in a build with \<^verbatim>\<open>DEBUG\<close> and is an empty macro otherwise.
  A function that logs returns the lines it wrote.
\<close>

definition LogLine :: "Platform \<Rightarrow> wstring \<Rightarrow> wstring list" where
  "LogLine P msg = (if DEBUG P then [msg] else [])"

text \<open>
  \<^verbatim>\<open>ToUtf8\<close> passes \<^verbatim>\<open>w.c_str()\<close> with length -1, so the conversion stops at the first
  NUL; a failing conversion leaves the empty string, which is what the platform field
  returns then.
\<close>

definition ToUtf8 :: "Platform \<Rightarrow> wstring \<Rightarrow> string" where
  "ToUtf8 P w = WideCharToMultiByte P (takeWhile (\<lambda>c. c \<noteq> CHR 0x00) w)"

definition IOTypeToString :: "Platform \<Rightarrow> IOType \<Rightarrow> wstring" where
  "IOTypeToString P t = (if t = Text then GetString P ''text_type'' else GetString P ''image_type'')"

text \<open>\<^verbatim>\<open>std::to_wstring\<close> of an unsigned number: its decimal digits.\<close>

definition digit_char :: "nat \<Rightarrow> char" where
  "digit_char d = ''0123456789'' ! d"

fun to_wstring :: "nat \<Rightarrow> wstring" where
  "to_wstring n = (if n < 10 then [digit_char n] else to_wstring (n div 10) @ [digit_char (n mod 10)])"

section \<open>Response extraction\<close>

text \<open>
  The scanning loop of \<^verbatim>\<open>ExtractContent\<close> reads \<open>json\<close> from a position \<open>p\<close>; the model
  takes the text from \<open>p\<close> on. The test \<^verbatim>\<open>p + 1 < json.size()\<close> is the second pattern.
\<close>

fun ExtractContent_loop :: "wstring \<Rightarrow> wstring" where
  "ExtractContent_loop [] = []"
| "ExtractContent_loop [c] = (if c = DQUOTE then [] else [c])"
| "ExtractContent_loop (c # d # cs) =
     (if c = DQUOTE then []
      else if c = BSLASH \<and> d = CHR ''n'' then LF # ExtractContent_loop cs
      else if c = BSLASH \<and> d = DQUOTE then DQUOTE # ExtractContent_loop cs
      else c # ExtractContent_loop (d # cs))"

definition ExtractContent :: "wstring \<Rightarrow> wstring" where
  "ExtractContent json =
     (case wfind json ([DQUOTE] @ ''content'' @ [DQUOTE]) 0 of
        None \<Rightarrow> []
      | Some p \<Rightarrow>
          (case wfind json [DQUOTE] (p + 9) of
             None \<Rightarrow> []
           | Some q \<Rightarrow> ExtractContent_loop (drop (q + 1) json)))"

fun ExtractB64Image_loop :: "wstring \<Rightarrow> wstring" where
  "ExtractB64Image_loop [] = []"
| "ExtractB64Image_loop [c] = (if c = DQUOTE then [] else [c])"
| "ExtractB64Image_loop (c # d # cs) =
     (if c = DQUOTE then []
      else if c = BSLASH \<and> d = DQUOTE then DQUOTE # ExtractB64Image_loop cs
      else if c = BSLASH \<and> d = BSLASH then BSLASH # ExtractB64Image_loop cs
      else if c = BSLASH \<and> d = CHR ''/'' then CHR ''/'' # ExtractB64Image_loop cs
      else c # ExtractB64Image_loop (d # cs))"

definition ExtractB64Image :: "wstring \<Rightarrow> wstring" where
  "ExtractB64Image json =
     (case wfind json ([DQUOTE] @ ''b64_json'' @ [DQUOTE]) 0 of
        None \<Rightarrow> []
      | Some p \<Rightarrow>
          (case wfind json [DQUOTE] (p + 10) of
             None \<Rightarrow> []
           | Some q \<Rightarrow> ExtractB64Image_loop (drop (q + 1) json)))"

subsection \<open>The structured path\<close>

text \<open>
  The first loop of \<^verbatim>\<open>ExtractByPath\<close> cuts the path at every dot; \<open>cur\<close> is the part
  being read, \<^verbatim>\<open>path.substr(start, i - start)\<close>.
\<close>

fun split_dots :: "wstring \<Rightarrow> wstring \<Rightarrow> wstring list" where
  "split_dots [] cur = [cur]"
| "split_dots (c # cs) cur =
     (if c = CHR ''.'' then cur # split_dots cs [] else split_dots cs (cur @ [c]))"

text \<open>
  \<^verbatim>\<open>_wtoi\<close> of the C runtime: white space, an optional sign, then decimal digits up to
  the first other character; a value out of the range of \<^verbatim>\<open>int\<close> is clamped to it.
\<close>

definition iswspace :: "char \<Rightarrow> bool" where
  "iswspace c = (c \<in> set [CHR '' '', TAB, LF, CHR 0x0B, CHR 0x0C, CR])"

definition digit_of :: "char \<Rightarrow> int option" where
  "digit_of c = map_of (zip ''0123456789'' [0, 1, 2, 3, 4, 5, 6, 7, 8, 9]) c"

fun wtoi_digits :: "wstring \<Rightarrow> int \<Rightarrow> int" where
  "wtoi_digits [] acc = acc"
| "wtoi_digits (c # cs) acc =
     (case digit_of c of
        Some d \<Rightarrow> wtoi_digits cs (10 * acc + d)
      | None \<Rightarrow> acc)"

definition wtoi :: "wstring \<Rightarrow> int" where
  "wtoi s =
     (let s1 = dropWhile iswspace s;
          v = (case s1 of
                 [] \<Rightarrow> 0
               | c # cs \<Rightarrow>
                   if c = CHR ''-'' then - wtoi_digits cs 0
                   else if c = CHR ''+'' then wtoi_digits cs 0
                   else wtoi_digits s1 0)
      in max (- 2147483648) (min 2147483647 v))"

text \<open>The key and the index of one part; \<open>- 1\<close> is "no index".\<close>

definition part_key_idx :: "wstring \<Rightarrow> wstring \<times> int" where
  "part_key_idx p =
     (case wfind p ''['' 0 of
        Some lb \<Rightarrow>
          if last p = CHR '']''
          then (take lb p, wtoi (take (length p - lb - 2) (drop (lb + 1) p)))
          else (p, - 1)
      | None \<Rightarrow> (p, - 1))"

text \<open>
  One round of the walking loop ends in one of three ways: \<open>cur\<close> has a new value, the
  function returns a string at once, or a call of the JSON library throws
  (\<^verbatim>\<open>GetNamedValue\<close> on a missing key, \<^verbatim>\<open>GetArray\<close> on a value that is no array).
\<close>

datatype walk = Value json | Return wstring | Throw

text \<open>The last statement of the loop body: \<^verbatim>\<open>if (idx >= 0) { ... }\<close>.\<close>

definition walk_index :: "json \<Rightarrow> int \<Rightarrow> walk" where
  "walk_index cur idx =
     (if idx \<ge> 0 then
        (case cur of
           JArray arr \<Rightarrow> if idx \<ge> 0 \<and> idx < int (length arr) then Value (arr ! nat idx) else Value cur
         | _ \<Rightarrow> Throw)
      else Value cur)"

definition walk_part :: "json \<Rightarrow> wstring \<Rightarrow> walk" where
  "walk_part cur p =
     (let (key, idx) = part_key_idx p in
      case cur of
        JObject obj \<Rightarrow>
          if key \<noteq> [] then
            (case map_of obj key of
               Some v \<Rightarrow> walk_index v idx
             | None \<Rightarrow> Throw)
          else Return []
      | JArray arr \<Rightarrow>
          if idx \<ge> 0 \<and> idx < int (length arr) then walk_index (arr ! nat idx) (- 1)
          else Return []
      | _ \<Rightarrow> walk_index cur idx)"

fun walk_parts :: "json \<Rightarrow> wstring list \<Rightarrow> walk" where
  "walk_parts cur [] = Value cur"
| "walk_parts cur (p # ps) =
     (case walk_part cur p of
        Value next \<Rightarrow> walk_parts next ps
      | Return r \<Rightarrow> Return r
      | Throw \<Rightarrow> Throw)"

text \<open>\<^verbatim>\<open>catch (...)\<close> turns every exception, that of the parser too, into the empty string.\<close>

definition ExtractByPath :: "Platform \<Rightarrow> wstring \<Rightarrow> wstring \<Rightarrow> wstring" where
  "ExtractByPath P json path =
     (case JsonParse P json of
        None \<Rightarrow> []
      | Some val \<Rightarrow>
          (case walk_parts val (split_dots path []) of
             Value cur \<Rightarrow> (case cur of JString s \<Rightarrow> s | _ \<Rightarrow> Stringify P cur)
           | Return r \<Rightarrow> r
           | Throw \<Rightarrow> []))"

section \<open>The multipart body\<close>

definition CRLF :: string where "CRLF = [CR, LF]"

text \<open>
  \<^verbatim>\<open>BuildMultipartBody\<close> decodes the image with two calls of \<^verbatim>\<open>CryptStringToBinaryW\<close> on
  the same text, the first for the size; both have the outcome of the platform field, and
  a failure leaves \<open>img\<close> empty.
\<close>

definition addText :: "string \<Rightarrow> string \<Rightarrow> string \<Rightarrow> string" where
  "addText bnd name value =
     ''--'' @ bnd @ CRLF @
     ''Content-Disposition: form-data; name='' @ [DQUOTE] @ name @ [DQUOTE] @ CRLF @ CRLF @
     value @ CRLF"

definition BuildMultipartBody :: "Platform \<Rightarrow> wstring \<Rightarrow> wstring \<Rightarrow> wstring \<Rightarrow> wstring \<Rightarrow> string" where
  "BuildMultipartBody P boundary model prompt imageB64 =
     (let img = (if imageB64 \<noteq> [] then
                   (case CryptStringToBinary P imageB64 of Some bytes \<Rightarrow> bytes | None \<Rightarrow> [])
                 else []);
          bnd = ToUtf8 P boundary;
          b = addText bnd ''model'' (ToUtf8 P model);
          b = b @ addText bnd ''prompt'' (ToUtf8 P prompt);
          b = (if img \<noteq> [] then
                 b @ ''--'' @ bnd @ CRLF @
                 ''Content-Disposition: form-data; name='' @ [DQUOTE] @ ''image'' @ [DQUOTE] @
                   ''; filename='' @ [DQUOTE] @ ''image.png'' @ [DQUOTE] @ CRLF @
                 ''Content-Type: image/png'' @ CRLF @ CRLF @
                 img @ CRLF
               else b)
      in b @ ''--'' @ bnd @ ''--'' @ CRLF)"

section \<open>The HTTP call\<close>

text \<open>
  \<^verbatim>\<open>HttpRequestWithHeaders\<close> returns the body and sets \<^verbatim>\<open>*err\<close>; the model returns both,
  \<open>err\<close> empty when it is never set. A later \<^verbatim>\<open>setErr\<close> overwrites an earlier one.
  The reading loop leaves with \<^verbatim>\<open>break\<close> on a failing call as it does at the end of the
  data, so the function never looks at \<open>wh_readError\<close>.
\<close>

definition HttpRequestWithHeaders :: "Platform \<Rightarrow> HttpRequest \<Rightarrow> wstring \<times> wstring" where
  "HttpRequestWithHeaders P req =
     (let w = WinHttp P req; code = to_wstring (wh_lastError w) in
      if \<not> wh_open w then ([], ''WinHttpOpen failed: '' @ code)
      else if \<not> wh_connect w then ([], ''WinHttpConnect failed: '' @ code)
      else if \<not> wh_openRequest w then ([], ''WinHttpOpenRequest failed: '' @ code)
      else
        let ok = wh_sendRequest w;
            err = (if \<not> ok then ''WinHttpSendRequest failed: '' @ code else []);
            ok = (if ok then wh_receiveResponse w else ok);
            err = (if \<not> ok then ''WinHttpReceiveResponse failed: '' @ code else err);
            err = (if ok then
                     (case wh_status w of
                        Some status \<Rightarrow> if status \<ge> 400 then ''HTTP status '' @ to_wstring status else err
                      | None \<Rightarrow> err)
                   else err);
            result = (if ok then concat (wh_chunks w) else [])
        in (result, err))"

section \<open>Calling a template\<close>

record ApiCallResult =
  r_text :: wstring
  r_image :: HBITMAP

definition empty_result :: ApiCallResult where
  "empty_result = \<lparr>r_text = [], r_image = 0\<rparr>"

text \<open>What a call leaves behind: its result, the requests it sent, the lines it logged.\<close>

record Call =
  c_result :: ApiCallResult
  c_sent :: "HttpRequest list"
  c_log :: "wstring list"

text \<open>
  The extraction at the end of \<^verbatim>\<open>CallTemplate\<close>, one definition for each branch of
  \<^verbatim>\<open>if (tpl.output == IOType::Text)\<close>; each returns the result and the lines logged.
\<close>

definition CallTemplate_text ::
  "Platform \<Rightarrow> TemplateDefinition \<Rightarrow> wstring \<Rightarrow> ApiCallResult \<times> wstring list" where
  "CallTemplate_text P tpl resp =
     (let text = (if t_resultPath tpl \<noteq> [] then ExtractByPath P resp (t_resultPath tpl) else []);
          text = (if text = [] then ExtractContent resp else text)
      in (\<lparr>r_text = text, r_image = 0\<rparr>,
          if text = [] then LogLine P (''template response empty content. resp='' @ take 512 resp)
          else []))"

definition strip_data_url :: "wstring \<Rightarrow> wstring" where
  "strip_data_url b64 =
     (if wfind b64 ''data:image'' 0 \<noteq> None then
        (case wfind b64 '','' 0 of Some c \<Rightarrow> drop (c + 1) b64 | None \<Rightarrow> b64)
      else b64)"

definition CallTemplate_image ::
  "Platform \<Rightarrow> TemplateDefinition \<Rightarrow> wstring \<Rightarrow> ApiCallResult \<times> wstring list" where
  "CallTemplate_image P tpl resp =
     (let b64 = (if t_resultPath tpl = [] then [] else ExtractByPath P resp (t_resultPath tpl));
          b64 = strip_data_url b64;
          b64 = (if b64 = [] then ExtractB64Image resp else b64);
          b64 = (if b64 = [] then ExtractContent resp else b64);
          b64 = strip_data_url b64;
          image = (if b64 \<noteq> [] then Base64ToBitmap P b64 else 0)
      in (\<lparr>r_text = [], r_image = image\<rparr>,
          if image = 0 then LogLine P ''template response produced no image'' else []))"

definition CallTemplate ::
  "Platform \<Rightarrow> TemplateDefinition \<Rightarrow> ModelConfig \<Rightarrow> wstring \<Rightarrow> wstring \<Rightarrow> wstring \<Rightarrow> wstring \<Rightarrow>
   Call option" where
  "CallTemplate P tpl m systemPrompt prompt imageB64 imageDataUrl =
     do {
       endpoint \<leftarrow> ReplacePlaceholders (t_endpoint tpl) m systemPrompt prompt imageB64 imageDataUrl False;
       let ep = PrepareEndpoint (m_serverUrl m) endpoint True;
       if \<not> ep_valid ep then
         Some \<lparr>c_result = empty_result, c_sent = [], c_log = LogLine P ''PrepareEndpoint failed''\<rparr>
       else do {
         body \<leftarrow> BuildBodyFromTemplate tpl m systemPrompt prompt imageB64 imageDataUrl;
         headers \<leftarrow> BuildHeaderString tpl m systemPrompt prompt imageB64 imageDataUrl;
         let boundary = ''----cbfilterboundary'';
         adjHeaders \<leftarrow>
           (if ContainsNoCase headers ''multipart/form-data''
            then ReplaceAll headers ''multipart/form-data'' (''multipart/form-data; boundary='' @ boundary)
            else Some headers);
         let utf8 =
           (if ContainsNoCase headers ''multipart/form-data''
            then BuildMultipartBody P boundary (m_modelName m) prompt imageB64
            else ToUtf8 P body);
         let wbody = MultiByteToWideChar P (takeWhile (\<lambda>c. c \<noteq> CHR 0x00) utf8);
         let log = LogLine P (''request host: '' @ ep_host ep) @
                   LogLine P (''request path: '' @ ep_path ep) @
                   LogLine P (''body: '' @ wbody);
         let req = \<lparr>rq_host = ep_host ep, rq_path = ep_path ep, rq_useHttps = ep_useHttps ep,
                    rq_headers = adjHeaders, rq_body = utf8, rq_method = ''POST''\<rparr>;
         let (resp, err) = HttpRequestWithHeaders P req;
         let log = log @ (if err \<noteq> [] then LogLine P (''template request error: '' @ err) else []);
         if resp = [] then Some \<lparr>c_result = empty_result, c_sent = [req], c_log = log\<rparr>
         else
           let (result, lines) =
                 (if t_output tpl = Text then CallTemplate_text P tpl resp
                  else CallTemplate_image P tpl resp)
           in Some \<lparr>c_result = result, c_sent = [req], c_log = log @ lines\<rparr>
       }
     }"

section \<open>Running a filter\<close>

text \<open>
  What a run leaves behind: the value \<^verbatim>\<open>RunFilter\<close> returns, the requests sent, what was
  written to the clipboard, the lines logged.
\<close>

record Run =
  run_ok :: bool
  run_sent :: "HttpRequest list"
  run_clipboardText :: "wstring option"
  run_clipboardBitmap :: "HBITMAP option"
  run_log :: "wstring list"

definition run_failed :: "HttpRequest list \<Rightarrow> wstring list \<Rightarrow> Run" where
  "run_failed sent lines =
     \<lparr>run_ok = False, run_sent = sent, run_clipboardText = None, run_clipboardBitmap = None,
      run_log = lines\<rparr>"

text \<open>
  The first lines of \<^verbatim>\<open>RunFilter\<close> resolve the model and the template. Reading
  \<^verbatim>\<open>g_models[0]\<close> of an empty vector has no defined behaviour: the model has no value
  there (\<open>None\<close>).
\<close>

definition RunFilter_resolve ::
  "ApiProvider list \<Rightarrow> ModelConfig list \<Rightarrow> FilterDefinition \<Rightarrow>
   (ModelConfig \<times> TemplateDefinition option) option" where
  "RunFilter_resolve g_providers g_models f =
     (if g_models = [] then None
      else
        let m = g_models ! (if f_modelIndex f < length g_models then f_modelIndex f else 0);
            provider = FindProviderById g_providers (m_providerId m);
            provider = (if provider = None \<and> g_providers \<noteq> [] then Some (hd g_providers)
                        else provider);
            tpl = (case provider of
                     Some p \<Rightarrow> FindTemplateByIO p (f_input f) (f_output f)
                   | None \<Rightarrow> None);
            tpl = (if tpl = None then FindTemplateAny g_providers (f_input f) (f_output f) else tpl)
        in Some (m, tpl))"

definition systemPrompt_of :: "FilterDefinition \<Rightarrow> wstring" where
  "systemPrompt_of f =
     (let ithing = (if f_input f = Text then ''text'' else ''image'');
          othing = (if f_output f = Text then ''text'' else ''image'')
      in ''Follow the instructions strictly and convert the input '' @ ithing @
         '' to the output '' @ othing @ ''. No additional text or comments are allowed.'')"

text \<open>
  The input of the run: the clipboard text for a text template, the clipboard bitmap as
  Base64 PNG for an image template, or the line logged when there is none (\<open>Inl\<close>).
\<close>

definition RunFilter_input :: "Platform \<Rightarrow> TemplateDefinition \<Rightarrow> wstring + wstring \<times> wstring" where
  "RunFilter_input P tpl =
     (if t_input tpl = Text then
        (let textInput = GetClipboardText P in
         if textInput = [] then Inl ''fail: no text in clipboard'' else Inr (textInput, []))
      else
        (let bmp = GetClipboardBitmap P in
         if bmp = 0 then Inl ''fail: no image in clipboard''
         else
           (case BitmapToBase64Png P bmp of
              None \<Rightarrow> Inl ''fail: base64 encode image failed''
            | Some imageB64 \<Rightarrow> Inr ([], imageB64))))"

text \<open>
  \<^verbatim>\<open>SetClipboardText\<close> throws a \<^verbatim>\<open>std::runtime_error\<close> when the clipboard cannot be
  acquired; the handler at the end of \<^verbatim>\<open>RunFilter\<close> logs its message and the function
  returns false. \<^verbatim>\<open>SetClipboardBitmap\<close> has a handler of its own.
\<close>

definition RunFilter ::
  "Platform \<Rightarrow> ApiProvider list \<Rightarrow> ModelConfig list \<Rightarrow> FilterDefinition \<Rightarrow> Run option" where
  "RunFilter P g_providers g_models f =
     do {
       let log = LogLine P (''RunFilter: '' @ f_title f @ '' input='' @ IOTypeToString P (f_input f) @
                            '' output='' @ IOTypeToString P (f_output f));
       (m, found) \<leftarrow> RunFilter_resolve g_providers g_models f;
       case found of
         None \<Rightarrow> Some (run_failed [] (log @ LogLine P ''fail: no matching template''))
       | Some tpl \<Rightarrow>
           (case RunFilter_input P tpl of
              Inl line \<Rightarrow> Some (run_failed [] (log @ LogLine P line))
            | Inr (textInput, imageB64) \<Rightarrow>
                do {
                  let systemPrompt = systemPrompt_of f;
                  let promptText = f_prompt f @ [LF, LF] @ textInput;
                  let imageDataUrl =
                    (if imageB64 = [] then [] else ''data:image/png;base64,'' @ imageB64);
                  res \<leftarrow> CallTemplate P tpl m systemPrompt promptText imageB64 imageDataUrl;
                  let log = log @ c_log res;
                  if t_output tpl = Text then
                    if r_text (c_result res) = [] then
                      Some (run_failed (c_sent res)
                        (log @ LogLine P ''fail: template returned empty text''))
                    else
                      (case SetClipboardText_throws P (r_text (c_result res)) of
                         Some what \<Rightarrow>
                           Some (run_failed (c_sent res)
                             (log @ LogLine P (''exception in RunFilter: '' @
                                MultiByteToWideChar P (takeWhile (\<lambda>c. c \<noteq> CHR 0x00) what))))
                       | None \<Rightarrow>
                           Some \<lparr>run_ok = True, run_sent = c_sent res,
                                 run_clipboardText = Some (r_text (c_result res)),
                                 run_clipboardBitmap = None, run_log = log\<rparr>)
                  else
                    if r_image (c_result res) = 0 then
                      Some (run_failed (c_sent res)
                        (log @ LogLine P ''fail: template returned no image''))
                    else if SetClipboardBitmap_throws P (r_image (c_result res)) then
                      Some (run_failed (c_sent res)
                        (log @ LogLine P ''fail: SetClipboardBitmap threw''))
                    else
                      Some \<lparr>run_ok = True, run_sent = c_sent res, run_clipboardText = None,
                            run_clipboardBitmap = Some (r_image (c_result res)), run_log = log\<rparr>
                })
     }"

section \<open>Picking a model\<close>

text \<open>
  \<^verbatim>\<open>RegexMatchNoCase\<close> builds a \<^verbatim>\<open>std::wregex\<close> with \<^verbatim>\<open>icase\<close> and searches the text; the
  platform field is that search, \<open>None\<close> when the library throws, which the function turns
  into \<open>false\<close>.
\<close>

definition RegexMatchNoCase :: "Platform \<Rightarrow> wstring \<Rightarrow> wstring \<Rightarrow> bool" where
  "RegexMatchNoCase P text pattern =
     (case regex_search_icase P text pattern of Some found \<Rightarrow> found | None \<Rightarrow> False)"

text \<open>The inner loop of \<^verbatim>\<open>PickModelByPatterns\<close>, over the models, for one pattern.\<close>

fun PickModel_inner :: "Platform \<Rightarrow> wstring list \<Rightarrow> wstring \<Rightarrow> wstring option" where
  "PickModel_inner P [] pat = None"
| "PickModel_inner P (m # ms) pat =
     (if RegexMatchNoCase P m pat then Some m else PickModel_inner P ms pat)"

text \<open>The outer loop, over the patterns, and the default after it.\<close>

fun PickModel_outer :: "Platform \<Rightarrow> wstring list \<Rightarrow> wstring list \<Rightarrow> wstring" where
  "PickModel_outer P models [] = (if models = [] then [] else hd models)"
| "PickModel_outer P models (pat # pats) =
     (case PickModel_inner P models pat of
        Some m \<Rightarrow> m
      | None \<Rightarrow> PickModel_outer P models pats)"

definition PickModelByPatterns :: "Platform \<Rightarrow> wstring list \<Rightarrow> wstring list \<Rightarrow> wstring" where
  "PickModelByPatterns P models patterns = PickModel_outer P models patterns"

section \<open>Vocabulary of the statements\<close>

text \<open>
  The text after the seven passes of \<^verbatim>\<open>ReplacePlaceholders\<close>, each pass \<open>replace_scan\<close>,
  in the order of the source.
\<close>

definition substitute ::
  "wstring \<Rightarrow> ModelConfig \<Rightarrow> wstring \<Rightarrow> wstring \<Rightarrow> wstring \<Rightarrow> wstring \<Rightarrow> bool \<Rightarrow> wstring" where
  "substitute src m systemPrompt prompt imageB64 imageDataUrl jsonEsc =
     (let esc = (\<lambda>v. if jsonEsc then JsonEscape v else v);
          out = replace_scan src ''<<model>>'' (esc (m_modelName m));
          out = replace_scan out ''<<system_prompt>>'' (esc systemPrompt);
          out = replace_scan out ''<<prompt>>'' (esc prompt);
          out = replace_scan out ''<<input_text>>'' (esc prompt);
          out = replace_scan out ''<<api_key>>'' (esc (m_apiKey m));
          out = replace_scan out ''<<image_url>>'' (esc imageDataUrl)
      in replace_scan out ''<<image>>'' (esc imageB64))"

text \<open>The header block: one line for each header pair, its value substituted.\<close>

definition rendered_headers ::
  "TemplateDefinition \<Rightarrow> ModelConfig \<Rightarrow> wstring \<Rightarrow> wstring \<Rightarrow> wstring \<Rightarrow> wstring \<Rightarrow> wstring" where
  "rendered_headers tpl m systemPrompt prompt imageB64 imageDataUrl =
     concat (map (\<lambda>kv. fst kv @ '': '' @
                         substitute (snd kv) m systemPrompt prompt imageB64 imageDataUrl False @
                         [CR, LF])
                 (t_headers tpl))"

text \<open>The endpoint a call resolves, and the payload it renders.\<close>

definition endpoint_of ::
  "TemplateDefinition \<Rightarrow> ModelConfig \<Rightarrow> wstring \<Rightarrow> wstring \<Rightarrow> wstring \<Rightarrow> wstring \<Rightarrow> Endpoint" where
  "endpoint_of tpl m systemPrompt prompt imageB64 imageDataUrl =
     PrepareEndpoint (m_serverUrl m)
       (substitute (t_endpoint tpl) m systemPrompt prompt imageB64 imageDataUrl False) True"

definition rendered_payload ::
  "TemplateDefinition \<Rightarrow> ModelConfig \<Rightarrow> wstring \<Rightarrow> wstring \<Rightarrow> wstring \<Rightarrow> wstring \<Rightarrow> wstring" where
  "rendered_payload tpl m systemPrompt prompt imageB64 imageDataUrl =
     substitute (t_payload tpl) m systemPrompt prompt imageB64 imageDataUrl True"

text \<open>A template matches a filter's kinds of input and output.\<close>

definition matches_io :: "IOType \<Rightarrow> IOType \<Rightarrow> TemplateDefinition \<Rightarrow> bool" where
  "matches_io inp outp t = (t_input t = inp \<and> t_output t = outp)"

text \<open>
  The request a call builds, the lines it logs around the dispatch, and the extraction it
  runs on a response, by the kind of output of the template.
\<close>

definition request_of ::
  "Platform \<Rightarrow> TemplateDefinition \<Rightarrow> ModelConfig \<Rightarrow> wstring \<Rightarrow> wstring \<Rightarrow> wstring \<Rightarrow> wstring \<Rightarrow> HttpRequest" where
  "request_of P tpl m systemPrompt prompt imageB64 imageDataUrl =
     (let ep = endpoint_of tpl m systemPrompt prompt imageB64 imageDataUrl;
          headers = rendered_headers tpl m systemPrompt prompt imageB64 imageDataUrl;
          multipart = ContainsNoCase headers ''multipart/form-data''
      in \<lparr>rq_host = ep_host ep, rq_path = ep_path ep, rq_useHttps = ep_useHttps ep,
          rq_headers =
            (if multipart
             then replace_scan headers ''multipart/form-data''
                    ''multipart/form-data; boundary=----cbfilterboundary''
             else headers),
          rq_body =
            (if multipart
             then BuildMultipartBody P ''----cbfilterboundary'' (m_modelName m) prompt imageB64
             else ToUtf8 P (rendered_payload tpl m systemPrompt prompt imageB64 imageDataUrl)),
          rq_method = ''POST''\<rparr>)"

definition request_log :: "Platform \<Rightarrow> HttpRequest \<Rightarrow> wstring \<Rightarrow> wstring list" where
  "request_log P req err =
     LogLine P (''request host: '' @ rq_host req) @
     LogLine P (''request path: '' @ rq_path req) @
     LogLine P (''body: '' @ MultiByteToWideChar P (takeWhile (\<lambda>c. c \<noteq> CHR 0x00) (rq_body req))) @
     (if err \<noteq> [] then LogLine P (''template request error: '' @ err) else [])"

definition extraction ::
  "Platform \<Rightarrow> TemplateDefinition \<Rightarrow> wstring \<Rightarrow> ApiCallResult \<times> wstring list" where
  "extraction P tpl resp =
     (if t_output tpl = Text then CallTemplate_text P tpl resp else CallTemplate_image P tpl resp)"

section \<open>The progress window and the guard of a filter invocation\<close>

text \<open>
  The main window and the progress window live on the thread of the message loop; every
  filter runs on a worker thread that \<^verbatim>\<open>ProgressWndProc\<close> creates in \<^verbatim>\<open>WM_CREATE\<close>. The
  state below is what the guard \<^verbatim>\<open>g_progressWnd && IsWindow(g_progressWnd)\<close> reads and
  what an invocation changes: the global \<^verbatim>\<open>g_progressWnd\<close> (0 is \<^verbatim>\<open>nullptr\<close>), the progress
  windows that exist, the worker threads that have been created and have not returned
  from \<^verbatim>\<open>RunFilter\<close>, each with the window of its \<^verbatim>\<open>ProgressWindowState\<close> and the index
  of its filter, the number of threads created so far, and the number of calls of
  \<^verbatim>\<open>MessageBeep\<close>, which only a rejected invocation makes. A new window gets a handle that
  no window had before.
\<close>

type_synonym HWND = nat

record Worker =
  wk_hwndProgress :: HWND
  wk_filter :: nat

record Process =
  g_progressWnd :: HWND
  windows :: "HWND list"
  workers :: "Worker list"
  created :: nat
  beeps :: nat

definition startup :: Process where
  "startup = \<lparr>g_progressWnd = 0, windows = [], workers = [], created = 0, beeps = 0\<rparr>"

text \<open>The guard: \<^verbatim>\<open>g_progressWnd && IsWindow(g_progressWnd)\<close>.\<close>

definition filter_running :: "Process \<Rightarrow> bool" where
  "filter_running s = (g_progressWnd s \<noteq> 0 \<and> g_progressWnd s \<in> set (windows s))"

text \<open>
  What the operating system does when the progress window is created: the window and its
  thread come to be, or \<^verbatim>\<open>CreateThread\<close> fails inside \<^verbatim>\<open>WM_CREATE\<close>, or no window is
  created at all.
\<close>

datatype Creation = Created | ThreadFailed | WindowFailed

text \<open>
  \<^verbatim>\<open>ShowProgressAndRunFilter\<close>. When \<^verbatim>\<open>CreateThread\<close> fails, \<^verbatim>\<open>WM_CREATE\<close> deletes the
  state and calls \<^verbatim>\<open>DestroyWindow\<close>, whose \<^verbatim>\<open>WM_DESTROY\<close> reads the deleted state: the
  behaviour is undefined, \<open>None\<close>.
\<close>

definition ShowProgressAndRunFilter :: "nat \<Rightarrow> Creation \<Rightarrow> Process \<Rightarrow> Process option" where
  "ShowProgressAndRunFilter i os s =
     (case os of
        Created \<Rightarrow>
          (let hwnd = Suc (created s) in
           Some (s\<lparr>windows := hwnd # windows s,
                   workers := workers s @ [\<lparr>wk_hwndProgress = hwnd, wk_filter = i\<rparr>],
                   created := Suc (created s),
                   g_progressWnd := hwnd\<rparr>))
      | ThreadFailed \<Rightarrow> None
      | WindowFailed \<Rightarrow> Some s)"

text \<open>
  \<^verbatim>\<open>ShowFilterMenuAndRun\<close>, its menu window and modal loop reduced to the choice they end
  with: the index of a filter in \<^verbatim>\<open>g_filters\<close>, or none when the menu is closed or no
  filter fits the clipboard. \<open>n\<close> is \<^verbatim>\<open>g_filters.size()\<close>.
\<close>

definition ShowFilterMenuAndRun :: "nat \<Rightarrow> nat option \<Rightarrow> Creation \<Rightarrow> Process \<Rightarrow> Process option" where
  "ShowFilterMenuAndRun n choice os s =
     (if filter_running s then Some (s\<lparr>beeps := Suc (beeps s)\<rparr>)
      else
        (case choice of
           None \<Rightarrow> Some s
         | Some i \<Rightarrow> if i < n then ShowProgressAndRunFilter i os s else Some s))"

text \<open>The case \<^verbatim>\<open>WM_HOTKEY\<close> of \<^verbatim>\<open>WndProc\<close>.\<close>

definition WndProc_WM_HOTKEY :: "nat \<Rightarrow> nat option \<Rightarrow> Creation \<Rightarrow> Process \<Rightarrow> Process option" where
  "WndProc_WM_HOTKEY n choice os s =
     (if filter_running s then Some (s\<lparr>beeps := Suc (beeps s)\<rparr>)
      else ShowFilterMenuAndRun n choice os s)"

text \<open>
  \<^verbatim>\<open>WM_DESTROY\<close> of the progress window: the state is deleted and \<^verbatim>\<open>g_progressWnd\<close> is
  reset. It is reached from \<^verbatim>\<open>WM_APP_FILTER_COMPLETE\<close>, and from \<^verbatim>\<open>WM_CLOSE\<close>, which
  \<^verbatim>\<open>ProgressWndProc\<close> leaves to \<^verbatim>\<open>DefWindowProcW\<close>.
\<close>

definition ProgressWndProc_WM_DESTROY :: "HWND \<Rightarrow> Process \<Rightarrow> Process" where
  "ProgressWndProc_WM_DESTROY hwnd s =
     s\<lparr>windows := removeAll hwnd (windows s), g_progressWnd := 0\<rparr>"

text \<open>
  The end of \<^verbatim>\<open>RunFilterThread\<close> for the worker at position \<open>k\<close>: it stores the result in
  its state and posts \<^verbatim>\<open>WM_APP_FILTER_COMPLETE\<close> to its window, which destroys itself.
  When the window is gone its state has been deleted, and the store is undefined
  behaviour.
\<close>

definition RunFilterThread_returns :: "nat \<Rightarrow> Process \<Rightarrow> Process option" where
  "RunFilterThread_returns k s =
     (if k < length (workers s) then
        (let w = workers s ! k; rest = take k (workers s) @ drop (Suc k) (workers s) in
         if wk_hwndProgress w \<in> set (windows s)
         then Some (ProgressWndProc_WM_DESTROY (wk_hwndProgress w) (s\<lparr>workers := rest\<rparr>))
         else None)
      else Some s)"

text \<open>
  \<^verbatim>\<open>WM_CLOSE\<close> for the progress window, which the message loop posts on Escape and the
  close box of the window sends: the window is destroyed, the worker is not told.
\<close>

definition ProgressWndProc_WM_CLOSE :: "Process \<Rightarrow> Process" where
  "ProgressWndProc_WM_CLOSE s =
     (if filter_running s then ProgressWndProc_WM_DESTROY (g_progressWnd s) s else s)"

datatype Event =
    Hotkey "nat option" Creation
  | Menu "nat option" Creation
  | WorkerReturns nat
  | CloseProgress

fun step :: "nat \<Rightarrow> Event \<Rightarrow> Process \<Rightarrow> Process option" where
  "step n (Hotkey choice os) s = WndProc_WM_HOTKEY n choice os s"
| "step n (Menu choice os) s = ShowFilterMenuAndRun n choice os s"
| "step n (WorkerReturns k) s = RunFilterThread_returns k s"
| "step n CloseProgress s = Some (ProgressWndProc_WM_CLOSE s)"

fun run_events :: "nat \<Rightarrow> Event list \<Rightarrow> Process \<Rightarrow> Process option" where
  "run_events n [] s = Some s"
| "run_events n (e # es) s = (case step n e s of None \<Rightarrow> None | Some s' \<Rightarrow> run_events n es s')"

section \<open>A sample platform and a sample catalog\<close>

text \<open>
  Concrete inputs for the examples: three responses with their parsed values, a platform
  that knows them, and a catalog of one provider. The sample platform converts ASCII text
  unchanged, parses and prints only the values listed, and answers every request with
  status 200 and the first response, in two chunks.
\<close>

definition hello_response :: wstring where
  \<open>hello_response = ''{"choices":[{"message":{"content":"hello"}}]}''\<close>

definition hello_json :: json where
  "hello_json =
     JObject [(''choices'', JArray [JObject [(''message'', JObject [(''content'', JString ''hello'')])]])]"

definition there_response :: wstring where
  \<open>there_response =
     ''{"message":{"content":"hi '' @ [BSLASH, DQUOTE] @ ''there'' @ [BSLASH, DQUOTE, DQUOTE] @ ''}}''\<close>

definition there_json :: json where
  "there_json =
     JObject [(''message'',
       JObject [(''content'', JString (''hi '' @ [DQUOTE] @ ''there'' @ [DQUOTE]))])]"

definition items_response :: wstring where
  \<open>items_response = ''{"items":["a"]}''\<close>

definition items_json :: json where
  "items_json = JObject [(''items'', JArray [JString ''a''])]"

definition http_reply :: "nat \<Rightarrow> wstring list \<Rightarrow> WinHttpOutcome" where
  "http_reply status chunks =
     \<lparr>wh_open = True, wh_connect = True, wh_openRequest = True, wh_sendRequest = True,
      wh_receiveResponse = True, wh_lastError = 0, wh_status = Some status, wh_chunks = chunks,
      wh_readError = False\<rparr>"

text \<open>
  A matcher for the part of the regular expression grammar the examples use: a character,
  a dot, each with an optional star; the search is anywhere in the text and ignores case.
\<close>

fun rx_tokens :: "wstring \<Rightarrow> (char option \<times> bool) list" where
  "rx_tokens [] = []"
| "rx_tokens [c] = [(if c = CHR ''.'' then None else Some (towlower c), False)]"
| "rx_tokens (c # d # cs) =
     (if d = CHR ''*'' then (if c = CHR ''.'' then None else Some (towlower c), True) # rx_tokens cs
      else (if c = CHR ''.'' then None else Some (towlower c), False) # rx_tokens (d # cs))"

definition rx_atom :: "char option \<Rightarrow> char \<Rightarrow> bool" where
  "rx_atom a c = (case a of None \<Rightarrow> True | Some l \<Rightarrow> towlower c = l)"

fun rx_here :: "(char option \<times> bool) list \<Rightarrow> wstring \<Rightarrow> bool" where
  "rx_here [] text = True"
| "rx_here ((a, False) # ts) [] = False"
| "rx_here ((a, False) # ts) (c # cs) = (rx_atom a c \<and> rx_here ts cs)"
| "rx_here ((a, True) # ts) [] = rx_here ts []"
| "rx_here ((a, True) # ts) (c # cs) =
     (rx_here ts (c # cs) \<or> (rx_atom a c \<and> rx_here ((a, True) # ts) cs))"

fun rx_search :: "(char option \<times> bool) list \<Rightarrow> wstring \<Rightarrow> bool" where
  "rx_search ts [] = rx_here ts []"
| "rx_search ts (c # cs) = (rx_here ts (c # cs) \<or> rx_search ts cs)"

definition sample_platform :: Platform where
  "sample_platform =
     \<lparr>DEBUG = True,
      GetString = (\<lambda>key. key),
      WideCharToMultiByte = (\<lambda>w. w),
      MultiByteToWideChar = (\<lambda>s. s),
      CryptStringToBinary = (\<lambda>b64. if b64 = ''UE5H'' then Some ''PNG'' else None),
      JsonParse = map_of [(hello_response, hello_json), (there_response, there_json),
                          (items_response, items_json)],
      Stringify = (\<lambda>v. case map_of [(JArray [JString ''a''], [CHR ''['', DQUOTE, CHR ''a'', DQUOTE, CHR '']''])] v of
                           Some s \<Rightarrow> s | None \<Rightarrow> ''null''),
      regex_search_icase = (\<lambda>text pattern. Some (rx_search (rx_tokens pattern) text)),
      WinHttp = (\<lambda>req. http_reply 200 [take 20 hello_response, drop 20 hello_response]),
      GetClipboardText = ''bonjour'',
      GetClipboardBitmap = 0,
      BitmapToBase64Png = (\<lambda>bmp. None),
      Base64ToBitmap = (\<lambda>b64. 0),
      SetClipboardText_throws = (\<lambda>text. None),
      SetClipboardBitmap_throws = (\<lambda>bmp. False)\<rparr>"

definition chat_template :: TemplateDefinition where
  \<open>chat_template =
     \<lparr>t_id = ''text-text'', t_providerId = ''OpenAI'', t_input = Text, t_output = Text,
      t_endpoint = ''/chat/completions'', t_resultPath = ''choices[0].message.content'',
      t_headers = [(''Content-Type'', ''application/json''), (''Authorization'', ''Bearer <<api_key>>'')],
      t_payload = ''{"model":"<<model>>","input":"<<prompt>>"}''\<rparr>\<close>

definition edit_template :: TemplateDefinition where
  "edit_template =
     \<lparr>t_id = ''image-image'', t_providerId = ''OpenAI'', t_input = Image, t_output = Image,
      t_endpoint = ''/images/edits'', t_resultPath = [],
      t_headers = [(''Content-Type'', ''multipart/form-data'')],
      t_payload = []\<rparr>"

definition openai :: ApiProvider where
  "openai =
     \<lparr>p_id = ''OpenAI'', p_defaultEndpoint = ''https://api.openai.com/v1'',
      p_templates = [chat_template, edit_template],
      p_modelsEndpoint = ''/models'', p_modelsMethod = ''GET'', p_modelsHeaders = [],
      p_modelsPayload = [], p_modelsResultPath = ''data''\<rparr>"

definition sample_models :: "ModelConfig list" where
  "sample_models =
     [\<lparr>m_name = ''First'', m_serverUrl = ''https://api.openai.com/v1'', m_modelName = ''gpt-4o'',
       m_apiKey = ''sk-1'', m_providerId = ''Elsewhere''\<rparr>,
      \<lparr>m_name = ''Second'', m_serverUrl = ''https://api.openai.com/v1'', m_modelName = ''gpt-4o-mini'',
       m_apiKey = ''sk-2'', m_providerId = ''OpenAI''\<rparr>]"

definition sample_filter :: FilterDefinition where
  "sample_filter =
     \<lparr>f_title = ''Translate'', f_input = Text, f_output = Text, f_modelIndex = 7,
      f_prompt = ''Translate to English.''\<rparr>"

text \<open>
  The provider a model resolves to, the one with the model's provider id and the first of
  the catalog when there is none; and the template a filter resolves to, the first match
  within that provider, then the first match of the whole catalog in order.
\<close>

definition provider_of :: "ApiProvider list \<Rightarrow> ModelConfig \<Rightarrow> ApiProvider option" where
  "provider_of g_providers m =
     (case find (\<lambda>p. p_id p = m_providerId m) g_providers of
        Some p \<Rightarrow> Some p
      | None \<Rightarrow> (case g_providers of [] \<Rightarrow> None | first # _ \<Rightarrow> Some first))"

definition template_of ::
  "ApiProvider list \<Rightarrow> ModelConfig \<Rightarrow> IOType \<Rightarrow> IOType \<Rightarrow> TemplateDefinition option" where
  "template_of g_providers m inp outp =
     (case (case provider_of g_providers m of
              Some p \<Rightarrow> find (matches_io inp outp) (p_templates p)
            | None \<Rightarrow> None) of
        Some t \<Rightarrow> Some t
      | None \<Rightarrow> find (matches_io inp outp) (concat (map p_templates g_providers)))"

text \<open>
  For the leak of the API key: a model with a given key, a platform whose clipboard holds
  the token of the key, and the body that a run then sends.
\<close>

definition keyed_model :: "wstring \<Rightarrow> ModelConfig" where
  "keyed_model key =
     \<lparr>m_name = ''First'', m_serverUrl = ''https://api.openai.com/v1'', m_modelName = ''gpt-4o'',
      m_apiKey = key, m_providerId = ''OpenAI''\<rparr>"

definition injection_platform :: Platform where
  "injection_platform = sample_platform\<lparr>GetClipboardText := ''<<api_key>>''\<rparr>"

definition leaked_body :: "wstring \<Rightarrow> string" where
  \<open>leaked_body key =
     ''{"model":"gpt-4o","input":"Translate to English.'' @ [BSLASH, CHR ''n'', BSLASH, CHR ''n''] @
     key @ ''"}''\<close>

text \<open>
  Two more platforms: one whose server answers status 500 with the second response as
  body, one whose request cannot be sent.
\<close>

definition failing_platform :: Platform where
  "failing_platform = sample_platform\<lparr>WinHttp := (\<lambda>req. http_reply 500 [there_response])\<rparr>"

definition offline_platform :: Platform where
  "offline_platform =
     sample_platform\<lparr>WinHttp := (\<lambda>req. (http_reply 0 [])\<lparr>wh_sendRequest := False, wh_lastError := 12029\<rparr>)\<rparr>"

text \<open>A platform whose clipboard holds no text.\<close>

definition empty_clipboard_platform :: Platform where
  "empty_clipboard_platform = sample_platform\<lparr>GetClipboardText := []\<rparr>"

text \<open>
  For the transport errors: the failing platform in a build that does not log; a platform
  whose body reading fails after thirty characters of the second response; and a
  template, a provider, a filter and a platform for a run from text to image, whose server
  answers status 500 with an image as a data URL.
\<close>

definition release_platform :: Platform where
  "release_platform = failing_platform\<lparr>DEBUG := False\<rparr>"

definition truncated_platform :: Platform where
  "truncated_platform =
     sample_platform\<lparr>WinHttp := (\<lambda>req. (http_reply 200 [take 30 there_response])\<lparr>wh_readError := True\<rparr>)\<rparr>"

definition image_response :: wstring where
  \<open>image_response = ''{"data":[{"b64_json":"data:image/png;base64,UE5H"}]}''\<close>

definition draw_template :: TemplateDefinition where
  "draw_template = chat_template\<lparr>t_id := ''text-image'', t_output := Image, t_resultPath := []\<rparr>"

definition painter :: ApiProvider where
  "painter = openai\<lparr>p_templates := [draw_template]\<rparr>"

definition draw_filter :: FilterDefinition where
  "draw_filter = sample_filter\<lparr>f_title := ''Draw'', f_output := Image\<rparr>"

definition draw_platform :: Platform where
  "draw_platform =
     sample_platform\<lparr>WinHttp := (\<lambda>req. http_reply 500 [image_response]),
                      Base64ToBitmap := (\<lambda>b64. if b64 = ''UE5H'' then 7 else 0)\<rparr>"

text \<open>A template whose header spells the content type in mixed case.\<close>

definition mixed_case_template :: TemplateDefinition where
  "mixed_case_template = edit_template\<lparr>t_headers := [(''Content-Type'', ''Multipart/Form-Data'')]\<rparr>"

section \<open>Substitution: the loop and the single pass\<close>

lemma find_first_None_scan:
  "find_first xs frm = None \<Longrightarrow> replace_scan xs frm to = xs"
  by (induction xs) (auto split: if_splits)

lemma find_first_bound:
  "find_first xs frm = Some i \<Longrightarrow> i + length frm \<le> length xs"
proof (induction xs arbitrary: i)
  case Nil
  then show ?case by (simp split: if_splits)
next
  case (Cons c cs)
  show ?case
  proof (cases "prefix frm (c # cs)")
    case True
    with Cons.prems have "i = 0" by simp
    with prefix_length_le [OF True] show ?thesis by simp
  next
    case False
    with Cons.prems obtain j where j: "find_first cs frm = Some j" "i = Suc j" by auto
    from Cons.IH [OF j(1)] j(2) show ?thesis by simp
  qed
qed

lemma find_first_Some_scan:
  "find_first xs frm = Some i \<Longrightarrow> frm \<noteq> [] \<Longrightarrow>
   replace_scan xs frm to = take i xs @ to @ replace_scan (drop (i + length frm) xs) frm to"
proof (induction xs arbitrary: i)
  case Nil
  then show ?case by (simp split: if_splits)
next
  case (Cons c cs)
  show ?case
  proof (cases "prefix frm (c # cs)")
    case True
    with Cons.prems have i: "i = 0" by simp
    from Cons.prems(2) have "drop (length frm) (c # cs) = drop (length frm - 1) cs"
      by (cases frm) simp_all
    with True i show ?thesis by simp
  next
    case False
    with Cons.prems obtain j where j: "find_first cs frm = Some j" "i = Suc j" by auto
    from Cons.IH [OF j(1) Cons.prems(2)] False j(2) show ?thesis by simp
  qed
qed

lemma ReplaceAll_loop_scan:
  "frm \<noteq> [] \<Longrightarrow> pos \<le> length s \<Longrightarrow>
   ReplaceAll_loop s frm to pos = Some (take pos s @ replace_scan (drop pos s) frm to)"
proof (induction "length s - pos" arbitrary: s pos rule: less_induct)
  case less
  show ?case
  proof (cases "find_first (drop pos s) frm")
    case None
    with less.prems have "wfind s frm pos = None" by (simp add: wfind_def)
    with None show ?thesis
      by (subst ReplaceAll_loop.simps) (simp add: find_first_None_scan)
  next
    case (Some i)
    let ?p = "pos + i"
    let ?s' = "wreplace s ?p (length frm) to"
    from Some less.prems have wf: "wfind s frm pos = Some ?p" by (simp add: wfind_def)
    from find_first_bound [OF Some] less.prems have bound: "?p + length frm \<le> length s"
      by simp
    have len: "length ?s' = ?p + length to + (length s - (?p + length frm))"
      using bound by (simp add: wreplace_def)
    have smaller: "length ?s' - (?p + length to) < length s - pos"
      using bound less.prems(1) len by (cases frm) simp_all
    have tk: "take (?p + length to) ?s' = take ?p s @ to"
      using bound by (simp add: wreplace_def)
    have dr: "drop (?p + length to) ?s' = drop (?p + length frm) s"
      using bound by (simp add: wreplace_def)
    have "ReplaceAll_loop s frm to pos = ReplaceAll_loop ?s' frm to (?p + length to)"
      by (subst ReplaceAll_loop.simps) (simp add: wf)
    also have "\<dots> = Some (take (?p + length to) ?s' @
                        replace_scan (drop (?p + length to) ?s') frm to)"
      using less.hyps [OF smaller less.prems(1)] len by simp
    also have "\<dots> = Some (take ?p s @ to @ replace_scan (drop (?p + length frm) s) frm to)"
      by (simp add: tk dr)
    also have "take ?p s = take pos s @ take i (drop pos s)"
      by (simp add: take_add)
    finally show ?thesis
      using find_first_Some_scan [OF Some less.prems(1), of to]
      by (simp add: ac_simps)
  qed
qed

lemma ReplaceAll_scan:
  "frm \<noteq> [] \<Longrightarrow> ReplaceAll s frm to = Some (replace_scan s frm to)"
  by (simp add: ReplaceAll_def ReplaceAll_loop_scan)

section \<open>Endpoint resolution\<close>

lemma https_not_http: "starts_with s ''https://'' \<Longrightarrow> \<not> starts_with s ''http://''"
  by (auto simp: starts_with_def prefix_def)

lemma default_not_absolute: "\<not> is_absolute_url ''/v1/chat/completions''"
  by (simp add: is_absolute_url_def starts_with_def)

lemma find_first_prefix:
  "find_first xs frm = Some i \<Longrightarrow> prefix frm (drop i xs)"
proof (induction xs arbitrary: i)
  case Nil
  then show ?case by (simp split: if_splits)
next
  case (Cons c cs)
  show ?case
  proof (cases "prefix frm (c # cs)")
    case True
    with Cons.prems show ?thesis by simp
  next
    case False
    with Cons.prems obtain j where j: "find_first cs frm = Some j" "i = Suc j" by auto
    from Cons.IH [OF j(1)] j(2) show ?thesis by simp
  qed
qed

lemma wfind_0: "wfind h n 0 = find_first h n"
  by (cases "find_first h n") (simp_all add: wfind_def)

lemma wfind_slash_hd:
  assumes "wfind h ''/'' 0 = Some k"
  shows "drop k h \<noteq> [] \<and> hd (drop k h) = CHR ''/''"
proof -
  from assms have "prefix ''/'' (drop k h)"
    by (simp add: wfind_0 find_first_prefix)
  then show ?thesis by (auto simp: prefix_def)
qed

lemma wfind_slash_lt: "wfind h ''/'' 0 = Some k \<Longrightarrow> k < length h"
  using wfind_slash_hd [of h k] by (cases "k < length h") simp_all

lemma wfind_slash_hd_append: "wfind h ''/'' 0 = Some k \<Longrightarrow> hd (drop k h @ s) = CHR ''/''"
  using wfind_slash_hd [of h k] by simp

lemma PrepareEndpoint_unfold:
  "PrepareEndpoint serverUrl tplPath u =
     (let host0 = strip_scheme (scheme_carrier serverUrl tplPath);
          sfx = path_suffix tplPath;
          secure = (if starts_with (scheme_carrier serverUrl tplPath) ''https://'' then True
                    else if starts_with (scheme_carrier serverUrl tplPath) ''http://'' then False else u)
      in case wfind host0 ''/'' 0 of
           Some k \<Rightarrow> \<lparr>ep_valid = (take k host0 \<noteq> []), ep_host = take k host0,
                      ep_path = drop k host0 @ sfx, ep_useHttps = secure\<rparr>
         | None \<Rightarrow> \<lparr>ep_valid = (host0 \<noteq> []), ep_host = host0,
                     ep_path = (if sfx \<noteq> [] \<and> hd sfx \<noteq> CHR ''/'' then ''/'' @ sfx else sfx),
                     ep_useHttps = secure\<rparr>)"
proof -
  let ?path1 = "if tplPath = [] then ''/v1/chat/completions'' else tplPath"
  have a: "(starts_with ?path1 ''http://'' \<or> starts_with ?path1 ''https://'') = is_absolute_url tplPath"
    by (simp add: is_absolute_url_def starts_with_def)
  have nonempty: "is_absolute_url tplPath \<Longrightarrow> tplPath \<noteq> []"
    by (auto simp: is_absolute_url_def starts_with_def)
  have h2: "(if is_absolute_url tplPath then ?path1 else serverUrl) = scheme_carrier serverUrl tplPath"
    using nonempty by (simp add: scheme_carrier_def)
  have p2: "(if is_absolute_url tplPath then [] else ?path1) = path_suffix tplPath"
    using nonempty by (auto simp add: path_suffix_def)
  let ?c = "scheme_carrier serverUrl tplPath"
  have h3: "(if starts_with ?c ''https://'' then drop 8 ?c
             else if starts_with ?c ''http://'' then drop 7 ?c else ?c) = strip_scheme ?c"
    by (simp add: strip_scheme_def)
  have e: "(if path_suffix tplPath = [] then [] else path_suffix tplPath) = path_suffix tplPath"
    by simp
  have step: "PrepareEndpoint serverUrl tplPath u =
     (let host3 = strip_scheme ?c; sfx = path_suffix tplPath;
          secure = (if starts_with ?c ''https://'' then True
                    else if starts_with ?c ''http://'' then False else u);
          slash = wfind host3 ''/'' 0;
          path4 = (case slash of Some sl \<Rightarrow> drop sl host3 @ sfx | None \<Rightarrow> sfx);
          host4 = (case slash of Some sl \<Rightarrow> take sl host3 | None \<Rightarrow> host3);
          path5 = (if path4 \<noteq> [] \<and> hd path4 \<noteq> CHR ''/'' then ''/'' @ path4 else path4)
      in \<lparr>ep_valid = (host4 \<noteq> []), ep_host = host4, ep_path = path5, ep_useHttps = secure\<rparr>)"
    unfolding PrepareEndpoint_def Let_def a h2 p2 h3 e ..
  show ?thesis
    by (simp add: step Let_def wfind_slash_lt wfind_slash_hd_append
        wfind_slash_hd [THEN conjunct2] split: option.split)
qed

lemma not_both_schemes: "starts_with s ''http://'' \<Longrightarrow> \<not> starts_with s ''https://''"
  using https_not_http by blast

text \<open>
  Claim C6. Endpoint resolution fails exactly when the resolved host is empty; an empty
  fragment stands for \<^verbatim>\<open>/v1/chat/completions\<close>; an absolute fragment replaces the server
  base, so the result does not depend on the base; the scheme on the string that carries
  it sets the secure flag, \<^verbatim>\<open>https://\<close> to true and \<^verbatim>\<open>http://\<close> to false; when the host
  string, its scheme stripped, has a slash at index \<open>k\<close>, the host is what precedes it and
  the path is the rest followed by the fragment's suffix; without a slash the host is the
  whole stripped string and the path is the fragment's suffix (the fragment, or the default
  for the empty fragment), with a slash put before it when it does not begin with one;
  a string without a scheme leaves the secure flag as the caller set it; every non-empty
  path begins with a slash.
\<close>

theorem PrepareEndpoint_contract:
  "(ep_valid (PrepareEndpoint s f u) \<longleftrightarrow> ep_host (PrepareEndpoint s f u) \<noteq> [])
   \<and> PrepareEndpoint s [] u = PrepareEndpoint s ''/v1/chat/completions'' u
   \<and> (is_absolute_url f \<longrightarrow> PrepareEndpoint s f u = PrepareEndpoint s' f u)
   \<and> (starts_with (scheme_carrier s f) ''https://'' \<longrightarrow> ep_useHttps (PrepareEndpoint s f u))
   \<and> (starts_with (scheme_carrier s f) ''http://'' \<longrightarrow> \<not> ep_useHttps (PrepareEndpoint s f u))
   \<and> (\<forall>k. wfind (strip_scheme (scheme_carrier s f)) ''/'' 0 = Some k \<longrightarrow>
          ep_host (PrepareEndpoint s f u) = take k (strip_scheme (scheme_carrier s f)) \<and>
          ep_path (PrepareEndpoint s f u) = drop k (strip_scheme (scheme_carrier s f)) @ path_suffix f)
   \<and> (wfind (strip_scheme (scheme_carrier s f)) ''/'' 0 = None \<longrightarrow>
          ep_host (PrepareEndpoint s f u) = strip_scheme (scheme_carrier s f) \<and>
          ep_path (PrepareEndpoint s f u) =
            (if path_suffix f \<noteq> [] \<and> hd (path_suffix f) \<noteq> CHR ''/'' then ''/'' @ path_suffix f
             else path_suffix f))
   \<and> (\<not> starts_with (scheme_carrier s f) ''https://'' \<and>
      \<not> starts_with (scheme_carrier s f) ''http://'' \<longrightarrow>
          ep_useHttps (PrepareEndpoint s f u) = u)
   \<and> (ep_path (PrepareEndpoint s f u) \<noteq> [] \<longrightarrow> hd (ep_path (PrepareEndpoint s f u)) = CHR ''/'')"
proof (intro conjI impI allI)
  show "ep_valid (PrepareEndpoint s f u) \<longleftrightarrow> ep_host (PrepareEndpoint s f u) \<noteq> []"
    by (simp add: PrepareEndpoint_unfold Let_def split: option.split)
  show "PrepareEndpoint s [] u = PrepareEndpoint s ''/v1/chat/completions'' u"
    by (simp add: PrepareEndpoint_unfold scheme_carrier_def path_suffix_def is_absolute_url_def
        starts_with_def)
  show "PrepareEndpoint s f u = PrepareEndpoint s' f u" if "is_absolute_url f"
    using that by (simp add: PrepareEndpoint_unfold scheme_carrier_def)
  show "ep_useHttps (PrepareEndpoint s f u)" if "starts_with (scheme_carrier s f) ''https://''"
    using that by (simp add: PrepareEndpoint_unfold Let_def split: option.split)
  show "\<not> ep_useHttps (PrepareEndpoint s f u)" if "starts_with (scheme_carrier s f) ''http://''"
    using that not_both_schemes [OF that]
    by (simp add: PrepareEndpoint_unfold Let_def split: option.split)
  show "ep_host (PrepareEndpoint s f u) = take k (strip_scheme (scheme_carrier s f))"
    if "wfind (strip_scheme (scheme_carrier s f)) ''/'' 0 = Some k" for k
    using that by (simp add: PrepareEndpoint_unfold Let_def)
  show "ep_path (PrepareEndpoint s f u) = drop k (strip_scheme (scheme_carrier s f)) @ path_suffix f"
    if "wfind (strip_scheme (scheme_carrier s f)) ''/'' 0 = Some k" for k
    using that by (simp add: PrepareEndpoint_unfold Let_def)
  show "ep_host (PrepareEndpoint s f u) = strip_scheme (scheme_carrier s f)"
    if "wfind (strip_scheme (scheme_carrier s f)) ''/'' 0 = None"
    using that by (simp add: PrepareEndpoint_unfold Let_def)
  show "ep_path (PrepareEndpoint s f u) =
      (if path_suffix f \<noteq> [] \<and> hd (path_suffix f) \<noteq> CHR ''/'' then ''/'' @ path_suffix f
       else path_suffix f)"
    if "wfind (strip_scheme (scheme_carrier s f)) ''/'' 0 = None"
    using that by (simp add: PrepareEndpoint_unfold Let_def)
  show "ep_useHttps (PrepareEndpoint s f u) = u"
    if "\<not> starts_with (scheme_carrier s f) ''https://'' \<and>
      \<not> starts_with (scheme_carrier s f) ''http://''"
    using that by (simp add: PrepareEndpoint_unfold Let_def split: option.split)
  show "hd (ep_path (PrepareEndpoint s f u)) = CHR ''/''" if "ep_path (PrepareEndpoint s f u) \<noteq> []"
    using that
    by (simp add: PrepareEndpoint_unfold Let_def wfind_slash_hd_append
        wfind_slash_hd [THEN conjunct2] split: option.splits if_splits)
qed


theorem PrepareEndpoint_contract_witness:
  "is_absolute_url ''http://localhost:8080/api''
   \<and> PrepareEndpoint ''https://a.example'' ''http://localhost:8080/api'' True =
       PrepareEndpoint ''b.example/x'' ''http://localhost:8080/api'' True
   \<and> starts_with (scheme_carrier ''https://a.example'' ''http://localhost:8080/api'') ''http://''
   \<and> \<not> ep_useHttps (PrepareEndpoint ''https://a.example'' ''http://localhost:8080/api'' True)
   \<and> wfind (strip_scheme (scheme_carrier ''https://a.example'' ''http://localhost:8080/api''))
         ''/'' 0 = Some 14
   \<and> ep_host (PrepareEndpoint ''https://a.example'' ''http://localhost:8080/api'' True) =
       ''localhost:8080''
   \<and> ep_path (PrepareEndpoint ''https://a.example'' ''http://localhost:8080/api'' True) = ''/api''
   \<and> hd (ep_path (PrepareEndpoint ''https://a.example'' ''http://localhost:8080/api'' True)) =
       CHR ''/''
   \<and> ep_valid (PrepareEndpoint ''https://a.example'' ''http://localhost:8080/api'' True)
   \<and> starts_with (scheme_carrier ''https://a.example'' []) ''https://''
   \<and> ep_useHttps (PrepareEndpoint ''https://a.example'' [] False)
   \<and> wfind (strip_scheme (scheme_carrier ''https://a.example'' [])) ''/'' 0 = None
   \<and> ep_host (PrepareEndpoint ''https://a.example'' [] False) = ''a.example''
   \<and> ep_path (PrepareEndpoint ''https://a.example'' [] False) = ''/v1/chat/completions''
   \<and> \<not> starts_with (scheme_carrier ''a.example'' ''v1/x'') ''https://''
   \<and> \<not> starts_with (scheme_carrier ''a.example'' ''v1/x'') ''http://''
   \<and> wfind (strip_scheme (scheme_carrier ''a.example'' ''v1/x'')) ''/'' 0 = None
   \<and> ep_host (PrepareEndpoint ''a.example'' ''v1/x'' True) = ''a.example''
   \<and> ep_path (PrepareEndpoint ''a.example'' ''v1/x'' True) = ''/v1/x''
   \<and> ep_useHttps (PrepareEndpoint ''a.example'' ''v1/x'' True)"
proof -
  let ?s = "''https://a.example''" and ?f = "''http://localhost:8080/api''"
  have abs: "is_absolute_url ?f"
    by (simp add: is_absolute_url_def starts_with_def)
  have carrier: "scheme_carrier ?s ?f = ?f"
    by (simp add: scheme_carrier_def abs)
  have http: "starts_with (scheme_carrier ?s ?f) ''http://''"
    by (simp add: carrier starts_with_def)
  have stripped: "strip_scheme (scheme_carrier ?s ?f) = ''localhost:8080/api''"
    by (simp add: carrier strip_scheme_def starts_with_def)
  have slash: "wfind (strip_scheme (scheme_carrier ?s ?f)) ''/'' 0 = Some 14"
    by (simp add: stripped wfind_0)
  have sfx: "path_suffix ?f = []"
    by (simp add: path_suffix_def abs)
  have carrier': "scheme_carrier ?s [] = ?s"
    by (simp add: scheme_carrier_def is_absolute_url_def starts_with_def)
  have https: "starts_with (scheme_carrier ?s []) ''https://''"
    by (simp add: carrier' starts_with_def)
  have none: "wfind (strip_scheme (scheme_carrier ?s [])) ''/'' 0 = None"
    by (simp add: carrier' strip_scheme_def starts_with_def wfind_0)
  have stripped': "strip_scheme (scheme_carrier ?s []) = ''a.example''"
    by (simp add: carrier' strip_scheme_def starts_with_def)
  note c1 = PrepareEndpoint_contract [of ?s ?f True "''b.example/x''"]
  note c2 = PrepareEndpoint_contract [of ?s "[]" False "[]"]
  from c1 abs have indep: "PrepareEndpoint ?s ?f True = PrepareEndpoint ''b.example/x'' ?f True"
    by blast
  from c1 http have insecure: "\<not> ep_useHttps (PrepareEndpoint ?s ?f True)"
    by blast
  from c1 slash
  have "ep_host (PrepareEndpoint ?s ?f True) = take 14 (strip_scheme (scheme_carrier ?s ?f))"
    and "ep_path (PrepareEndpoint ?s ?f True) =
         drop 14 (strip_scheme (scheme_carrier ?s ?f)) @ path_suffix ?f"
    by blast+
  then have hp: "ep_host (PrepareEndpoint ?s ?f True) = ''localhost:8080''"
    "ep_path (PrepareEndpoint ?s ?f True) = ''/api''"
    by (simp_all add: stripped sfx)
  from c1 have "ep_path (PrepareEndpoint ?s ?f True) \<noteq> [] \<longrightarrow>
      hd (ep_path (PrepareEndpoint ?s ?f True)) = CHR ''/''"
    and "ep_valid (PrepareEndpoint ?s ?f True) \<longleftrightarrow> ep_host (PrepareEndpoint ?s ?f True) \<noteq> []"
    by blast+
  with hp have part1': "hd (ep_path (PrepareEndpoint ?s ?f True)) = CHR ''/''"
    "ep_valid (PrepareEndpoint ?s ?f True)"
    by simp_all
  from c2 https have secure: "ep_useHttps (PrepareEndpoint ?s [] False)"
    by blast
  from c2 none have "ep_host (PrepareEndpoint ?s [] False) = strip_scheme (scheme_carrier ?s [])"
    and "ep_path (PrepareEndpoint ?s [] False) =
      (if path_suffix [] \<noteq> [] \<and> hd (path_suffix []) \<noteq> CHR ''/'' then ''/'' @ path_suffix []
       else path_suffix [])"
    by blast+
  then have host': "ep_host (PrepareEndpoint ?s [] False) = ''a.example''"
    and path': "ep_path (PrepareEndpoint ?s [] False) = ''/v1/chat/completions''"
    by (simp_all add: stripped' path_suffix_def)
  let ?b = "''a.example''" and ?g = "''v1/x''"
  have rel: "\<not> is_absolute_url ?g"
    by (simp add: is_absolute_url_def starts_with_def)
  have carrier'': "scheme_carrier ?b ?g = ?b"
    by (simp add: scheme_carrier_def rel)
  have bare: "\<not> starts_with (scheme_carrier ?b ?g) ''https://''"
    "\<not> starts_with (scheme_carrier ?b ?g) ''http://''"
    by (simp_all add: carrier'' starts_with_def)
  have stripped'': "strip_scheme (scheme_carrier ?b ?g) = ''a.example''"
    by (simp add: carrier'' strip_scheme_def starts_with_def)
  have none': "wfind (strip_scheme (scheme_carrier ?b ?g)) ''/'' 0 = None"
    by (simp add: stripped'' wfind_0)
  have sfx': "path_suffix ?g = ''v1/x''"
    by (simp add: path_suffix_def rel)
  note c3 = PrepareEndpoint_contract [of ?b ?g True "[]"]
  from c3 none' have "ep_host (PrepareEndpoint ?b ?g True) = strip_scheme (scheme_carrier ?b ?g)"
    and "ep_path (PrepareEndpoint ?b ?g True) =
      (if path_suffix ?g \<noteq> [] \<and> hd (path_suffix ?g) \<noteq> CHR ''/'' then ''/'' @ path_suffix ?g
       else path_suffix ?g)"
    by blast+
  then have hp'': "ep_host (PrepareEndpoint ?b ?g True) = ''a.example''"
    "ep_path (PrepareEndpoint ?b ?g True) = ''/v1/x''"
    by (simp_all add: stripped'' sfx')
  from c3 bare have flag: "ep_useHttps (PrepareEndpoint ?b ?g True)"
    by blast
  from abs http slash https none indep insecure hp part1' secure host' path' bare none' hp'' flag
  show ?thesis
    by (intro conjI)
qed

section \<open>What a call to a template does\<close>

lemma ReplacePlaceholders_substitute:
  "ReplacePlaceholders src m systemPrompt prompt imageB64 imageDataUrl jsonEsc =
   Some (substitute src m systemPrompt prompt imageB64 imageDataUrl jsonEsc)"
  by (simp add: ReplacePlaceholders_def substitute_def ReplaceAll_scan Let_def)

lemma BuildHeaderString_loop_eq:
  "BuildHeaderString_loop kvs m systemPrompt prompt imageB64 imageDataUrl header =
   Some (header @ concat (map (\<lambda>kv. fst kv @ '': '' @
           substitute (snd kv) m systemPrompt prompt imageB64 imageDataUrl False @ [CR, LF]) kvs))"
  by (induction kvs arbitrary: header) (simp_all add: ReplacePlaceholders_substitute)

lemma BuildHeaderString_eq:
  "BuildHeaderString tpl m systemPrompt prompt imageB64 imageDataUrl =
   Some (rendered_headers tpl m systemPrompt prompt imageB64 imageDataUrl)"
  by (simp add: BuildHeaderString_def BuildHeaderString_loop_eq rendered_headers_def)

lemma BuildBodyFromTemplate_eq:
  "BuildBodyFromTemplate tpl m systemPrompt prompt imageB64 imageDataUrl =
   Some (rendered_payload tpl m systemPrompt prompt imageB64 imageDataUrl)"
  by (simp add: BuildBodyFromTemplate_def rendered_payload_def ReplacePlaceholders_substitute)

lemma CallTemplate_invalid:
  "\<not> ep_valid (endpoint_of tpl m systemPrompt prompt imageB64 imageDataUrl) \<Longrightarrow>
   CallTemplate P tpl m systemPrompt prompt imageB64 imageDataUrl =
   Some \<lparr>c_result = empty_result, c_sent = [], c_log = LogLine P ''PrepareEndpoint failed''\<rparr>"
  by (simp add: CallTemplate_def ReplacePlaceholders_substitute endpoint_of_def)

lemma if_Some: "(if c then Some a else Some b) = Some (if c then a else b)"
  by simp

lemma CallTemplate_valid:
  assumes "ep_valid (endpoint_of tpl m systemPrompt prompt imageB64 imageDataUrl)"
    and "HttpRequestWithHeaders P (request_of P tpl m systemPrompt prompt imageB64 imageDataUrl) = (resp, err)"
  shows "CallTemplate P tpl m systemPrompt prompt imageB64 imageDataUrl =
   Some (let req = request_of P tpl m systemPrompt prompt imageB64 imageDataUrl in
         if resp = [] then \<lparr>c_result = empty_result, c_sent = [req], c_log = request_log P req err\<rparr>
         else \<lparr>c_result = fst (extraction P tpl resp), c_sent = [req],
               c_log = request_log P req err @ snd (extraction P tpl resp)\<rparr>)"
proof -
  let ?req = "request_of P tpl m systemPrompt prompt imageB64 imageDataUrl"
  let ?ep = "endpoint_of tpl m systemPrompt prompt imageB64 imageDataUrl"
  let ?headers = "rendered_headers tpl m systemPrompt prompt imageB64 imageDataUrl"
  let ?multipart = "ContainsNoCase ?headers ''multipart/form-data''"
  have adj: "(if ?multipart
              then ReplaceAll ?headers ''multipart/form-data''
                     (''multipart/form-data; boundary='' @ ''----cbfilterboundary'')
              else Some ?headers) = Some (rq_headers ?req)"
    by (simp add: ReplaceAll_scan request_of_def Let_def)
  have req: "\<lparr>rq_host = ep_host ?ep, rq_path = ep_path ?ep, rq_useHttps = ep_useHttps ?ep,
     rq_headers = rq_headers ?req,
     rq_body = (if ?multipart
                then BuildMultipartBody P ''----cbfilterboundary'' (m_modelName m) prompt imageB64
                else ToUtf8 P (rendered_payload tpl m systemPrompt prompt imageB64 imageDataUrl)),
     rq_method = ''POST''\<rparr> = ?req"
    by (simp add: request_of_def Let_def)
  have sel: "rq_host ?req = ep_host ?ep" "rq_path ?req = ep_path ?ep"
    "rq_body ?req = (if ?multipart
                then BuildMultipartBody P ''----cbfilterboundary'' (m_modelName m) prompt imageB64
                else ToUtf8 P (rendered_payload tpl m systemPrompt prompt imageB64 imageDataUrl))"
    by (simp_all add: request_of_def Let_def)
  have "CallTemplate P tpl m systemPrompt prompt imageB64 imageDataUrl =
     (let (resp, err) = HttpRequestWithHeaders P ?req;
          log = request_log P ?req err in
      if resp = [] then Some \<lparr>c_result = empty_result, c_sent = [?req], c_log = log\<rparr>
      else Some \<lparr>c_result = fst (extraction P tpl resp), c_sent = [?req],
                 c_log = log @ snd (extraction P tpl resp)\<rparr>)"
    unfolding CallTemplate_def ReplacePlaceholders_substitute BuildHeaderString_eq
      BuildBodyFromTemplate_eq bind.simps Let_def endpoint_of_def [symmetric] adj req
    using assms(1)
    by (simp add: request_log_def extraction_def case_prod_beta Let_def sel)
  with assms(2) show ?thesis
    by (simp add: Let_def)
qed

lemma request_multipart:
  assumes "ContainsNoCase (rendered_headers tpl m systemPrompt prompt imageB64 imageDataUrl) ''multipart/form-data''"
  shows "rq_headers (request_of P tpl m systemPrompt prompt imageB64 imageDataUrl) =
       replace_scan (rendered_headers tpl m systemPrompt prompt imageB64 imageDataUrl)
         ''multipart/form-data'' ''multipart/form-data; boundary=----cbfilterboundary''"
    and "rq_body (request_of P tpl m systemPrompt prompt imageB64 imageDataUrl) =
       BuildMultipartBody P ''----cbfilterboundary'' (m_modelName m) prompt imageB64"
  using assms by (simp_all add: request_of_def Let_def)

lemma request_json:
  assumes "\<not> ContainsNoCase (rendered_headers tpl m systemPrompt prompt imageB64 imageDataUrl) ''multipart/form-data''"
  shows "rq_headers (request_of P tpl m systemPrompt prompt imageB64 imageDataUrl) =
       rendered_headers tpl m systemPrompt prompt imageB64 imageDataUrl"
    and "rq_body (request_of P tpl m systemPrompt prompt imageB64 imageDataUrl) =
       ToUtf8 P (rendered_payload tpl m systemPrompt prompt imageB64 imageDataUrl)"
  using assms by (simp_all add: request_of_def Let_def)

section \<open>Resolving model, provider and template\<close>

lemma find_append_case:
  "find P (xs @ ys) = (case find P xs of Some x \<Rightarrow> Some x | None \<Rightarrow> find P ys)"
  by (induction xs) simp_all

lemma FindTemplateByIO_find:
  "FindTemplateByIO p inp outp = find (matches_io inp outp) (p_templates p)"
  by (simp add: FindTemplateByIO_def matches_io_def [abs_def])

lemma FindTemplateAny_find:
  "FindTemplateAny ps inp outp = find (matches_io inp outp) (concat (map p_templates ps))"
  by (induction ps) (simp_all add: find_append_case FindTemplateByIO_find split: option.split)

lemma RunFilter_resolve_eq:
  assumes "g_models \<noteq> []"
  shows "RunFilter_resolve g_providers g_models f =
     Some (g_models ! (if f_modelIndex f < length g_models then f_modelIndex f else 0),
           template_of g_providers
             (g_models ! (if f_modelIndex f < length g_models then f_modelIndex f else 0))
             (f_input f) (f_output f))"
proof -
  let ?m = "g_models ! (if f_modelIndex f < length g_models then f_modelIndex f else 0)"
  have prov: "(if FindProviderById g_providers (m_providerId ?m) = None \<and> g_providers \<noteq> []
               then Some (hd g_providers)
               else FindProviderById g_providers (m_providerId ?m)) = provider_of g_providers ?m"
    by (cases g_providers; cases "find (\<lambda>p. p_id p = m_providerId ?m) g_providers")
       (simp_all add: provider_of_def FindProviderById_def)
  show ?thesis
    unfolding RunFilter_resolve_def Let_def prov
    using assms
    by (simp add: template_of_def FindTemplateAny_find FindTemplateByIO_find
        split: option.split)
qed

lemma template_of_None:
  "template_of g_providers m inp outp = None \<longleftrightarrow>
   (\<forall>p\<in>set g_providers. \<forall>t\<in>set (p_templates p). \<not> matches_io inp outp t)"
proof
  assume "template_of g_providers m inp outp = None"
  then have "find (matches_io inp outp) (concat (map p_templates g_providers)) = None"
    by (simp add: template_of_def split: option.splits)
  then show "\<forall>p\<in>set g_providers. \<forall>t\<in>set (p_templates p). \<not> matches_io inp outp t"
    by (auto simp: find_None_iff)
next
  assume none: "\<forall>p\<in>set g_providers. \<forall>t\<in>set (p_templates p). \<not> matches_io inp outp t"
  then have all: "find (matches_io inp outp) (concat (map p_templates g_providers)) = None"
    by (auto simp: find_None_iff)
  have "find (matches_io inp outp) (p_templates p) = None"
    if "provider_of g_providers m = Some p" for p
  proof -
    from that have "p \<in> set g_providers"
      by (auto simp: provider_of_def find_Some_iff split: option.splits list.splits)
    with none show ?thesis by (auto simp: find_None_iff)
  qed
  with all show "template_of g_providers m inp outp = None"
    by (simp add: template_of_def split: option.splits)
qed

lemma RunFilter_no_template:
  assumes "RunFilter_resolve g_providers g_models f = Some (m, None)"
  shows "RunFilter P g_providers g_models f =
     Some (run_failed []
       (LogLine P (''RunFilter: '' @ f_title f @ '' input='' @ IOTypeToString P (f_input f) @
                   '' output='' @ IOTypeToString P (f_output f)) @
        LogLine P ''fail: no matching template''))"
  using assms by (simp add: RunFilter_def)


lemma CallTemplate_total:
  "\<exists>c. CallTemplate P tpl m systemPrompt prompt imageB64 imageDataUrl = Some c \<and>
       ''fail: no matching template'' \<notin> set (c_log c)"
proof (cases "ep_valid (endpoint_of tpl m systemPrompt prompt imageB64 imageDataUrl)")
  case False
  then show ?thesis
    by (simp add: CallTemplate_invalid LogLine_def)
next
  case True
  obtain resp err where http:
    "HttpRequestWithHeaders P (request_of P tpl m systemPrompt prompt imageB64 imageDataUrl) = (resp, err)"
    by (cases "HttpRequestWithHeaders P (request_of P tpl m systemPrompt prompt imageB64 imageDataUrl)")
  have a: "''fail: no matching template'' \<notin>
      set (request_log P (request_of P tpl m systemPrompt prompt imageB64 imageDataUrl) err)"
    by (simp add: request_log_def LogLine_def)
  have b: "''fail: no matching template'' \<notin> set (snd (extraction P tpl resp))"
    by (simp add: extraction_def CallTemplate_text_def CallTemplate_image_def LogLine_def Let_def)
  from a b show ?thesis
    by (simp add: CallTemplate_valid [OF True http] Let_def)
qed

lemma RunFilter_no_template_line:
  assumes "RunFilter_resolve g_providers g_models f = Some (m, found)"
  shows "\<exists>r. RunFilter P g_providers g_models f = Some r \<and>
     (''fail: no matching template'' \<in> set (run_log r) \<longleftrightarrow> DEBUG P \<and> found = None)"
proof (cases found)
  case None
  with assms show ?thesis
    by (simp add: RunFilter_def run_failed_def LogLine_def)
next
  case (Some tpl)
  show ?thesis
  proof (cases "RunFilter_input P tpl")
    case (Inl line)
    then have "line \<noteq> ''fail: no matching template''"
      by (auto simp: RunFilter_input_def Let_def split: if_splits option.splits)
    with assms Some Inl show ?thesis
      by (auto simp add: RunFilter_def run_failed_def LogLine_def)
  next
    case (Inr pair)
    obtain textInput imageB64 where pair: "pair = (textInput, imageB64)"
      by (cases pair)
    obtain c where c: "CallTemplate P tpl m (systemPrompt_of f) (f_prompt f @ [LF, LF] @ textInput)
        imageB64 (if imageB64 = [] then [] else ''data:image/png;base64,'' @ imageB64) = Some c"
      "''fail: no matching template'' \<notin> set (c_log c)"
      using CallTemplate_total by blast
    from assms Some Inr pair c show ?thesis
      by (cases "SetClipboardText_throws P (r_text (c_result c))")
         (simp_all add: RunFilter_def run_failed_def LogLine_def Let_def)
  qed
qed

text \<open>
  Claim C4. With a non-empty model list the resolution at the head of a filter run always
  yields a model and a template lookup: the model at \<open>modelIndex\<close> when that is in range
  and the model at index 0 otherwise; the template is the first match of the provider
  with the model's provider id (the first provider of the catalog when none has that id)
  and, failing that, the first match of the whole catalog in order. The lookup fails
  exactly when no template of the catalog matches, and then the run returns failure with
  nothing sent and the clipboard untouched. The run always returns, and in a build that
  logs it leaves through the exit \<^verbatim>\<open>fail: no matching template\<close> exactly when the lookup
  fails.
\<close>

theorem RunFilter_resolution:
  assumes "g_models \<noteq> []"
  shows "\<exists>m found.
     RunFilter_resolve g_providers g_models f = Some (m, found)
     \<and> m = (if f_modelIndex f < length g_models then g_models ! f_modelIndex f else g_models ! 0)
     \<and> found = template_of g_providers m (f_input f) (f_output f)
     \<and> (found = None \<longleftrightarrow>
          (\<forall>p\<in>set g_providers. \<forall>t\<in>set (p_templates p). \<not> matches_io (f_input f) (f_output f) t))
     \<and> (found = None \<longrightarrow>
          (\<exists>r. RunFilter P g_providers g_models f = Some r \<and> \<not> run_ok r \<and> run_sent r = [] \<and>
               run_clipboardText r = None \<and> run_clipboardBitmap r = None))
     \<and> (\<exists>r. RunFilter P g_providers g_models f = Some r \<and>
            (''fail: no matching template'' \<in> set (run_log r) \<longleftrightarrow> DEBUG P \<and> found = None))"
proof -
  let ?m = "g_models ! (if f_modelIndex f < length g_models then f_modelIndex f else 0)"
  let ?found = "template_of g_providers ?m (f_input f) (f_output f)"
  have res: "RunFilter_resolve g_providers g_models f = Some (?m, ?found)"
    by (rule RunFilter_resolve_eq [OF assms])
  have m: "?m = (if f_modelIndex f < length g_models then g_models ! f_modelIndex f else g_models ! 0)"
    by simp
  have run: "\<exists>r. RunFilter P g_providers g_models f = Some r \<and> \<not> run_ok r \<and> run_sent r = [] \<and>
               run_clipboardText r = None \<and> run_clipboardBitmap r = None"
    if "?found = None"
    using RunFilter_no_template [of g_providers g_models f ?m P] res that
    by (simp add: run_failed_def)
  note exit = RunFilter_no_template_line [OF res, of P]
  from res m run exit template_of_None [of g_providers ?m "f_input f" "f_output f"]
  show ?thesis by (intro exI [of _ ?m] exI [of _ ?found]) simp
qed

lemma sample_template_of:
  "template_of [openai] (sample_models ! 0) Text Text = Some chat_template"
  by (simp add: template_of_def provider_of_def openai_def sample_models_def matches_io_def
      chat_template_def)

theorem RunFilter_resolution_witness:
  "sample_models \<noteq> [] \<and> length sample_models = 2 \<and> f_modelIndex sample_filter = 7 \<and>
   RunFilter_resolve [openai] sample_models sample_filter = Some (sample_models ! 0, Some chat_template) \<and>
   RunFilter_resolve [openai] sample_models (sample_filter\<lparr>f_output := Image\<rparr>) =
     Some (sample_models ! 0, None) \<and>
   (\<exists>r. RunFilter sample_platform [openai] sample_models (sample_filter\<lparr>f_output := Image\<rparr>) = Some r \<and>
        \<not> run_ok r \<and> run_sent r = [] \<and> run_clipboardText r = None \<and> run_clipboardBitmap r = None) \<and>
   (\<exists>r. RunFilter sample_platform [openai] sample_models (sample_filter\<lparr>f_output := Image\<rparr>) = Some r \<and>
        ''fail: no matching template'' \<in> set (run_log r))"
proof -
  have ne: "sample_models \<noteq> []" and len: "length sample_models = 2"
    by (simp_all add: sample_models_def)
  have idx: "f_modelIndex sample_filter = 7" and io: "f_input sample_filter = Text"
    "f_output sample_filter = Text"
    by (simp_all add: sample_filter_def)
  from RunFilter_resolution [OF ne, of "[openai]" sample_filter sample_platform]
  obtain m found where
    "RunFilter_resolve [openai] sample_models sample_filter = Some (m, found)"
    "m = (if f_modelIndex sample_filter < length sample_models
          then sample_models ! f_modelIndex sample_filter else sample_models ! 0)"
    "found = template_of [openai] m (f_input sample_filter) (f_output sample_filter)"
    by blast
  then have first: "RunFilter_resolve [openai] sample_models sample_filter =
      Some (sample_models ! 0, Some chat_template)"
    by (simp add: len idx io sample_template_of)
  let ?g = "sample_filter\<lparr>f_output := Image\<rparr>"
  have nomatch: "\<forall>p\<in>set [openai]. \<forall>t\<in>set (p_templates p). \<not> matches_io (f_input ?g) (f_output ?g) t"
    by (simp add: openai_def matches_io_def chat_template_def edit_template_def io)
  from RunFilter_resolution [OF ne, of "[openai]" ?g sample_platform]
  obtain m' found' where all:
    "RunFilter_resolve [openai] sample_models ?g = Some (m', found') \<and>
     m' = (if f_modelIndex ?g < length sample_models
           then sample_models ! f_modelIndex ?g else sample_models ! 0) \<and>
     found' = template_of [openai] m' (f_input ?g) (f_output ?g) \<and>
     (found' = None \<longleftrightarrow>
       (\<forall>p\<in>set [openai]. \<forall>t\<in>set (p_templates p). \<not> matches_io (f_input ?g) (f_output ?g) t)) \<and>
     (found' = None \<longrightarrow>
       (\<exists>r. RunFilter sample_platform [openai] sample_models ?g = Some r \<and> \<not> run_ok r \<and>
            run_sent r = [] \<and> run_clipboardText r = None \<and> run_clipboardBitmap r = None)) \<and>
     (\<exists>r. RunFilter sample_platform [openai] sample_models ?g = Some r \<and>
          (''fail: no matching template'' \<in> set (run_log r) \<longleftrightarrow>
           DEBUG sample_platform \<and> found' = None))"
    by (elim exE) (rule that)
  note r = all [THEN conjunct1] all [THEN conjunct2, THEN conjunct1]
    all [THEN conjunct2, THEN conjunct2, THEN conjunct2, THEN conjunct1]
    all [THEN conjunct2, THEN conjunct2, THEN conjunct2, THEN conjunct2, THEN conjunct1]
  note line = all [THEN conjunct2, THEN conjunct2, THEN conjunct2, THEN conjunct2, THEN conjunct2]
  from r(3) nomatch have none: "found' = None" by blast
  from r(2) have "m' = sample_models ! 0" by (simp add: len idx)
  with r(1) none have second: "RunFilter_resolve [openai] sample_models ?g = Some (sample_models ! 0, None)"
    by simp
  from r(4) none have third:
    "\<exists>r. RunFilter sample_platform [openai] sample_models ?g = Some r \<and> \<not> run_ok r \<and>
         run_sent r = [] \<and> run_clipboardText r = None \<and> run_clipboardBitmap r = None"
    by blast
  have "DEBUG sample_platform"
    by (simp add: sample_platform_def)
  with line none have fourth:
    "\<exists>r. RunFilter sample_platform [openai] sample_models ?g = Some r \<and>
         ''fail: no matching template'' \<in> set (run_log r)"
    by simp
  from ne len idx first second third fourth show ?thesis by (intro conjI)
qed

text \<open>
  Claim C4 as stated fails in one direction: a run returns failure also when a template
  matches. The sample filter resolves to the chat template, the clipboard holds no text,
  and the run returns false through the exit \<^verbatim>\<open>fail: no text in clipboard\<close>.
\<close>

theorem RunFilter_failure_with_template_counterexample:
  "sample_models \<noteq> []
   \<and> openai \<in> set [openai]
   \<and> chat_template \<in> set (p_templates openai)
   \<and> matches_io (f_input sample_filter) (f_output sample_filter) chat_template
   \<and> RunFilter_resolve [openai] sample_models sample_filter =
       Some (sample_models ! 0, Some chat_template)
   \<and> RunFilter empty_clipboard_platform [openai] sample_models sample_filter =
       Some (run_failed []
         [''RunFilter: Translate input=text_type output=text_type'', ''fail: no text in clipboard''])"
proof (intro conjI)
  show ne: "sample_models \<noteq> []"
    by (simp add: sample_models_def)
  show "openai \<in> set [openai]"
    by simp
  show "chat_template \<in> set (p_templates openai)"
    by (simp add: openai_def)
  show "matches_io (f_input sample_filter) (f_output sample_filter) chat_template"
    by (simp add: matches_io_def sample_filter_def chat_template_def)
  have len: "length sample_models = 2"
    by (simp add: sample_models_def)
  show res: "RunFilter_resolve [openai] sample_models sample_filter =
       Some (sample_models ! 0, Some chat_template)"
    by (simp add: RunFilter_resolve_eq [OF ne] len sample_filter_def sample_template_of)
  have input: "RunFilter_input empty_clipboard_platform chat_template = Inl ''fail: no text in clipboard''"
    by (simp add: RunFilter_input_def empty_clipboard_platform_def chat_template_def)
  have run: "RunFilter P [openai] sample_models sample_filter =
      Some (run_failed []
        (LogLine P (''RunFilter: '' @ f_title sample_filter @ '' input='' @
                    IOTypeToString P (f_input sample_filter) @ '' output='' @
                    IOTypeToString P (f_output sample_filter)) @
         LogLine P ''fail: no text in clipboard''))"
    if "RunFilter_input P chat_template = Inl ''fail: no text in clipboard''" for P
    by (simp add: RunFilter_def res that)
  have dbg: "DEBUG empty_clipboard_platform"
    and str: "GetString empty_clipboard_platform key = key" for key
    by (simp_all add: empty_clipboard_platform_def sample_platform_def)
  show "RunFilter empty_clipboard_platform [openai] sample_models sample_filter =
       Some (run_failed []
         [''RunFilter: Translate input=text_type output=text_type'', ''fail: no text in clipboard''])"
  proof -
    have fld: "f_title sample_filter = ''Translate''" "f_input sample_filter = Text"
      "f_output sample_filter = Text"
      by (simp_all add: sample_filter_def)
    show ?thesis
      by (simp add: run [OF input] LogLine_def IOTypeToString_def dbg str fld)
  qed
qed

section \<open>Picking a model by patterns\<close>

lemma PickModel_inner_find:
  "PickModel_inner P models pat = find (\<lambda>m. RegexMatchNoCase P m pat) models"
  by (induction models) simp_all

lemma PickModel_inner_None:
  "PickModel_inner P models pat = None \<longleftrightarrow> \<not> (\<exists>m\<in>set models. RegexMatchNoCase P m pat)"
  by (auto simp: PickModel_inner_find find_None_iff)

lemma PickModel_outer_find:
  "PickModel_outer P models patterns =
     (case find (\<lambda>pat. \<exists>m\<in>set models. RegexMatchNoCase P m pat) patterns of
        Some pat \<Rightarrow> (case find (\<lambda>m. RegexMatchNoCase P m pat) models of Some m \<Rightarrow> m | None \<Rightarrow> [])
      | None \<Rightarrow> (case models of [] \<Rightarrow> [] | m # _ \<Rightarrow> m))"
proof (induction patterns)
  case Nil
  show ?case by (cases models) simp_all
next
  case (Cons pat pats)
  show ?case
  proof (cases "PickModel_inner P models pat")
    case None
    with Cons PickModel_inner_None [of P models pat] show ?thesis by simp
  next
    case (Some m)
    then have "\<exists>m\<in>set models. RegexMatchNoCase P m pat"
      using PickModel_inner_None [of P models pat] by auto
    with Some show ?thesis by (simp add: PickModel_inner_find)
  qed
qed

text \<open>
  Claim C9. \<^verbatim>\<open>PickModelByPatterns\<close> takes the first pattern, in order, that some model
  matches, and returns the first model, in list order, that matches it; when no pattern
  matches any model it returns the first model, and the empty string for an empty list.
  The match is the case-insensitive search of the regular expression library; whenever
  that library finds \<^verbatim>\<open>gpt-.*-mini\<close> in \<^verbatim>\<open>gpt-4o-mini\<close> and not in \<^verbatim>\<open>gpt-4o\<close>, the
  models \<^verbatim>\<open>gpt-4o\<close>, \<^verbatim>\<open>gpt-4o-mini\<close> with the patterns \<^verbatim>\<open>gpt-.*-mini\<close>, \<^verbatim>\<open>gpt-.*\<close>
  give \<^verbatim>\<open>gpt-4o-mini\<close>.
\<close>

theorem PickModelByPatterns_first_match:
  "PickModelByPatterns P models patterns =
     (case find (\<lambda>pat. \<exists>m\<in>set models. RegexMatchNoCase P m pat) patterns of
        Some pat \<Rightarrow> (case find (\<lambda>m. RegexMatchNoCase P m pat) models of Some m \<Rightarrow> m | None \<Rightarrow> [])
      | None \<Rightarrow> (case models of [] \<Rightarrow> [] | m # _ \<Rightarrow> m))
   \<and> (regex_search_icase P ''gpt-4o'' ''gpt-.*-mini'' = Some False \<and>
      regex_search_icase P ''gpt-4o-mini'' ''gpt-.*-mini'' = Some True \<longrightarrow>
      PickModelByPatterns P [''gpt-4o'', ''gpt-4o-mini''] [''gpt-.*-mini'', ''gpt-.*''] = ''gpt-4o-mini'')"
proof (intro conjI impI)
  show "PickModelByPatterns P models patterns =
     (case find (\<lambda>pat. \<exists>m\<in>set models. RegexMatchNoCase P m pat) patterns of
        Some pat \<Rightarrow> (case find (\<lambda>m. RegexMatchNoCase P m pat) models of Some m \<Rightarrow> m | None \<Rightarrow> [])
      | None \<Rightarrow> (case models of [] \<Rightarrow> [] | m # _ \<Rightarrow> m))"
    by (simp only: PickModelByPatterns_def PickModel_outer_find)
next
  assume "regex_search_icase P ''gpt-4o'' ''gpt-.*-mini'' = Some False \<and>
      regex_search_icase P ''gpt-4o-mini'' ''gpt-.*-mini'' = Some True"
  then show "PickModelByPatterns P [''gpt-4o'', ''gpt-4o-mini''] [''gpt-.*-mini'', ''gpt-.*''] = ''gpt-4o-mini''"
    by (simp add: PickModelByPatterns_def RegexMatchNoCase_def)
qed

lemma sample_regex:
  "regex_search_icase sample_platform ''gpt-4o'' ''gpt-.*-mini'' = Some False"
  "regex_search_icase sample_platform ''gpt-4o-mini'' ''gpt-.*-mini'' = Some True"
  by (simp_all add: sample_platform_def rx_atom_def towlower_def)

theorem PickModelByPatterns_first_match_witness:
  "regex_search_icase sample_platform ''gpt-4o'' ''gpt-.*-mini'' = Some False \<and>
   regex_search_icase sample_platform ''gpt-4o-mini'' ''gpt-.*-mini'' = Some True \<and>
   PickModelByPatterns sample_platform [''gpt-4o'', ''gpt-4o-mini''] [''gpt-.*-mini'', ''gpt-.*''] =
     ''gpt-4o-mini''"
  using PickModelByPatterns_first_match [of sample_platform "[]" "[]"] sample_regex
  by blast

section \<open>What a filter run with a text template does\<close>

lemma RunFilter_text_run:
  assumes resolve: "RunFilter_resolve g_providers g_models f = Some (m, Some tpl)"
    and input: "RunFilter_input P tpl = Inr (textInput, imageB64)"
    and url: "imageDataUrl = (if imageB64 = [] then [] else ''data:image/png;base64,'' @ imageB64)"
    and prompt: "promptText = f_prompt f @ [LF, LF] @ textInput"
    and valid: "ep_valid (endpoint_of tpl m (systemPrompt_of f) promptText imageB64 imageDataUrl)"
    and req: "req = request_of P tpl m (systemPrompt_of f) promptText imageB64 imageDataUrl"
    and http: "HttpRequestWithHeaders P req = (resp, err)"
    and out: "t_output tpl = Text"
    and tx: "text = (if resp = [] then [] else r_text (fst (CallTemplate_text P tpl resp)))"
  shows "\<exists>r. RunFilter P g_providers g_models f = Some r \<and> run_sent r = [req] \<and>
             (run_ok r \<longleftrightarrow> text \<noteq> [] \<and> SetClipboardText_throws P text = None) \<and>
             run_clipboardText r = (if run_ok r then Some text else None) \<and>
             run_clipboardBitmap r = None"
proof -
  from valid http have call:
    "CallTemplate P tpl m (systemPrompt_of f) promptText imageB64 imageDataUrl =
       Some (if resp = [] then \<lparr>c_result = empty_result, c_sent = [req], c_log = request_log P req err\<rparr>
             else \<lparr>c_result = fst (extraction P tpl resp), c_sent = [req],
                   c_log = request_log P req err @ snd (extraction P tpl resp)\<rparr>)"
    unfolding req by (simp add: CallTemplate_valid Let_def)
  have ex: "extraction P tpl resp = CallTemplate_text P tpl resp"
    by (simp add: extraction_def out)
  show ?thesis
  proof (cases "resp = []")
    case True
    with call [unfolded prompt url] resolve input out tx show ?thesis
      by (simp add: RunFilter_def Let_def run_failed_def empty_result_def)
  next
    case False
    with call [unfolded prompt url] resolve input out tx ex show ?thesis
      by (cases "SetClipboardText_throws P (r_text (fst (CallTemplate_text P tpl resp)))")
         (simp_all add: RunFilter_def Let_def run_failed_def)
  qed
qed


section \<open>Placeholder substitution is not injection-safe\<close>

lemma keyed_resolve:
  "RunFilter_resolve [openai] [keyed_model key] sample_filter = Some (keyed_model key, Some chat_template)"
  by (simp add: RunFilter_resolve_eq template_of_def provider_of_def openai_def keyed_model_def
      sample_filter_def matches_io_def chat_template_def)

lemma injection_input:
  "RunFilter_input injection_platform chat_template = Inr (''<<api_key>>'', [])"
  by (simp add: RunFilter_input_def injection_platform_def sample_platform_def chat_template_def)

lemma chat_endpoint:
  "endpoint_of chat_template (keyed_model key) sp p [] [] =
     \<lparr>ep_valid = True, ep_host = ''api.openai.com'', ep_path = ''/v1/chat/completions'',
      ep_useHttps = True\<rparr>"
proof -
  have "substitute ''/chat/completions'' (keyed_model key) sp p [] [] False = ''/chat/completions''"
    by (simp add: substitute_def)
  then show ?thesis
    by (simp add: endpoint_of_def chat_template_def keyed_model_def PrepareEndpoint_def
        starts_with_def wfind_0)
qed

lemma sk1_payload:
  "rendered_payload chat_template (keyed_model ''sk-1'') sp
     (''Translate to English.'' @ [LF, LF] @ ''<<api_key>>'') [] [] = leaked_body ''sk-1''"
  by (simp add: rendered_payload_def chat_template_def keyed_model_def substitute_def
      JsonEscape_def leaked_body_def BSLASH_def DQUOTE_def LF_def CR_def TAB_def)


lemma sk9_payload:
  "rendered_payload chat_template (keyed_model ''sk-9'') sp
     (''Translate to English.'' @ [LF, LF] @ ''<<api_key>>'') [] [] = leaked_body ''sk-9''"
  by (simp add: rendered_payload_def chat_template_def keyed_model_def substitute_def
      JsonEscape_def leaked_body_def BSLASH_def DQUOTE_def LF_def CR_def TAB_def)

lemma sk1_headers:
  "rendered_headers chat_template (keyed_model ''sk-1'') sp p [] [] =
     ''Content-Type: application/json'' @ [CR, LF] @ ''Authorization: Bearer sk-1'' @ [CR, LF]"
  by (simp add: rendered_headers_def chat_template_def keyed_model_def substitute_def)

lemma sk9_headers:
  "rendered_headers chat_template (keyed_model ''sk-9'') sp p [] [] =
     ''Content-Type: application/json'' @ [CR, LF] @ ''Authorization: Bearer sk-9'' @ [CR, LF]"
  by (simp add: rendered_headers_def chat_template_def keyed_model_def substitute_def)

lemma json_headers_not_multipart:
  "\<not> ContainsNoCase (''Content-Type: application/json'' @ [CR, LF] @ ''Authorization: Bearer sk-1'' @ [CR, LF])
       ''multipart/form-data''"
  "\<not> ContainsNoCase (''Content-Type: application/json'' @ [CR, LF] @ ''Authorization: Bearer sk-9'' @ [CR, LF])
       ''multipart/form-data''"
  by (simp_all add: ContainsNoCase_def towlower_def wfind_0 CR_def LF_def)

lemma sample_http:
  "WinHttp P = WinHttp sample_platform \<Longrightarrow> HttpRequestWithHeaders P req = (hello_response, [])"
  by (simp add: HttpRequestWithHeaders_def sample_platform_def http_reply_def)

lemma hello_path:
  "JsonParse P hello_response = Some hello_json \<Longrightarrow>
   ExtractByPath P hello_response ''choices[0].message.content'' = ''hello''"
  by (simp add: ExtractByPath_def hello_json_def walk_part_def part_key_idx_def wfind_0
      walk_index_def wtoi_def iswspace_def digit_of_def)


lemma injection_run:
  assumes payload: "rendered_payload chat_template (keyed_model key) (systemPrompt_of sample_filter)
       (''Translate to English.'' @ [LF, LF] @ ''<<api_key>>'') [] [] = leaked_body key"
    and json: "\<not> ContainsNoCase (rendered_headers chat_template (keyed_model key)
       (systemPrompt_of sample_filter) (''Translate to English.'' @ [LF, LF] @ ''<<api_key>>'') [] [])
       ''multipart/form-data''"
    and utf8: "ToUtf8 injection_platform (leaked_body key) = leaked_body key"
  shows "\<exists>r. RunFilter injection_platform [openai] [keyed_model key] sample_filter = Some r \<and>
             map rq_body (run_sent r) = [leaked_body key]"
proof -
  let ?prompt = "f_prompt sample_filter @ [LF, LF] @ ''<<api_key>>''"
  let ?req = "request_of injection_platform chat_template (keyed_model key)
     (systemPrompt_of sample_filter) ?prompt [] []"
  have fp: "f_prompt sample_filter = ''Translate to English.''"
    by (simp add: sample_filter_def)
  have body: "rq_body ?req = leaked_body key"
    using payload json utf8 by (simp add: request_of_def fp Let_def)
  have http: "HttpRequestWithHeaders injection_platform ?req = (hello_response, [])"
    by (rule sample_http) (simp add: injection_platform_def)
  have url: "[] = (if ([]::wstring) = [] then [] else ''data:image/png;base64,'' @ [])"
    by simp
  have valid: "ep_valid (endpoint_of chat_template (keyed_model key) (systemPrompt_of sample_filter)
      ?prompt [] [])"
    by (simp add: chat_endpoint)
  have out: "t_output chat_template = Text"
    by (simp add: chat_template_def)
  from RunFilter_text_run [OF keyed_resolve injection_input url refl valid refl http out refl]
  obtain r where "RunFilter injection_platform [openai] [keyed_model key] sample_filter = Some r"
    "run_sent r = [?req]"
    by blast
  with body show ?thesis by simp
qed

text \<open>
  Claim C10. Substitution replaces the seven tokens one after the other, each over the
  whole text the passes before it produced, so a token that arrives inside a substituted
  value is replaced by a later pass. The sample payload template has no
  \<^verbatim>\<open><<api_key>>\<close> token; with the clipboard text \<^verbatim>\<open><<api_key>>\<close> the body that the
  filter run sends contains the API key in plain text, and two runs that differ only in
  the API key send different bodies.
\<close>

theorem placeholder_injection_leaks_api_key:
  "ReplacePlaceholders src m systemPrompt prompt imageB64 imageDataUrl jsonEsc =
     Some (substitute src m systemPrompt prompt imageB64 imageDataUrl jsonEsc)
   \<and> wfind (t_payload chat_template) ''<<api_key>>'' 0 = None
   \<and> GetClipboardText injection_platform = ''<<api_key>>''
   \<and> (\<exists>r. RunFilter injection_platform [openai] [keyed_model ''sk-1''] sample_filter = Some r \<and>
            map rq_body (run_sent r) = [leaked_body ''sk-1''])
   \<and> (\<exists>r. RunFilter injection_platform [openai] [keyed_model ''sk-9''] sample_filter = Some r \<and>
            map rq_body (run_sent r) = [leaked_body ''sk-9''])
   \<and> wfind (leaked_body ''sk-1'') ''sk-1'' 0 = Some 52
   \<and> leaked_body ''sk-1'' \<noteq> leaked_body ''sk-9''"
proof (intro conjI)
  show "ReplacePlaceholders src m systemPrompt prompt imageB64 imageDataUrl jsonEsc =
     Some (substitute src m systemPrompt prompt imageB64 imageDataUrl jsonEsc)"
    by (rule ReplacePlaceholders_substitute)
  show "wfind (t_payload chat_template) ''<<api_key>>'' 0 = None"
    by (simp add: chat_template_def wfind_0)
  show "GetClipboardText injection_platform = ''<<api_key>>''"
    by (simp add: injection_platform_def)
  have u1: "ToUtf8 injection_platform (leaked_body ''sk-1'') = leaked_body ''sk-1''"
    and u9: "ToUtf8 injection_platform (leaked_body ''sk-9'') = leaked_body ''sk-9''"
    by (simp_all add: ToUtf8_def injection_platform_def sample_platform_def leaked_body_def
        BSLASH_def)
  show "\<exists>r. RunFilter injection_platform [openai] [keyed_model ''sk-1''] sample_filter = Some r \<and>
            map rq_body (run_sent r) = [leaked_body ''sk-1'']"
    by (rule injection_run) (simp_all only: sk1_payload sk1_headers json_headers_not_multipart u1 not_False_eq_True)
  show "\<exists>r. RunFilter injection_platform [openai] [keyed_model ''sk-9''] sample_filter = Some r \<and>
            map rq_body (run_sent r) = [leaked_body ''sk-9'']"
    by (rule injection_run) (simp_all only: sk9_payload sk9_headers json_headers_not_multipart u9 not_False_eq_True)
  show "wfind (leaked_body ''sk-1'') ''sk-1'' 0 = Some 52"
    by (simp add: leaked_body_def wfind_0 BSLASH_def)
  show "leaked_body ''sk-1'' \<noteq> leaked_body ''sk-9''"
    by (simp add: leaked_body_def)
qed

theorem placeholder_injection_leaks_api_key_witness:
  "ReplacePlaceholders ''<<prompt>>'' (keyed_model ''sk-1'') [] ''<<api_key>>'' [] [] False =
     Some (substitute ''<<prompt>>'' (keyed_model ''sk-1'') [] ''<<api_key>>'' [] [] False)
   \<and> substitute ''<<prompt>>'' (keyed_model ''sk-1'') [] ''<<api_key>>'' [] [] False = ''sk-1''"
proof -
  have "substitute ''<<prompt>>'' (keyed_model ''sk-1'') [] ''<<api_key>>'' [] [] False = ''sk-1''"
    by (simp add: substitute_def keyed_model_def)
  with placeholder_injection_leaks_api_key
    [of "''<<prompt>>''" "keyed_model ''sk-1''" "[]" "''<<api_key>>''" "[]" "[]" False]
  show ?thesis by blast
qed

section \<open>The leading slash of a fragment\<close>

lemma slash_fragment_not_absolute: "\<not> is_absolute_url (CHR ''/'' # f)"
  by (simp add: is_absolute_url_def starts_with_def)

lemma PrepareEndpoint_leading_slash_without_base_path:
  assumes "wfind (strip_scheme serverUrl) ''/'' 0 = None"
    and "f \<noteq> []" and "hd f \<noteq> CHR ''/''" and "\<not> is_absolute_url f"
  shows "PrepareEndpoint serverUrl f u = PrepareEndpoint serverUrl (''/'' @ f) u"
  using assms
  by (simp add: PrepareEndpoint_unfold scheme_carrier_def path_suffix_def
      slash_fragment_not_absolute)

text \<open>
  Claim C2. For a server base with a path the two fragments \<^verbatim>\<open>v1/x\<close> and \<^verbatim>\<open>/v1/x\<close> do
  not resolve to the same path: the fragment is appended to the path of the base before
  the leading slash is supplied, so \<^verbatim>\<open>v1/x\<close> is glued to the last segment of the base.
\<close>

theorem PrepareEndpoint_leading_slash_divergence:
  "PrepareEndpoint ''https://api.openai.com/v1'' ''v1/x'' True =
     \<lparr>ep_valid = True, ep_host = ''api.openai.com'', ep_path = ''/v1v1/x'', ep_useHttps = True\<rparr>
   \<and> PrepareEndpoint ''https://api.openai.com/v1'' ''/v1/x'' True =
     \<lparr>ep_valid = True, ep_host = ''api.openai.com'', ep_path = ''/v1/v1/x'', ep_useHttps = True\<rparr>"
  by (simp add: PrepareEndpoint_def starts_with_def wfind_0)

section \<open>The structured path on sample responses\<close>

lemma sample_parse:
  "JsonParse sample_platform hello_response = Some hello_json"
  "JsonParse sample_platform there_response = Some there_json"
  "JsonParse sample_platform items_response = Some items_json"
  by (simp_all add: sample_platform_def hello_response_def there_response_def items_response_def)

lemmas walk_eval = ExtractByPath_def walk_part_def part_key_idx_def wfind_0 walk_index_def
  wtoi_def iswspace_def digit_of_def TAB_def LF_def CR_def

text \<open>
  Claim C3. On the response \<^verbatim>\<open>{"items":["a"]}\<close> the path \<^verbatim>\<open>items[5]\<close>, whose index is out
  of bounds, does not yield the empty result: the index is skipped and the array itself is
  returned, printed. The same index in a part of its own, \<^verbatim>\<open>items.[5]\<close>, yields the empty
  result, and so does a missing key. An empty part after a string value is ignored:
  \<^verbatim>\<open>items[0].\<close> yields \<^verbatim>\<open>a\<close>. The path \<^verbatim>\<open>choices[0].message.content\<close> yields \<^verbatim>\<open>hello\<close> on
  the sample response.
\<close>

theorem ExtractByPath_index_out_of_bounds:
  "ExtractByPath sample_platform items_response ''items[5]'' =
     [CHR ''['', DQUOTE, CHR ''a'', DQUOTE, CHR '']'']
   \<and> ExtractByPath sample_platform items_response ''items.[5]'' = []
   \<and> ExtractByPath sample_platform items_response ''nothing'' = []
   \<and> ExtractByPath sample_platform items_response ''items[0].'' = ''a''
   \<and> ExtractByPath sample_platform hello_response ''choices[0].message.content'' = ''hello''"
proof (intro conjI)
  show "ExtractByPath sample_platform items_response ''items[5]'' =
     [CHR ''['', DQUOTE, CHR ''a'', DQUOTE, CHR '']'']"
    by (simp add: walk_eval sample_parse items_json_def) (simp add: sample_platform_def)
  show "ExtractByPath sample_platform items_response ''items.[5]'' = []"
    by (simp add: walk_eval sample_parse items_json_def)
  show "ExtractByPath sample_platform items_response ''nothing'' = []"
    by (simp add: walk_eval sample_parse items_json_def)
  show "ExtractByPath sample_platform items_response ''items[0].'' = ''a''"
    by (simp add: walk_eval sample_parse items_json_def)
  show "ExtractByPath sample_platform hello_response ''choices[0].message.content'' = ''hello''"
    by (simp add: hello_path sample_parse)
qed

section \<open>The heuristic fallback for text\<close>






lemma there_content:
  "ExtractContent there_response = ''hi '' @ [DQUOTE] @ ''there'' @ [DQUOTE]"
  by (simp add: ExtractContent_def there_response_def wfind_def DQUOTE_def BSLASH_def)




lemma failing_parse: "JsonParse failing_platform there_response = Some there_json"
  by (simp add: failing_platform_def sample_parse)

lemma there_path:
  "ExtractByPath failing_platform there_response ''choices[0].message.content'' = []"
  by (simp add: walk_eval failing_parse there_json_def)



section \<open>Transport errors\<close>

lemma HttpRequestWithHeaders_status:
  assumes "WinHttp P req = w" and "wh_open w" and "wh_connect w" and "wh_openRequest w"
    and "wh_sendRequest w" and "wh_receiveResponse w" and "wh_status w = Some status"
    and "400 \<le> status"
  shows "HttpRequestWithHeaders P req = (concat (wh_chunks w), ''HTTP status '' @ to_wstring status)"
  using assms by (simp add: HttpRequestWithHeaders_def Let_def del: to_wstring.simps)

lemma HttpRequestWithHeaders_transport:
  assumes "WinHttp P req = w"
    and "\<not> (wh_open w \<and> wh_connect w \<and> wh_openRequest w \<and> wh_sendRequest w \<and> wh_receiveResponse w)"
  shows "fst (HttpRequestWithHeaders P req) = [] \<and> snd (HttpRequestWithHeaders P req) \<noteq> []"
  using assms by (auto simp add: HttpRequestWithHeaders_def Let_def simp del: to_wstring.simps)

lemma CallTemplate_after_dispatch:
  assumes "ep_valid (endpoint_of tpl m systemPrompt prompt imageB64 imageDataUrl)"
    and "HttpRequestWithHeaders P (request_of P tpl m systemPrompt prompt imageB64 imageDataUrl) = (resp, err)"
  shows "\<exists>c. CallTemplate P tpl m systemPrompt prompt imageB64 imageDataUrl = Some c \<and>
     c_sent c = [request_of P tpl m systemPrompt prompt imageB64 imageDataUrl] \<and>
     c_result c = (if resp = [] then empty_result else fst (extraction P tpl resp)) \<and>
     (resp = [] \<longrightarrow>
        c_log c = request_log P (request_of P tpl m systemPrompt prompt imageB64 imageDataUrl) err) \<and>
     (DEBUG P \<and> err \<noteq> [] \<longrightarrow> ''template request error: '' @ err \<in> set (c_log c))"
  using CallTemplate_valid [OF assms]
  by (simp add: Let_def request_log_def LogLine_def)


lemma HttpRequestWithHeaders_read:
  assumes "WinHttp P req = w" and "wh_open w" and "wh_connect w" and "wh_openRequest w"
    and "wh_sendRequest w" and "wh_receiveResponse w"
    and "wh_status w = None \<or> wh_status w = Some status \<and> status < 400"
  shows "HttpRequestWithHeaders P req = (concat (wh_chunks w), [])"
  using assms by (auto simp add: HttpRequestWithHeaders_def Let_def simp del: to_wstring.simps)

lemma CallTemplate_text_result:
  "r_text (fst (CallTemplate_text P tpl resp)) =
     (if t_resultPath tpl \<noteq> [] \<and> ExtractByPath P resp (t_resultPath tpl) \<noteq> []
      then ExtractByPath P resp (t_resultPath tpl) else ExtractContent resp)"
  by (simp add: CallTemplate_text_def Let_def)

lemma CallTemplate_image_result:
  "r_image (fst (CallTemplate_image P tpl resp)) =
     (let b64 = strip_data_url (if t_resultPath tpl = [] then [] else ExtractByPath P resp (t_resultPath tpl));
          b64 = (if b64 \<noteq> [] then b64
                 else if ExtractB64Image resp \<noteq> [] then ExtractB64Image resp
                 else ExtractContent resp);
          b64 = strip_data_url b64
      in if b64 = [] then 0 else Base64ToBitmap P b64)"
  by (simp add: CallTemplate_image_def Let_def)

lemma request_log_release: "\<not> DEBUG P \<Longrightarrow> request_log P req err = []"
  by (simp add: request_log_def LogLine_def)

lemma extraction_release: "\<not> DEBUG P \<Longrightarrow> snd (extraction P tpl resp) = []"
  by (simp add: extraction_def CallTemplate_text_def CallTemplate_image_def LogLine_def Let_def)

lemma request_log_error:
  "DEBUG P \<Longrightarrow> err \<noteq> [] \<Longrightarrow> ''template request error: '' @ err \<in> set (request_log P req err)"
  by (simp add: request_log_def LogLine_def)

lemma request_log_no_extraction:
  "''template response produced no image'' \<notin> set (request_log P req err)"
  "''template response empty content. resp='' @ x \<notin> set (request_log P req err)"
  by (simp_all add: request_log_def LogLine_def)

lemma CallTemplate_outcome:
  assumes "ep_valid (endpoint_of tpl m systemPrompt prompt imageB64 imageDataUrl)"
    and "HttpRequestWithHeaders P (request_of P tpl m systemPrompt prompt imageB64 imageDataUrl) = (resp, err)"
  shows "\<exists>c. CallTemplate P tpl m systemPrompt prompt imageB64 imageDataUrl = Some c \<and>
     c_sent c = [request_of P tpl m systemPrompt prompt imageB64 imageDataUrl] \<and>
     (err \<noteq> [] \<longrightarrow> (''template request error: '' @ err \<in> set (c_log c) \<longleftrightarrow> DEBUG P)) \<and>
     (\<not> DEBUG P \<longrightarrow> c_log c = []) \<and>
     (resp = [] \<longrightarrow>
        r_text (c_result c) = [] \<and> r_image (c_result c) = 0 \<and>
        ''template response produced no image'' \<notin> set (c_log c) \<and>
        (\<forall>x. ''template response empty content. resp='' @ x \<notin> set (c_log c))) \<and>
     (resp \<noteq> [] \<and> t_output tpl = Text \<longrightarrow>
        r_text (c_result c) =
          (if t_resultPath tpl \<noteq> [] \<and> ExtractByPath P resp (t_resultPath tpl) \<noteq> []
           then ExtractByPath P resp (t_resultPath tpl) else ExtractContent resp)) \<and>
     (resp \<noteq> [] \<and> t_output tpl = Image \<longrightarrow>
        r_image (c_result c) =
          (let b64 = strip_data_url
                 (if t_resultPath tpl = [] then [] else ExtractByPath P resp (t_resultPath tpl));
               b64 = (if b64 \<noteq> [] then b64
                      else if ExtractB64Image resp \<noteq> [] then ExtractB64Image resp
                      else ExtractContent resp);
               b64 = strip_data_url b64
           in if b64 = [] then 0 else Base64ToBitmap P b64))"
proof -
  let ?req = "request_of P tpl m systemPrompt prompt imageB64 imageDataUrl"
  let ?c = "if resp = [] then \<lparr>c_result = empty_result, c_sent = [?req], c_log = request_log P ?req err\<rparr>
         else \<lparr>c_result = fst (extraction P tpl resp), c_sent = [?req],
               c_log = request_log P ?req err @ snd (extraction P tpl resp)\<rparr>"
  have call: "CallTemplate P tpl m systemPrompt prompt imageB64 imageDataUrl = Some ?c"
    by (simp add: CallTemplate_valid [OF assms] Let_def)
  have sent: "c_sent ?c = [?req]"
    by simp
  have release: "c_log ?c = []" if "\<not> DEBUG P"
    using that by (simp add: request_log_release extraction_release)
  have line: "''template request error: '' @ err \<in> set (c_log ?c) \<longleftrightarrow> DEBUG P" if "err \<noteq> []"
  proof (cases "DEBUG P")
    case True
    from request_log_error [OF True that, of ?req] True show ?thesis by simp
  next
    case False
    with release show ?thesis by simp
  qed
  have empty: "r_text (c_result ?c) = [] \<and> r_image (c_result ?c) = 0 \<and>
        ''template response produced no image'' \<notin> set (c_log ?c) \<and>
        (\<forall>x. ''template response empty content. resp='' @ x \<notin> set (c_log ?c))" if "resp = []"
    using that request_log_no_extraction(1) [of P ?req err]
      request_log_no_extraction(2) [where P = P and req = ?req and err = err]
    by (simp add: empty_result_def)
  have tx: "r_text (c_result ?c) =
          (if t_resultPath tpl \<noteq> [] \<and> ExtractByPath P resp (t_resultPath tpl) \<noteq> []
           then ExtractByPath P resp (t_resultPath tpl) else ExtractContent resp)"
    if "resp \<noteq> [] \<and> t_output tpl = Text"
    using that by (simp add: extraction_def CallTemplate_text_result)
  have img: "r_image (c_result ?c) =
          (let b64 = strip_data_url
                 (if t_resultPath tpl = [] then [] else ExtractByPath P resp (t_resultPath tpl));
               b64 = (if b64 \<noteq> [] then b64
                      else if ExtractB64Image resp \<noteq> [] then ExtractB64Image resp
                      else ExtractContent resp);
               b64 = strip_data_url b64
           in if b64 = [] then 0 else Base64ToBitmap P b64)"
    if "resp \<noteq> [] \<and> t_output tpl = Image"
    using that by (simp add: extraction_def CallTemplate_image_result)
  from line have line': "err \<noteq> [] \<longrightarrow>
      (''template request error: '' @ err \<in> set (c_log ?c) \<longleftrightarrow> DEBUG P)" ..
  from release have release': "\<not> DEBUG P \<longrightarrow> c_log ?c = []" ..
  from empty have empty': "resp = [] \<longrightarrow>
        r_text (c_result ?c) = [] \<and> r_image (c_result ?c) = 0 \<and>
        ''template response produced no image'' \<notin> set (c_log ?c) \<and>
        (\<forall>x. ''template response empty content. resp='' @ x \<notin> set (c_log ?c))" ..
  from tx have tx': "resp \<noteq> [] \<and> t_output tpl = Text \<longrightarrow>
        r_text (c_result ?c) =
          (if t_resultPath tpl \<noteq> [] \<and> ExtractByPath P resp (t_resultPath tpl) \<noteq> []
           then ExtractByPath P resp (t_resultPath tpl) else ExtractContent resp)" ..
  from img have img': "resp \<noteq> [] \<and> t_output tpl = Image \<longrightarrow>
        r_image (c_result ?c) =
          (let b64 = strip_data_url
                 (if t_resultPath tpl = [] then [] else ExtractByPath P resp (t_resultPath tpl));
               b64 = (if b64 \<noteq> [] then b64
                      else if ExtractB64Image resp \<noteq> [] then ExtractB64Image resp
                      else ExtractContent resp);
               b64 = strip_data_url b64
           in if b64 = [] then 0 else Base64ToBitmap P b64)" ..
  from call sent line' release' empty' tx' img' show ?thesis
    by (intro exI [of _ ?c] conjI)
qed

lemma RunFilter_after_call:
  assumes resolve: "RunFilter_resolve g_providers g_models f = Some (m, Some tpl)"
    and input: "RunFilter_input P tpl = Inr (textInput, imageB64)"
  shows "\<exists>c r. CallTemplate P tpl m (systemPrompt_of f) (f_prompt f @ [LF, LF] @ textInput) imageB64
              (if imageB64 = [] then [] else ''data:image/png;base64,'' @ imageB64) = Some c \<and>
     RunFilter P g_providers g_models f = Some r \<and>
     run_sent r = c_sent c \<and>
     (t_output tpl = Text \<longrightarrow>
        (run_ok r \<longleftrightarrow>
           r_text (c_result c) \<noteq> [] \<and> SetClipboardText_throws P (r_text (c_result c)) = None) \<and>
        (run_ok r \<longrightarrow> run_clipboardText r = Some (r_text (c_result c)))) \<and>
     (t_output tpl = Image \<longrightarrow>
        (run_ok r \<longleftrightarrow>
           r_image (c_result c) \<noteq> 0 \<and> \<not> SetClipboardBitmap_throws P (r_image (c_result c))) \<and>
        (run_ok r \<longrightarrow> run_clipboardBitmap r = Some (r_image (c_result c))))"
proof -
  obtain c where c: "CallTemplate P tpl m (systemPrompt_of f) (f_prompt f @ [LF, LF] @ textInput)
        imageB64 (if imageB64 = [] then [] else ''data:image/png;base64,'' @ imageB64) = Some c"
    using CallTemplate_total by blast
  show ?thesis
  proof (cases "t_output tpl")
    case Text
    with resolve input c show ?thesis
      by (cases "SetClipboardText_throws P (r_text (c_result c))")
         (simp_all add: RunFilter_def run_failed_def Let_def)
  next
    case Image
    with resolve input c show ?thesis
      by (simp add: RunFilter_def run_failed_def Let_def)
  qed
qed

text \<open>
  Claim C8, as amended. A failure to open, connect, send or receive leaves an error
  message and an empty body; a status code of 400 or more leaves an error message and the
  body is still read; a failure while the body is read leaves what was read so far and no
  message. The call does not look at the message except to log it, and a build without
  \<^verbatim>\<open>DEBUG\<close> logs nothing. With a body the call runs the extraction on it: for a text
  template the value at the result path or else the first \<^verbatim>\<open>content\<close> field, for an image
  template the bitmap decoded from the first of the value at the result path, the
  \<^verbatim>\<open>b64_json\<close> field and the \<^verbatim>\<open>content\<close> field, a data URL prefix removed. With an
  empty body it returns the empty result at once and logs no line of the extraction. A run
  succeeds exactly when the call's text is non-empty and the clipboard takes it, or, for
  an image template, when the call's bitmap is non-null and the clipboard takes it.
\<close>

theorem transport_error_is_not_fatal:
  "(WinHttp P req = w \<and> wh_open w \<and> wh_connect w \<and> wh_openRequest w \<and> wh_sendRequest w \<and>
      wh_receiveResponse w \<and> wh_status w = Some status \<and> 400 \<le> status \<longrightarrow>
      HttpRequestWithHeaders P req = (concat (wh_chunks w), ''HTTP status '' @ to_wstring status))
   \<and> (WinHttp P req = w \<and>
      \<not> (wh_open w \<and> wh_connect w \<and> wh_openRequest w \<and> wh_sendRequest w \<and> wh_receiveResponse w) \<longrightarrow>
      fst (HttpRequestWithHeaders P req) = [] \<and> snd (HttpRequestWithHeaders P req) \<noteq> [])
   \<and> (WinHttp P req = w \<and> wh_open w \<and> wh_connect w \<and> wh_openRequest w \<and> wh_sendRequest w \<and>
      wh_receiveResponse w \<and> (wh_status w = None \<or> wh_status w = Some status \<and> status < 400) \<longrightarrow>
      HttpRequestWithHeaders P req = (concat (wh_chunks w), []))
   \<and> (ep_valid (endpoint_of tpl m systemPrompt prompt imageB64 imageDataUrl) \<and>
      HttpRequestWithHeaders P (request_of P tpl m systemPrompt prompt imageB64 imageDataUrl) =
        (resp, err) \<longrightarrow>
      (\<exists>c. CallTemplate P tpl m systemPrompt prompt imageB64 imageDataUrl = Some c \<and>
           c_sent c = [request_of P tpl m systemPrompt prompt imageB64 imageDataUrl] \<and>
           (err \<noteq> [] \<longrightarrow> (''template request error: '' @ err \<in> set (c_log c) \<longleftrightarrow> DEBUG P)) \<and>
           (\<not> DEBUG P \<longrightarrow> c_log c = []) \<and>
           (resp = [] \<longrightarrow>
              r_text (c_result c) = [] \<and> r_image (c_result c) = 0 \<and>
              ''template response produced no image'' \<notin> set (c_log c) \<and>
              (\<forall>x. ''template response empty content. resp='' @ x \<notin> set (c_log c))) \<and>
           (resp \<noteq> [] \<and> t_output tpl = Text \<longrightarrow>
              r_text (c_result c) =
                (if t_resultPath tpl \<noteq> [] \<and> ExtractByPath P resp (t_resultPath tpl) \<noteq> []
                 then ExtractByPath P resp (t_resultPath tpl) else ExtractContent resp)) \<and>
           (resp \<noteq> [] \<and> t_output tpl = Image \<longrightarrow>
              r_image (c_result c) =
                (let b64 = strip_data_url
                       (if t_resultPath tpl = [] then [] else ExtractByPath P resp (t_resultPath tpl));
                     b64 = (if b64 \<noteq> [] then b64
                            else if ExtractB64Image resp \<noteq> [] then ExtractB64Image resp
                            else ExtractContent resp);
                     b64 = strip_data_url b64
                 in if b64 = [] then 0 else Base64ToBitmap P b64))))
   \<and> (RunFilter_resolve g_providers g_models f = Some (m, Some tpl) \<and>
      RunFilter_input P tpl = Inr (textInput, imageB64) \<longrightarrow>
      (\<exists>c r. CallTemplate P tpl m (systemPrompt_of f) (f_prompt f @ [LF, LF] @ textInput) imageB64
                (if imageB64 = [] then [] else ''data:image/png;base64,'' @ imageB64) = Some c \<and>
           RunFilter P g_providers g_models f = Some r \<and>
           run_sent r = c_sent c \<and>
           (t_output tpl = Text \<longrightarrow>
              (run_ok r \<longleftrightarrow>
                 r_text (c_result c) \<noteq> [] \<and> SetClipboardText_throws P (r_text (c_result c)) = None) \<and>
              (run_ok r \<longrightarrow> run_clipboardText r = Some (r_text (c_result c)))) \<and>
           (t_output tpl = Image \<longrightarrow>
              (run_ok r \<longleftrightarrow>
                 r_image (c_result c) \<noteq> 0 \<and> \<not> SetClipboardBitmap_throws P (r_image (c_result c))) \<and>
              (run_ok r \<longrightarrow> run_clipboardBitmap r = Some (r_image (c_result c))))))"
proof (intro conjI)
  show "WinHttp P req = w \<and> wh_open w \<and> wh_connect w \<and> wh_openRequest w \<and> wh_sendRequest w \<and>
      wh_receiveResponse w \<and> wh_status w = Some status \<and> 400 \<le> status \<longrightarrow>
      HttpRequestWithHeaders P req = (concat (wh_chunks w), ''HTTP status '' @ to_wstring status)"
    by (intro impI HttpRequestWithHeaders_status) simp_all
  show "WinHttp P req = w \<and>
      \<not> (wh_open w \<and> wh_connect w \<and> wh_openRequest w \<and> wh_sendRequest w \<and> wh_receiveResponse w) \<longrightarrow>
      fst (HttpRequestWithHeaders P req) = [] \<and> snd (HttpRequestWithHeaders P req) \<noteq> []"
    using HttpRequestWithHeaders_transport [of P req w] by blast
  show "WinHttp P req = w \<and> wh_open w \<and> wh_connect w \<and> wh_openRequest w \<and> wh_sendRequest w \<and>
      wh_receiveResponse w \<and> (wh_status w = None \<or> wh_status w = Some status \<and> status < 400) \<longrightarrow>
      HttpRequestWithHeaders P req = (concat (wh_chunks w), [])"
    by (intro impI HttpRequestWithHeaders_read [where status = status]) simp_all
  show "ep_valid (endpoint_of tpl m systemPrompt prompt imageB64 imageDataUrl) \<and>
      HttpRequestWithHeaders P (request_of P tpl m systemPrompt prompt imageB64 imageDataUrl) =
        (resp, err) \<longrightarrow>
      (\<exists>c. CallTemplate P tpl m systemPrompt prompt imageB64 imageDataUrl = Some c \<and>
           c_sent c = [request_of P tpl m systemPrompt prompt imageB64 imageDataUrl] \<and>
           (err \<noteq> [] \<longrightarrow> (''template request error: '' @ err \<in> set (c_log c) \<longleftrightarrow> DEBUG P)) \<and>
           (\<not> DEBUG P \<longrightarrow> c_log c = []) \<and>
           (resp = [] \<longrightarrow>
              r_text (c_result c) = [] \<and> r_image (c_result c) = 0 \<and>
              ''template response produced no image'' \<notin> set (c_log c) \<and>
              (\<forall>x. ''template response empty content. resp='' @ x \<notin> set (c_log c))) \<and>
           (resp \<noteq> [] \<and> t_output tpl = Text \<longrightarrow>
              r_text (c_result c) =
                (if t_resultPath tpl \<noteq> [] \<and> ExtractByPath P resp (t_resultPath tpl) \<noteq> []
                 then ExtractByPath P resp (t_resultPath tpl) else ExtractContent resp)) \<and>
           (resp \<noteq> [] \<and> t_output tpl = Image \<longrightarrow>
              r_image (c_result c) =
                (let b64 = strip_data_url
                       (if t_resultPath tpl = [] then [] else ExtractByPath P resp (t_resultPath tpl));
                     b64 = (if b64 \<noteq> [] then b64
                            else if ExtractB64Image resp \<noteq> [] then ExtractB64Image resp
                            else ExtractContent resp);
                     b64 = strip_data_url b64
                 in if b64 = [] then 0 else Base64ToBitmap P b64)))"
    by (intro impI CallTemplate_outcome) (erule conjunct1, erule conjunct2)
  show "RunFilter_resolve g_providers g_models f = Some (m, Some tpl) \<and>
      RunFilter_input P tpl = Inr (textInput, imageB64) \<longrightarrow>
      (\<exists>c r. CallTemplate P tpl m (systemPrompt_of f) (f_prompt f @ [LF, LF] @ textInput) imageB64
                (if imageB64 = [] then [] else ''data:image/png;base64,'' @ imageB64) = Some c \<and>
           RunFilter P g_providers g_models f = Some r \<and>
           run_sent r = c_sent c \<and>
           (t_output tpl = Text \<longrightarrow>
              (run_ok r \<longleftrightarrow>
                 r_text (c_result c) \<noteq> [] \<and> SetClipboardText_throws P (r_text (c_result c)) = None) \<and>
              (run_ok r \<longrightarrow> run_clipboardText r = Some (r_text (c_result c)))) \<and>
           (t_output tpl = Image \<longrightarrow>
              (run_ok r \<longleftrightarrow>
                 r_image (c_result c) \<noteq> 0 \<and> \<not> SetClipboardBitmap_throws P (r_image (c_result c))) \<and>
              (run_ok r \<longrightarrow> run_clipboardBitmap r = Some (r_image (c_result c)))))"
    by (intro impI RunFilter_after_call) (erule conjunct1, erule conjunct2)
qed


lemma sample_inputs:
  "RunFilter_input failing_platform chat_template = Inr (''bonjour'', [])"
  "RunFilter_input release_platform chat_template = Inr (''bonjour'', [])"
  "RunFilter_input offline_platform chat_template = Inr (''bonjour'', [])"
  "RunFilter_input truncated_platform chat_template = Inr (''bonjour'', [])"
  "RunFilter_input draw_platform draw_template = Inr (''bonjour'', [])"
  by (simp_all add: RunFilter_input_def failing_platform_def release_platform_def offline_platform_def
      truncated_platform_def draw_platform_def sample_platform_def chat_template_def draw_template_def)

lemma draw_resolve:
  "RunFilter_resolve [painter] [keyed_model key] draw_filter = Some (keyed_model key, Some draw_template)"
  by (simp add: RunFilter_resolve_eq template_of_def provider_of_def painter_def openai_def
      keyed_model_def draw_filter_def sample_filter_def matches_io_def draw_template_def
      chat_template_def)

lemma draw_endpoint:
  "ep_valid (endpoint_of draw_template (keyed_model key) sp p [] [])"
proof -
  have "endpoint_of draw_template (keyed_model key) sp p [] [] =
      endpoint_of chat_template (keyed_model key) sp p [] []"
    by (simp add: endpoint_of_def draw_template_def)
  then show ?thesis
    by (simp add: chat_endpoint)
qed

lemma draw_http:
  "HttpRequestWithHeaders draw_platform req = (image_response, ''HTTP status 500'')"
  by (simp add: HttpRequestWithHeaders_def draw_platform_def http_reply_def digit_char_def)

lemma release_http:
  "HttpRequestWithHeaders release_platform req = (there_response, ''HTTP status 500'')"
  by (simp add: HttpRequestWithHeaders_def release_platform_def failing_platform_def http_reply_def
      digit_char_def)

lemma image_b64:
  "ExtractB64Image image_response = ''data:image/png;base64,UE5H''"
  by (simp add: ExtractB64Image_def image_response_def wfind_def DQUOTE_def BSLASH_def)

lemma strip_sample:
  "strip_data_url [] = []"
  "strip_data_url ''data:image/png;base64,UE5H'' = ''UE5H''"
  by (simp_all add: strip_data_url_def wfind_0)

theorem transport_error_is_not_fatal_witness:
  "HttpRequestWithHeaders failing_platform
      (request_of failing_platform chat_template (keyed_model ''sk-1'') (systemPrompt_of sample_filter)
         (f_prompt sample_filter @ [LF, LF] @ ''bonjour'') [] []) =
     (there_response, ''HTTP status 500'')
   \<and> (\<exists>c. CallTemplate failing_platform chat_template (keyed_model ''sk-1'') (systemPrompt_of sample_filter)
            (f_prompt sample_filter @ [LF, LF] @ ''bonjour'') [] [] = Some c \<and>
          r_text (c_result c) = ''hi '' @ [DQUOTE] @ ''there'' @ [DQUOTE] \<and>
          ''template request error: HTTP status 500'' \<in> set (c_log c))
   \<and> (\<exists>r. RunFilter failing_platform [openai] [keyed_model ''sk-1''] sample_filter = Some r \<and> run_ok r \<and>
          run_clipboardText r = Some (''hi '' @ [DQUOTE] @ ''there'' @ [DQUOTE]))
   \<and> (\<exists>c. CallTemplate release_platform chat_template (keyed_model ''sk-1'') (systemPrompt_of sample_filter)
            (f_prompt sample_filter @ [LF, LF] @ ''bonjour'') [] [] = Some c \<and>
          c_log c = [])
   \<and> fst (HttpRequestWithHeaders offline_platform
        (request_of offline_platform chat_template (keyed_model ''sk-1'') (systemPrompt_of sample_filter)
           (f_prompt sample_filter @ [LF, LF] @ ''bonjour'') [] [])) = []
   \<and> (\<exists>c. CallTemplate offline_platform chat_template (keyed_model ''sk-1'') (systemPrompt_of sample_filter)
            (f_prompt sample_filter @ [LF, LF] @ ''bonjour'') [] [] = Some c \<and>
          r_text (c_result c) = [] \<and> r_image (c_result c) = 0)
   \<and> (\<exists>r. RunFilter offline_platform [openai] [keyed_model ''sk-1''] sample_filter = Some r \<and> \<not> run_ok r)
   \<and> wh_readError (WinHttp truncated_platform
        (request_of truncated_platform chat_template (keyed_model ''sk-1'') (systemPrompt_of sample_filter)
           (f_prompt sample_filter @ [LF, LF] @ ''bonjour'') [] []))
   \<and> HttpRequestWithHeaders truncated_platform
        (request_of truncated_platform chat_template (keyed_model ''sk-1'') (systemPrompt_of sample_filter)
           (f_prompt sample_filter @ [LF, LF] @ ''bonjour'') [] []) =
       (take 30 there_response, [])
   \<and> (\<exists>c. CallTemplate draw_platform draw_template (keyed_model ''sk-1'') (systemPrompt_of draw_filter)
            (f_prompt draw_filter @ [LF, LF] @ ''bonjour'') [] [] = Some c \<and>
          r_image (c_result c) = 7 \<and>
          ''template request error: HTTP status 500'' \<in> set (c_log c))
   \<and> (\<exists>r. RunFilter draw_platform [painter] [keyed_model ''sk-1''] draw_filter = Some r \<and> run_ok r \<and>
          run_clipboardBitmap r = Some 7)"
proof -
  let ?m = "keyed_model ''sk-1''" and ?sp = "systemPrompt_of sample_filter"
  let ?prompt = "f_prompt sample_filter @ [LF, LF] @ ''bonjour''"
  let ?hi = "''hi '' @ [DQUOTE] @ ''there'' @ [DQUOTE]"
  have valid: "ep_valid (endpoint_of chat_template ?m ?sp ?prompt [] [])"
    by (simp add: chat_endpoint)
  have path: "t_resultPath chat_template = ''choices[0].message.content''"
    and out: "t_output chat_template = Text"
    by (simp_all add: chat_template_def)
  have no_url: "(if ([]::wstring) = [] then [] else ''data:image/png;base64,'' @ []) = ([]::wstring)"
    by simp

  \<comment> \<open>status 500, text output, a build that logs\<close>
  let ?req = "request_of failing_platform chat_template ?m ?sp ?prompt [] []"
  let ?w = "http_reply 500 [there_response]"
  note on = transport_error_is_not_fatal [where P = failing_platform and req = ?req and w = ?w
      and status = 500 and tpl = chat_template and m = ?m and systemPrompt = ?sp and prompt = ?prompt
      and ?imageB64.0 = "[]" and ?imageDataUrl.0 = "[]" and resp = there_response
      and err = "''HTTP status 500''" and g_providers = "[openai]" and g_models = "[?m]"
      and f = sample_filter and textInput = "''bonjour''"]
  have "WinHttp failing_platform ?req = ?w \<and> wh_open ?w \<and> wh_connect ?w \<and> wh_openRequest ?w \<and>
      wh_sendRequest ?w \<and> wh_receiveResponse ?w \<and> wh_status ?w = Some 500 \<and> (400::nat) \<le> 500"
    by (simp add: failing_platform_def http_reply_def)
  with on [THEN conjunct1] have "HttpRequestWithHeaders failing_platform ?req =
      (concat (wh_chunks ?w), ''HTTP status '' @ to_wstring 500)"
    by (rule mp)
  then have http: "HttpRequestWithHeaders failing_platform ?req = (there_response, ''HTTP status 500'')"
    by (simp add: http_reply_def digit_char_def)
  from on [THEN conjunct2, THEN conjunct2, THEN conjunct2, THEN conjunct1, THEN mp, OF conjI [OF valid http]]
  obtain c where c: "CallTemplate failing_platform chat_template ?m ?sp ?prompt [] [] = Some c"
    "''HTTP status 500'' \<noteq> [] \<longrightarrow>
       (''template request error: '' @ ''HTTP status 500'' \<in> set (c_log c) \<longleftrightarrow> DEBUG failing_platform)"
    "there_response \<noteq> [] \<and> t_output chat_template = Text \<longrightarrow>
       r_text (c_result c) =
         (if t_resultPath chat_template \<noteq> [] \<and>
             ExtractByPath failing_platform there_response (t_resultPath chat_template) \<noteq> []
          then ExtractByPath failing_platform there_response (t_resultPath chat_template)
          else ExtractContent there_response)"
    by blast
  have dbg: "DEBUG failing_platform"
    by (simp add: failing_platform_def sample_platform_def)
  have body: "there_response \<noteq> []"
    by (simp add: there_response_def)
  from c(2) dbg have line: "''template request error: HTTP status 500'' \<in> set (c_log c)"
    by simp
  from c(3) body out have tx: "r_text (c_result c) = ?hi"
    by (simp add: path there_path there_content)
  from c(1) tx line have first: "\<exists>c. CallTemplate failing_platform chat_template ?m ?sp ?prompt [] [] = Some c \<and>
      r_text (c_result c) = ?hi \<and> ''template request error: HTTP status 500'' \<in> set (c_log c)"
    by blast
  from on [THEN conjunct2, THEN conjunct2, THEN conjunct2, THEN conjunct2, THEN mp,
      OF conjI [OF keyed_resolve sample_inputs(1)]]
  obtain c' r where r: "CallTemplate failing_platform chat_template ?m ?sp ?prompt []
        (if ([]::wstring) = [] then [] else ''data:image/png;base64,'' @ []) = Some c'"
    "RunFilter failing_platform [openai] [?m] sample_filter = Some r"
    "t_output chat_template = Text \<longrightarrow>
       (run_ok r \<longleftrightarrow>
          r_text (c_result c') \<noteq> [] \<and> SetClipboardText_throws failing_platform (r_text (c_result c')) = None) \<and>
       (run_ok r \<longrightarrow> run_clipboardText r = Some (r_text (c_result c')))"
    by blast
  from r(1) c(1) have "c' = c"
    by (simp only: no_url option.inject)
  with r(3) out tx have "run_ok r" "run_clipboardText r = Some ?hi"
    by (simp_all add: failing_platform_def sample_platform_def)
  with r(2) have second: "\<exists>r. RunFilter failing_platform [openai] [?m] sample_filter = Some r \<and> run_ok r \<and>
      run_clipboardText r = Some ?hi"
    by blast

  \<comment> \<open>the same reply in a build that does not log\<close>
  let ?req_r = "request_of release_platform chat_template ?m ?sp ?prompt [] []"
  note rel = transport_error_is_not_fatal [where P = release_platform and tpl = chat_template
      and m = ?m and systemPrompt = ?sp and prompt = ?prompt and ?imageB64.0 = "[]"
      and ?imageDataUrl.0 = "[]" and resp = there_response and err = "''HTTP status 500''"]
  from rel [THEN conjunct2, THEN conjunct2, THEN conjunct2, THEN conjunct1, THEN mp,
      OF conjI [OF valid release_http]]
  obtain d where d: "CallTemplate release_platform chat_template ?m ?sp ?prompt [] [] = Some d"
    "\<not> DEBUG release_platform \<longrightarrow> c_log d = []"
    by blast
  have "\<not> DEBUG release_platform"
    by (simp add: release_platform_def)
  with d have third: "\<exists>c. CallTemplate release_platform chat_template ?m ?sp ?prompt [] [] = Some c \<and>
      c_log c = []"
    by blast

  \<comment> \<open>a request that cannot be sent\<close>
  let ?req' = "request_of offline_platform chat_template ?m ?sp ?prompt [] []"
  let ?w' = "(http_reply 0 [])\<lparr>wh_sendRequest := False, wh_lastError := 12029\<rparr>"
  obtain resp' err' where pair: "HttpRequestWithHeaders offline_platform ?req' = (resp', err')"
    by (cases "HttpRequestWithHeaders offline_platform ?req'")
  note off = transport_error_is_not_fatal [where P = offline_platform and req = ?req' and w = ?w'
      and tpl = chat_template and m = ?m and systemPrompt = ?sp and prompt = ?prompt
      and ?imageB64.0 = "[]" and ?imageDataUrl.0 = "[]" and resp = resp' and err = err'
      and g_providers = "[openai]" and g_models = "[?m]" and f = sample_filter
      and textInput = "''bonjour''"]
  have "WinHttp offline_platform ?req' = ?w' \<and>
      \<not> (wh_open ?w' \<and> wh_connect ?w' \<and> wh_openRequest ?w' \<and> wh_sendRequest ?w' \<and> wh_receiveResponse ?w')"
    by (simp add: offline_platform_def http_reply_def)
  with off [THEN conjunct2, THEN conjunct1]
  have "fst (HttpRequestWithHeaders offline_platform ?req') = [] \<and>
      snd (HttpRequestWithHeaders offline_platform ?req') \<noteq> []"
    by (rule mp)
  then have empty: "fst (HttpRequestWithHeaders offline_platform ?req') = []" ..
  with pair have none: "resp' = []"
    by simp
  from off [THEN conjunct2, THEN conjunct2, THEN conjunct2, THEN conjunct1, THEN mp, OF conjI [OF valid pair]]
  obtain e where e: "CallTemplate offline_platform chat_template ?m ?sp ?prompt [] [] = Some e"
    "resp' = [] \<longrightarrow>
       r_text (c_result e) = [] \<and> r_image (c_result e) = 0 \<and>
       ''template response produced no image'' \<notin> set (c_log e) \<and>
       (\<forall>x. ''template response empty content. resp='' @ x \<notin> set (c_log e))"
    by blast
  from e(2) none have blank: "r_text (c_result e) = []" "r_image (c_result e) = 0"
    by blast+
  with e(1) have fourth: "\<exists>c. CallTemplate offline_platform chat_template ?m ?sp ?prompt [] [] = Some c \<and>
      r_text (c_result c) = [] \<and> r_image (c_result c) = 0"
    by blast
  from off [THEN conjunct2, THEN conjunct2, THEN conjunct2, THEN conjunct2, THEN mp,
      OF conjI [OF keyed_resolve sample_inputs(3)]]
  obtain e' r' where r': "CallTemplate offline_platform chat_template ?m ?sp ?prompt []
        (if ([]::wstring) = [] then [] else ''data:image/png;base64,'' @ []) = Some e'"
    "RunFilter offline_platform [openai] [?m] sample_filter = Some r'"
    "t_output chat_template = Text \<longrightarrow>
       (run_ok r' \<longleftrightarrow>
          r_text (c_result e') \<noteq> [] \<and> SetClipboardText_throws offline_platform (r_text (c_result e')) = None) \<and>
       (run_ok r' \<longrightarrow> run_clipboardText r' = Some (r_text (c_result e')))"
    by blast
  from r'(1) e(1) have same: "e' = e"
    by (simp only: no_url option.inject)
  from r'(3) out have "run_ok r' \<longrightarrow> r_text (c_result e') \<noteq> []"
    by blast
  with blank(1) have "\<not> run_ok r'"
    unfolding same by blast
  with r'(2) have fifth: "\<exists>r. RunFilter offline_platform [openai] [?m] sample_filter = Some r \<and> \<not> run_ok r"
    by blast

  \<comment> \<open>a body whose reading fails\<close>
  let ?req_t = "request_of truncated_platform chat_template ?m ?sp ?prompt [] []"
  let ?w_t = "(http_reply 200 [take 30 there_response])\<lparr>wh_readError := True\<rparr>"
  note cut = transport_error_is_not_fatal [where P = truncated_platform and req = ?req_t and w = ?w_t
      and status = 200]
  have broken: "wh_readError (WinHttp truncated_platform ?req_t)"
    by (simp add: truncated_platform_def)
  have "WinHttp truncated_platform ?req_t = ?w_t \<and> wh_open ?w_t \<and> wh_connect ?w_t \<and>
      wh_openRequest ?w_t \<and> wh_sendRequest ?w_t \<and> wh_receiveResponse ?w_t \<and>
      (wh_status ?w_t = None \<or> wh_status ?w_t = Some 200 \<and> (200::nat) < 400)"
    by (simp add: truncated_platform_def http_reply_def)
  with cut [THEN conjunct2, THEN conjunct2, THEN conjunct1]
  have "HttpRequestWithHeaders truncated_platform ?req_t = (concat (wh_chunks ?w_t), [])"
    by (rule mp)
  then have sixth: "HttpRequestWithHeaders truncated_platform ?req_t = (take 30 there_response, [])"
    by (simp add: http_reply_def)

  \<comment> \<open>status 500, image output\<close>
  let ?sp_d = "systemPrompt_of draw_filter"
  let ?prompt_d = "f_prompt draw_filter @ [LF, LF] @ ''bonjour''"
  note draw = transport_error_is_not_fatal [where P = draw_platform and tpl = draw_template and m = ?m
      and systemPrompt = ?sp_d and prompt = ?prompt_d and ?imageB64.0 = "[]" and ?imageDataUrl.0 = "[]"
      and resp = image_response and err = "''HTTP status 500''" and g_providers = "[painter]"
      and g_models = "[?m]" and f = draw_filter and textInput = "''bonjour''"]
  from draw [THEN conjunct2, THEN conjunct2, THEN conjunct2, THEN conjunct1, THEN mp,
      OF conjI [OF draw_endpoint draw_http]]
  obtain g where g: "CallTemplate draw_platform draw_template ?m ?sp_d ?prompt_d [] [] = Some g"
    "''HTTP status 500'' \<noteq> [] \<longrightarrow>
       (''template request error: '' @ ''HTTP status 500'' \<in> set (c_log g) \<longleftrightarrow> DEBUG draw_platform)"
    "image_response \<noteq> [] \<and> t_output draw_template = Image \<longrightarrow>
       r_image (c_result g) =
         (let b64 = strip_data_url
                (if t_resultPath draw_template = [] then []
                 else ExtractByPath draw_platform image_response (t_resultPath draw_template));
              b64 = (if b64 \<noteq> [] then b64
                     else if ExtractB64Image image_response \<noteq> [] then ExtractB64Image image_response
                     else ExtractContent image_response);
              b64 = strip_data_url b64
          in if b64 = [] then 0 else Base64ToBitmap draw_platform b64)"
    by blast
  have dbg': "DEBUG draw_platform"
    by (simp add: draw_platform_def sample_platform_def)
  have out': "t_output draw_template = Image" and path': "t_resultPath draw_template = []"
    by (simp_all add: draw_template_def)
  have body': "image_response \<noteq> []"
    by (simp add: image_response_def)
  have bitmap: "Base64ToBitmap draw_platform ''UE5H'' = 7"
    by (simp add: draw_platform_def)
  from g(2) dbg' have line': "''template request error: HTTP status 500'' \<in> set (c_log g)"
    by simp
  from g(3) body' out' have image: "r_image (c_result g) = 7"
    by (simp add: path' strip_sample image_b64 bitmap)
  from g(1) image line' have seventh:
    "\<exists>c. CallTemplate draw_platform draw_template ?m ?sp_d ?prompt_d [] [] = Some c \<and>
       r_image (c_result c) = 7 \<and> ''template request error: HTTP status 500'' \<in> set (c_log c)"
    by blast
  from draw [THEN conjunct2, THEN conjunct2, THEN conjunct2, THEN conjunct2, THEN mp,
      OF conjI [OF draw_resolve sample_inputs(5)]]
  obtain g' q where q: "CallTemplate draw_platform draw_template ?m ?sp_d ?prompt_d []
        (if ([]::wstring) = [] then [] else ''data:image/png;base64,'' @ []) = Some g'"
    "RunFilter draw_platform [painter] [?m] draw_filter = Some q"
    "t_output draw_template = Image \<longrightarrow>
       (run_ok q \<longleftrightarrow>
          r_image (c_result g') \<noteq> 0 \<and> \<not> SetClipboardBitmap_throws draw_platform (r_image (c_result g'))) \<and>
       (run_ok q \<longrightarrow> run_clipboardBitmap q = Some (r_image (c_result g')))"
    by blast
  from q(1) g(1) have "g' = g"
    by (simp only: no_url option.inject)
  with q(3) out' image have "run_ok q" "run_clipboardBitmap q = Some 7"
    by (simp_all add: draw_platform_def sample_platform_def)
  with q(2) have eighth: "\<exists>r. RunFilter draw_platform [painter] [?m] draw_filter = Some r \<and> run_ok r \<and>
      run_clipboardBitmap r = Some 7"
    by blast
  from http first second third empty fourth fifth broken sixth seventh eighth show ?thesis
    by (intro conjI)
qed

lemma bonjour_body:
  \<open>rendered_payload chat_template (keyed_model ''sk-1'') sp
     (''Translate to English.'' @ [LF, LF] @ ''bonjour'') [] [] =
   ''{"model":"gpt-4o","input":"Translate to English.'' @ [BSLASH, CHR ''n'', BSLASH, CHR ''n''] @
   ''bonjour"}''\<close>
  by (simp add: rendered_payload_def chat_template_def keyed_model_def substitute_def
      JsonEscape_def BSLASH_def DQUOTE_def LF_def CR_def TAB_def)

lemma truncated_text:
  "ExtractByPath truncated_platform (take 30 there_response) ''choices[0].message.content'' = []"
  "ExtractContent (take 30 there_response) = ''hi '' @ [DQUOTE] @ ''th''"
  by (simp_all add: ExtractByPath_def ExtractContent_def truncated_platform_def sample_platform_def
      there_response_def hello_response_def items_response_def wfind_def DQUOTE_def BSLASH_def)

lemma chat_run:
  assumes input: "RunFilter_input P chat_template = Inr (''bonjour'', [])"
    and http: "\<And>req. HttpRequestWithHeaders P req = (resp, err)"
    and body: "resp \<noteq> []"
    and tx: "r_text (fst (CallTemplate_text P chat_template resp)) = t"
    and some: "t \<noteq> []"
    and clip: "SetClipboardText_throws P t = None"
  shows "RunFilter P [openai] [keyed_model ''sk-1''] sample_filter =
     Some \<lparr>run_ok = True,
           run_sent = [request_of P chat_template (keyed_model ''sk-1'') (systemPrompt_of sample_filter)
                         (f_prompt sample_filter @ [LF, LF] @ ''bonjour'') [] []],
           run_clipboardText = Some t, run_clipboardBitmap = None,
           run_log =
             LogLine P (''RunFilter: '' @ f_title sample_filter @ '' input='' @
                        IOTypeToString P (f_input sample_filter) @ '' output='' @
                        IOTypeToString P (f_output sample_filter)) @
             request_log P
               (request_of P chat_template (keyed_model ''sk-1'') (systemPrompt_of sample_filter)
                  (f_prompt sample_filter @ [LF, LF] @ ''bonjour'') [] []) err @
             snd (CallTemplate_text P chat_template resp)\<rparr>"
proof -
  let ?m = "keyed_model ''sk-1''" and ?sp = "systemPrompt_of sample_filter"
  let ?prompt = "f_prompt sample_filter @ [LF, LF] @ ''bonjour''"
  let ?req = "request_of P chat_template ?m ?sp ?prompt [] []"
  have valid: "ep_valid (endpoint_of chat_template ?m ?sp ?prompt [] [])"
    by (simp add: chat_endpoint)
  have out: "t_output chat_template = Text"
    by (simp add: chat_template_def)
  from CallTemplate_valid [OF valid http] body
  have call: "CallTemplate P chat_template ?m ?sp ?prompt [] [] =
      Some \<lparr>c_result = fst (CallTemplate_text P chat_template resp), c_sent = [?req],
            c_log = request_log P ?req err @ snd (CallTemplate_text P chat_template resp)\<rparr>"
    by (simp add: Let_def extraction_def out)
  from call some clip tx show ?thesis
    by (simp add: RunFilter_def keyed_resolve input out Let_def)
qed

text \<open>
  Claim C8 as stated fails where it says that the error is recorded. In a build without
  \<^verbatim>\<open>DEBUG\<close> a status of 500 leaves no trace: the run succeeds and its log is empty. And
  in a build that logs, a body whose reading fails sets no message: the run puts the
  truncated text on the clipboard and logs no error line.
\<close>

theorem error_not_recorded_counterexample:
  \<open>\<not> DEBUG release_platform
   \<and> HttpRequestWithHeaders release_platform
       (request_of release_platform chat_template (keyed_model ''sk-1'') (systemPrompt_of sample_filter)
          (f_prompt sample_filter @ [LF, LF] @ ''bonjour'') [] []) =
     (there_response, ''HTTP status 500'')
   \<and> map_option (\<lambda>r. (run_ok r, run_clipboardText r, run_log r))
       (RunFilter release_platform [openai] [keyed_model ''sk-1''] sample_filter) =
     Some (True, Some (''hi '' @ [DQUOTE] @ ''there'' @ [DQUOTE]), [])
   \<and> DEBUG truncated_platform
   \<and> wh_readError (WinHttp truncated_platform
       (request_of truncated_platform chat_template (keyed_model ''sk-1'') (systemPrompt_of sample_filter)
          (f_prompt sample_filter @ [LF, LF] @ ''bonjour'') [] []))
   \<and> HttpRequestWithHeaders truncated_platform
       (request_of truncated_platform chat_template (keyed_model ''sk-1'') (systemPrompt_of sample_filter)
          (f_prompt sample_filter @ [LF, LF] @ ''bonjour'') [] []) =
     (take 30 there_response, [])
   \<and> map_option (\<lambda>r. (run_ok r, run_clipboardText r, run_log r))
       (RunFilter truncated_platform [openai] [keyed_model ''sk-1''] sample_filter) =
     Some (True, Some (''hi '' @ [DQUOTE] @ ''th''),
           [''RunFilter: Translate input=text_type output=text_type'',
            ''request host: api.openai.com'',
            ''request path: /v1/chat/completions'',
            ''body: {"model":"gpt-4o","input":"Translate to English.'' @
              [BSLASH, CHR ''n'', BSLASH, CHR ''n''] @ ''bonjour"}''])\<close>
proof (intro conjI)
  let ?m = "keyed_model ''sk-1''" and ?sp = "systemPrompt_of sample_filter"
  let ?prompt = "f_prompt sample_filter @ [LF, LF] @ ''bonjour''"
  show release: "\<not> DEBUG release_platform"
    by (simp add: release_platform_def)
  show "HttpRequestWithHeaders release_platform
       (request_of release_platform chat_template ?m ?sp ?prompt [] []) =
     (there_response, ''HTTP status 500'')"
    by (rule release_http)
  have body: "there_response \<noteq> []"
    by (simp add: there_response_def)
  have path: "ExtractByPath release_platform there_response ''choices[0].message.content'' = []"
    by (simp add: walk_eval release_platform_def failing_parse there_json_def)
  have tx: "r_text (fst (CallTemplate_text release_platform chat_template there_response)) =
      ''hi '' @ [DQUOTE] @ ''there'' @ [DQUOTE]"
    by (simp add: CallTemplate_text_def Let_def chat_template_def path there_content)
  have clip: "SetClipboardText_throws release_platform t = None" for t
    by (simp add: release_platform_def failing_platform_def sample_platform_def)
  have quiet: "LogLine release_platform l = []" "request_log release_platform req err = []"
    "snd (CallTemplate_text release_platform tpl resp) = []" for l req err tpl resp
    using release by (simp_all add: LogLine_def request_log_def CallTemplate_text_def Let_def)
  show "map_option (\<lambda>r. (run_ok r, run_clipboardText r, run_log r))
       (RunFilter release_platform [openai] [?m] sample_filter) =
     Some (True, Some (''hi '' @ [DQUOTE] @ ''there'' @ [DQUOTE]), [])"
    using chat_run [OF sample_inputs(2) release_http body tx _ clip] by (simp add: quiet)
  show debug: "DEBUG truncated_platform"
    by (simp add: truncated_platform_def sample_platform_def)
  show "wh_readError (WinHttp truncated_platform
       (request_of truncated_platform chat_template ?m ?sp ?prompt [] []))"
    by (simp add: truncated_platform_def)
  have http: "HttpRequestWithHeaders truncated_platform req = (take 30 there_response, [])" for req
    by (simp add: HttpRequestWithHeaders_def truncated_platform_def http_reply_def)
  show "HttpRequestWithHeaders truncated_platform
       (request_of truncated_platform chat_template ?m ?sp ?prompt [] []) =
     (take 30 there_response, [])"
    by (rule http)
  have body': "take 30 there_response \<noteq> []"
    by (simp add: there_response_def)
  have tx': "r_text (fst (CallTemplate_text truncated_platform chat_template (take 30 there_response))) =
      ''hi '' @ [DQUOTE] @ ''th''"
    by (simp add: CallTemplate_text_def Let_def chat_template_def truncated_text)
  have lines: "snd (CallTemplate_text truncated_platform chat_template (take 30 there_response)) = []"
    by (simp add: CallTemplate_text_def Let_def chat_template_def truncated_text)
  have clip': "SetClipboardText_throws truncated_platform t = None" for t
    by (simp add: truncated_platform_def sample_platform_def)
  have conv: "GetString truncated_platform key = key" "MultiByteToWideChar truncated_platform b = b"
    "WideCharToMultiByte truncated_platform b = b" for key b
    by (simp_all add: truncated_platform_def sample_platform_def)
  have fld: "f_title sample_filter = ''Translate''" "f_input sample_filter = Text"
    "f_output sample_filter = Text" "f_prompt sample_filter = ''Translate to English.''"
    by (simp_all add: sample_filter_def)
  have multi: "\<not> ContainsNoCase (rendered_headers chat_template ?m ?sp ?prompt [] [])
      ''multipart/form-data''"
    by (simp only: sk1_headers json_headers_not_multipart not_False_eq_True)
  have payload: \<open>rendered_payload chat_template ?m ?sp ?prompt [] [] =
       ''{"model":"gpt-4o","input":"Translate to English.'' @ [BSLASH, CHR ''n'', BSLASH, CHR ''n''] @
       ''bonjour"}''\<close>
    by (simp only: fld bonjour_body)
  have utf8: \<open>ToUtf8 truncated_platform
       (''{"model":"gpt-4o","input":"Translate to English.'' @ [BSLASH, CHR ''n'', BSLASH, CHR ''n''] @
        ''bonjour"}'') =
       ''{"model":"gpt-4o","input":"Translate to English.'' @ [BSLASH, CHR ''n'', BSLASH, CHR ''n''] @
       ''bonjour"}''\<close>
    by (simp add: ToUtf8_def conv BSLASH_def)
  have req: "rq_host (request_of truncated_platform chat_template ?m ?sp ?prompt [] []) = ''api.openai.com''"
    "rq_path (request_of truncated_platform chat_template ?m ?sp ?prompt [] []) = ''/v1/chat/completions''"
    by (simp_all add: request_of_def Let_def chat_endpoint)
  have req_body: \<open>rq_body (request_of truncated_platform chat_template ?m ?sp ?prompt [] []) =
       ''{"model":"gpt-4o","input":"Translate to English.'' @ [BSLASH, CHR ''n'', BSLASH, CHR ''n''] @
       ''bonjour"}''\<close>
    by (simp only: request_json(2) [OF multi] payload utf8)
  show \<open>map_option (\<lambda>r. (run_ok r, run_clipboardText r, run_log r))
       (RunFilter truncated_platform [openai] [?m] sample_filter) =
     Some (True, Some (''hi '' @ [DQUOTE] @ ''th''),
           [''RunFilter: Translate input=text_type output=text_type'',
            ''request host: api.openai.com'',
            ''request path: /v1/chat/completions'',
            ''body: {"model":"gpt-4o","input":"Translate to English.'' @
              [BSLASH, CHR ''n'', BSLASH, CHR ''n''] @ ''bonjour"}''])\<close>
    using chat_run [OF sample_inputs(4) http body' tx' _ clip'] req req_body
    by (simp add: lines LogLine_def request_log_def debug IOTypeToString_def conv fld(1-3)
        BSLASH_def)
qed

section \<open>The multipart request\<close>

lemma CallTemplate_sends:
  assumes "ep_valid (endpoint_of tpl m systemPrompt prompt imageB64 imageDataUrl)"
  shows "\<exists>c. CallTemplate P tpl m systemPrompt prompt imageB64 imageDataUrl = Some c \<and>
             c_sent c = [request_of P tpl m systemPrompt prompt imageB64 imageDataUrl]"
proof -
  obtain resp err where
    "HttpRequestWithHeaders P (request_of P tpl m systemPrompt prompt imageB64 imageDataUrl) = (resp, err)"
    by (cases "HttpRequestWithHeaders P (request_of P tpl m systemPrompt prompt imageB64 imageDataUrl)")
  from CallTemplate_after_dispatch [OF assms this] show ?thesis by blast
qed

lemma edit_endpoint:
  "t_endpoint tpl = ''/images/edits'' \<Longrightarrow>
   endpoint_of tpl (keyed_model key) sp p img url =
     \<lparr>ep_valid = True, ep_host = ''api.openai.com'', ep_path = ''/v1/images/edits'',
      ep_useHttps = True\<rparr>"
proof -
  assume e: "t_endpoint tpl = ''/images/edits''"
  have "substitute ''/images/edits'' (keyed_model key) sp p img url False = ''/images/edits''"
    by (simp add: substitute_def)
  with e show ?thesis
    by (simp add: endpoint_of_def keyed_model_def PrepareEndpoint_def starts_with_def wfind_0)
qed

lemma edit_headers:
  "rendered_headers edit_template m sp p img url = ''Content-Type: multipart/form-data'' @ [CR, LF]"
  by (simp add: rendered_headers_def edit_template_def substitute_def)

lemma mixed_headers:
  "rendered_headers mixed_case_template m sp p img url = ''Content-Type: Multipart/Form-Data'' @ [CR, LF]"
  by (simp add: rendered_headers_def mixed_case_template_def edit_template_def substitute_def)

lemma multipart_detected:
  "ContainsNoCase (''Content-Type: multipart/form-data'' @ [CR, LF]) ''multipart/form-data''"
  "ContainsNoCase (''Content-Type: Multipart/Form-Data'' @ [CR, LF]) ''multipart/form-data''"
  by (simp_all add: ContainsNoCase_def towlower_def wfind_0 CR_def LF_def)

lemma scan_headers:
  "replace_scan (''Content-Type: multipart/form-data'' @ [CR, LF]) ''multipart/form-data''
      ''multipart/form-data; boundary=----cbfilterboundary'' =
     ''Content-Type: multipart/form-data; boundary=----cbfilterboundary'' @ [CR, LF]"
  "replace_scan (''Content-Type: Multipart/Form-Data'' @ [CR, LF]) ''multipart/form-data''
      ''multipart/form-data; boundary=----cbfilterboundary'' =
     ''Content-Type: Multipart/Form-Data'' @ [CR, LF]"
  by (simp_all add: CR_def LF_def)


lemma find_first_map_None:
  "find_first (map f s) (map f t) = None \<Longrightarrow> find_first s t = None"
proof (induction s)
  case Nil
  then show ?case by (simp split: if_splits)
next
  case (Cons c cs)
  from Cons.prems have np: "\<not> prefix (map f t) (map f (c # cs))"
    and rest: "find_first (map f cs) (map f t) = None"
    by (auto split: if_splits)
  from np have "\<not> prefix t (c # cs)"
    using map_mono_prefix by blast
  with Cons.IH [OF rest] show ?case by simp
qed

lemma find_first_mid: "find_first (a @ t @ b) t \<noteq> None"
proof (induction a)
  case Nil
  show ?case
  proof (cases "t @ b")
    case Nil
    then show ?thesis by simp
  next
    case (Cons x xs)
    have "prefix t (t @ b)" by simp
    with Cons have "prefix t (x # xs)" by simp
    with Cons show ?thesis by simp
  qed
next
  case (Cons c cs)
  then show ?case by auto
qed

lemma token_lower: "map towlower ''multipart/form-data'' = ''multipart/form-data''"
  by (simp add: towlower_def)

lemma not_contains_find:
  "\<not> ContainsNoCase s ''multipart/form-data'' \<Longrightarrow> find_first s ''multipart/form-data'' = None"
  using find_first_map_None [of towlower s "''multipart/form-data''"]
  unfolding ContainsNoCase_def Let_def wfind_0 token_lower by blast

lemma contains_mid: "ContainsNoCase (pre @ ''multipart/form-data'' @ post) ''multipart/form-data''"
  unfolding ContainsNoCase_def Let_def wfind_0 map_append token_lower
  by (rule find_first_mid)

lemma token_border_free:
  "\<forall>k\<in>set [1..<19]. \<not> prefix (drop k ''multipart/form-data'') ''multipart/form-data''"
  by code_simp

lemma prefix_short:
  assumes "prefix us (t @ post)" and "length us \<le> length t"
  shows "prefix us t"
  using assms by (auto simp: prefix_append)

lemma token_first_after:
  assumes "find_first pre ''multipart/form-data'' = None"
  shows "find_first (pre @ ''multipart/form-data'' @ post) ''multipart/form-data'' = Some (length pre)"
  using assms
proof (induction pre)
  case Nil
  show ?case by simp
next
  case (Cons c cs)
  let ?T = "''multipart/form-data''"
  from Cons.prems have np: "\<not> prefix ?T (c # cs)" and rest: "find_first cs ?T = None"
    by (auto split: if_splits)
  have "\<not> prefix ?T ((c # cs) @ ?T @ post)"
  proof
    assume "prefix ?T ((c # cs) @ ?T @ post)"
    with np obtain us where us: "?T = (c # cs) @ us" "prefix us (?T @ post)"
      unfolding prefix_append by blast
    have "length ?T = 19" by simp
    moreover from us(1) have "length ?T = length ((c # cs) @ us)" by (rule arg_cong)
    ultimately have len: "length (c # cs) + length us = 19" by (simp only: length_append)
    have "us \<noteq> []"
    proof
      assume "us = []"
      with us(1) have eq: "?T = c # cs" by (simp only: append_Nil2)
      have "prefix ?T (c # cs)"
        by (rule subst [OF eq, where P = "prefix ?T"]) (rule prefix_order.order_refl)
      with np show False ..
    qed
    then have "0 < length us" by simp
    with len have "length (c # cs) < 19" by linarith
    moreover have "1 \<le> length (c # cs)" by simp
    ultimately have k: "length (c # cs) \<in> set [1..<19]" by (simp only: set_upt atLeastLessThan_iff)
    from us(1) have d: "us = drop (length (c # cs)) ?T"
      by (metis append_eq_conv_conj)
    from len \<open>length ?T = 19\<close> have "length us \<le> length ?T" by linarith
    from prefix_short [OF us(2) this] d
    have "prefix (drop (length (c # cs)) ?T) ?T" by simp
    with token_border_free k show False by blast
  qed
  with Cons.IH [OF rest] show ?case by simp
qed

lemma replace_scan_at:
  assumes "find_first (pre @ frm @ post) frm = Some (length pre)" and "frm \<noteq> []"
  shows "replace_scan (pre @ frm @ post) frm to = pre @ to @ replace_scan post frm to"
  using assms(1)
proof (induction pre)
  case Nil
  from assms(2) obtain f fs where "frm = f # fs" by (cases frm) auto
  then show ?case by simp
next
  case (Cons c cs)
  from Cons.prems have np: "\<not> prefix frm ((c # cs) @ frm @ post)"
    and rest: "find_first (cs @ frm @ post) frm = Some (length cs)"
    by (auto split: if_splits)
  from np Cons.IH [OF rest] show ?case by simp
qed

lemma header_rewrite:
  assumes "\<not> ContainsNoCase pre ''multipart/form-data''"
    and "\<not> ContainsNoCase post ''multipart/form-data''"
  shows "replace_scan (pre @ ''multipart/form-data'' @ post) ''multipart/form-data''
           ''multipart/form-data; boundary=----cbfilterboundary'' =
         pre @ ''multipart/form-data; boundary=----cbfilterboundary'' @ post"
proof -
  let ?T = "''multipart/form-data''"
  have a: "find_first pre ?T = None" and b: "find_first post ?T = None"
    by (rule not_contains_find, rule assms)+
  have ne: "?T \<noteq> []" by simp
  show ?thesis
    by (simp only: replace_scan_at [OF token_first_after [OF a] ne] find_first_None_scan [OF b])
qed

lemma multipart_body_without_image:
  assumes "imageB64 = [] \<or> CryptStringToBinary P imageB64 = None \<or> CryptStringToBinary P imageB64 = Some []"
  shows \<open>BuildMultipartBody P boundary model prompt imageB64 =
     ''--'' @ ToUtf8 P boundary @ [CR, LF] @
     ''Content-Disposition: form-data; name="model"'' @ [CR, LF, CR, LF] @
     ToUtf8 P model @ [CR, LF] @
     ''--'' @ ToUtf8 P boundary @ [CR, LF] @
     ''Content-Disposition: form-data; name="prompt"'' @ [CR, LF, CR, LF] @
     ToUtf8 P prompt @ [CR, LF] @
     ''--'' @ ToUtf8 P boundary @ ''--'' @ [CR, LF]\<close>
  using assms by (auto simp: BuildMultipartBody_def addText_def CRLF_def DQUOTE_def Let_def)

lemma multipart_body_with_image:
  assumes "imageB64 \<noteq> []" and "CryptStringToBinary P imageB64 = Some bytes" and "bytes \<noteq> []"
  shows \<open>BuildMultipartBody P boundary model prompt imageB64 =
     ''--'' @ ToUtf8 P boundary @ [CR, LF] @
     ''Content-Disposition: form-data; name="model"'' @ [CR, LF, CR, LF] @
     ToUtf8 P model @ [CR, LF] @
     ''--'' @ ToUtf8 P boundary @ [CR, LF] @
     ''Content-Disposition: form-data; name="prompt"'' @ [CR, LF, CR, LF] @
     ToUtf8 P prompt @ [CR, LF] @
     ''--'' @ ToUtf8 P boundary @ [CR, LF] @
     ''Content-Disposition: form-data; name="image"; filename="image.png"'' @ [CR, LF] @
     ''Content-Type: image/png'' @ [CR, LF, CR, LF] @
     bytes @ [CR, LF] @
     ''--'' @ ToUtf8 P boundary @ ''--'' @ [CR, LF]\<close>
  using assms by (simp add: BuildMultipartBody_def addText_def CRLF_def DQUOTE_def Let_def)

text \<open>
  Claim C1, as amended. For every call whose endpoint resolves, one request is sent. When
  the rendered header block contains \<^verbatim>\<open>multipart/form-data\<close> in any letter case, the body
  is built with the fixed boundary token \<^verbatim>\<open>----cbfilterboundary\<close>: a \<^verbatim>\<open>model\<close> part with
  the model name, a \<^verbatim>\<open>prompt\<close> part with the prompt and, when image data is present and
  decodes to at least one byte, an \<^verbatim>\<open>image\<close> part of type \<^verbatim>\<open>image/png\<close> with the decoded
  bytes, each part introduced by the boundary line, and then the closing line of the
  boundary. When the header block holds the text once, spelled in lower case,
  \<^verbatim>\<open>; boundary=----cbfilterboundary\<close> is appended to it. When the header block does not
  contain the text, the headers are unchanged and the body is the rendered payload in
  UTF-8.
\<close>

theorem multipart_request_fixed_boundary:
  assumes "ep_valid (endpoint_of tpl m systemPrompt prompt imageB64 imageDataUrl)"
  shows \<open>\<exists>c req. CallTemplate P tpl m systemPrompt prompt imageB64 imageDataUrl = Some c \<and>
       c_sent c = [req] \<and>
       (ContainsNoCase (rendered_headers tpl m systemPrompt prompt imageB64 imageDataUrl)
          ''multipart/form-data'' \<and>
        (imageB64 = [] \<or> CryptStringToBinary P imageB64 = None \<or>
         CryptStringToBinary P imageB64 = Some []) \<longrightarrow>
        rq_body req =
          ''--'' @ ToUtf8 P ''----cbfilterboundary'' @ [CR, LF] @
          ''Content-Disposition: form-data; name="model"'' @ [CR, LF, CR, LF] @
          ToUtf8 P (m_modelName m) @ [CR, LF] @
          ''--'' @ ToUtf8 P ''----cbfilterboundary'' @ [CR, LF] @
          ''Content-Disposition: form-data; name="prompt"'' @ [CR, LF, CR, LF] @
          ToUtf8 P prompt @ [CR, LF] @
          ''--'' @ ToUtf8 P ''----cbfilterboundary'' @ ''--'' @ [CR, LF]) \<and>
       (ContainsNoCase (rendered_headers tpl m systemPrompt prompt imageB64 imageDataUrl)
          ''multipart/form-data'' \<and>
        imageB64 \<noteq> [] \<and> CryptStringToBinary P imageB64 = Some bytes \<and> bytes \<noteq> [] \<longrightarrow>
        rq_body req =
          ''--'' @ ToUtf8 P ''----cbfilterboundary'' @ [CR, LF] @
          ''Content-Disposition: form-data; name="model"'' @ [CR, LF, CR, LF] @
          ToUtf8 P (m_modelName m) @ [CR, LF] @
          ''--'' @ ToUtf8 P ''----cbfilterboundary'' @ [CR, LF] @
          ''Content-Disposition: form-data; name="prompt"'' @ [CR, LF, CR, LF] @
          ToUtf8 P prompt @ [CR, LF] @
          ''--'' @ ToUtf8 P ''----cbfilterboundary'' @ [CR, LF] @
          ''Content-Disposition: form-data; name="image"; filename="image.png"'' @ [CR, LF] @
          ''Content-Type: image/png'' @ [CR, LF, CR, LF] @
          bytes @ [CR, LF] @
          ''--'' @ ToUtf8 P ''----cbfilterboundary'' @ ''--'' @ [CR, LF]) \<and>
       (rendered_headers tpl m systemPrompt prompt imageB64 imageDataUrl =
          pre @ ''multipart/form-data'' @ post \<and>
        \<not> ContainsNoCase pre ''multipart/form-data'' \<and>
        \<not> ContainsNoCase post ''multipart/form-data'' \<longrightarrow>
        rq_headers req = pre @ ''multipart/form-data; boundary=----cbfilterboundary'' @ post) \<and>
       (\<not> ContainsNoCase (rendered_headers tpl m systemPrompt prompt imageB64 imageDataUrl)
          ''multipart/form-data'' \<longrightarrow>
        rq_headers req = rendered_headers tpl m systemPrompt prompt imageB64 imageDataUrl \<and>
        rq_body req = ToUtf8 P (rendered_payload tpl m systemPrompt prompt imageB64 imageDataUrl))\<close>
proof -
  let ?req = "request_of P tpl m systemPrompt prompt imageB64 imageDataUrl"
  let ?H = "rendered_headers tpl m systemPrompt prompt imageB64 imageDataUrl"
  from CallTemplate_sends [OF assms] obtain c where
    c: "CallTemplate P tpl m systemPrompt prompt imageB64 imageDataUrl = Some c" "c_sent c = [?req]"
    by blast
  have hdr: "rq_headers ?req = pre @ ''multipart/form-data; boundary=----cbfilterboundary'' @ post"
    if "?H = pre @ ''multipart/form-data'' @ post \<and>
        \<not> ContainsNoCase pre ''multipart/form-data'' \<and>
        \<not> ContainsNoCase post ''multipart/form-data''"
  proof -
    from that have eq: "?H = pre @ ''multipart/form-data'' @ post"
      and a: "\<not> ContainsNoCase pre ''multipart/form-data''"
      and b: "\<not> ContainsNoCase post ''multipart/form-data''"
      by blast+
    have "ContainsNoCase ?H ''multipart/form-data''"
      unfolding eq by (rule contains_mid)
    from request_multipart(1) [OF this, of P] show ?thesis
      unfolding eq by (simp only: header_rewrite [OF a b])
  qed
  show ?thesis
  proof (intro exI [of _ c] exI [of _ ?req] conjI impI)
    show "CallTemplate P tpl m systemPrompt prompt imageB64 imageDataUrl = Some c" by (rule c)
    show "c_sent c = [?req]" by (rule c)
    show "rq_headers ?req = pre @ ''multipart/form-data; boundary=----cbfilterboundary'' @ post"
      if "?H = pre @ ''multipart/form-data'' @ post \<and>
        \<not> ContainsNoCase pre ''multipart/form-data'' \<and>
        \<not> ContainsNoCase post ''multipart/form-data''"
      using that by (rule hdr)
    show "rq_headers ?req = ?H" if "\<not> ContainsNoCase ?H ''multipart/form-data''"
      using that by (rule request_json)
    show "rq_body ?req = ToUtf8 P (rendered_payload tpl m systemPrompt prompt imageB64 imageDataUrl)"
      if "\<not> ContainsNoCase ?H ''multipart/form-data''"
      using that by (rule request_json)
  next
    assume h: "ContainsNoCase ?H ''multipart/form-data'' \<and>
        (imageB64 = [] \<or> CryptStringToBinary P imageB64 = None \<or>
         CryptStringToBinary P imageB64 = Some [])"
    then have "rq_body ?req = BuildMultipartBody P ''----cbfilterboundary'' (m_modelName m) prompt imageB64"
      by (simp only: request_multipart)
    also from h have "imageB64 = [] \<or> CryptStringToBinary P imageB64 = None \<or>
         CryptStringToBinary P imageB64 = Some []" by blast
    note multipart_body_without_image [OF this]
    finally show \<open>rq_body ?req =
          ''--'' @ ToUtf8 P ''----cbfilterboundary'' @ [CR, LF] @
          ''Content-Disposition: form-data; name="model"'' @ [CR, LF, CR, LF] @
          ToUtf8 P (m_modelName m) @ [CR, LF] @
          ''--'' @ ToUtf8 P ''----cbfilterboundary'' @ [CR, LF] @
          ''Content-Disposition: form-data; name="prompt"'' @ [CR, LF, CR, LF] @
          ToUtf8 P prompt @ [CR, LF] @
          ''--'' @ ToUtf8 P ''----cbfilterboundary'' @ ''--'' @ [CR, LF]\<close> .
  next
    assume h: "ContainsNoCase ?H ''multipart/form-data'' \<and>
        imageB64 \<noteq> [] \<and> CryptStringToBinary P imageB64 = Some bytes \<and> bytes \<noteq> []"
    then have "rq_body ?req = BuildMultipartBody P ''----cbfilterboundary'' (m_modelName m) prompt imageB64"
      by (simp only: request_multipart)
    also from h have "imageB64 \<noteq> []" "CryptStringToBinary P imageB64 = Some bytes" "bytes \<noteq> []"
      by blast+
    note multipart_body_with_image [OF this]
    finally show \<open>rq_body ?req =
          ''--'' @ ToUtf8 P ''----cbfilterboundary'' @ [CR, LF] @
          ''Content-Disposition: form-data; name="model"'' @ [CR, LF, CR, LF] @
          ToUtf8 P (m_modelName m) @ [CR, LF] @
          ''--'' @ ToUtf8 P ''----cbfilterboundary'' @ [CR, LF] @
          ''Content-Disposition: form-data; name="prompt"'' @ [CR, LF, CR, LF] @
          ToUtf8 P prompt @ [CR, LF] @
          ''--'' @ ToUtf8 P ''----cbfilterboundary'' @ [CR, LF] @
          ''Content-Disposition: form-data; name="image"; filename="image.png"'' @ [CR, LF] @
          ''Content-Type: image/png'' @ [CR, LF, CR, LF] @
          bytes @ [CR, LF] @
          ''--'' @ ToUtf8 P ''----cbfilterboundary'' @ ''--'' @ [CR, LF]\<close> .
  qed
qed

lemma sample_utf8:
  "ToUtf8 sample_platform ''gpt-4o'' = ''gpt-4o''"
  "ToUtf8 sample_platform ''make it blue'' = ''make it blue''"
  "ToUtf8 sample_platform ''----cbfilterboundary'' = ''----cbfilterboundary''"
  by (simp_all add: ToUtf8_def sample_platform_def)

lemma bonjour_payload:
  \<open>rendered_payload chat_template (keyed_model ''sk-1'') [] ''bonjour'' [] [] =
     ''{"model":"gpt-4o","input":"bonjour"}''\<close>
  by (simp add: rendered_payload_def chat_template_def keyed_model_def substitute_def
      JsonEscape_def BSLASH_def DQUOTE_def LF_def CR_def TAB_def)

lemma content_type_parts:
  "\<not> ContainsNoCase ''Content-Type: '' ''multipart/form-data''"
  "\<not> ContainsNoCase [CR, LF] ''multipart/form-data''"
  by (simp_all add: ContainsNoCase_def towlower_def wfind_0 CR_def LF_def)

lemma sample_decode:
  "CryptStringToBinary sample_platform ''UE5H'' = Some ''PNG''"
  "CryptStringToBinary sample_platform ''!!'' = None"
  by (simp_all add: sample_platform_def)

theorem multipart_request_fixed_boundary_witness:
  \<open>(\<exists>c req. CallTemplate sample_platform edit_template (keyed_model ''sk-1'') [] ''make it blue''
        ''UE5H'' ''data:image/png;base64,UE5H'' = Some c \<and>
      c_sent c = [req] \<and>
      rq_headers req = ''Content-Type: multipart/form-data; boundary=----cbfilterboundary'' @ [CR, LF] \<and>
      rq_body req =
        ''------cbfilterboundary'' @ [CR, LF] @
        ''Content-Disposition: form-data; name="model"'' @ [CR, LF, CR, LF] @
        ''gpt-4o'' @ [CR, LF] @
        ''------cbfilterboundary'' @ [CR, LF] @
        ''Content-Disposition: form-data; name="prompt"'' @ [CR, LF, CR, LF] @
        ''make it blue'' @ [CR, LF] @
        ''------cbfilterboundary'' @ [CR, LF] @
        ''Content-Disposition: form-data; name="image"; filename="image.png"'' @ [CR, LF] @
        ''Content-Type: image/png'' @ [CR, LF, CR, LF] @
        ''PNG'' @ [CR, LF] @
        ''------cbfilterboundary--'' @ [CR, LF])
   \<and> (\<exists>c req. CallTemplate sample_platform edit_template (keyed_model ''sk-1'') [] ''make it blue''
        [] [] = Some c \<and>
      c_sent c = [req] \<and>
      rq_body req =
        ''------cbfilterboundary'' @ [CR, LF] @
        ''Content-Disposition: form-data; name="model"'' @ [CR, LF, CR, LF] @
        ''gpt-4o'' @ [CR, LF] @
        ''------cbfilterboundary'' @ [CR, LF] @
        ''Content-Disposition: form-data; name="prompt"'' @ [CR, LF, CR, LF] @
        ''make it blue'' @ [CR, LF] @
        ''------cbfilterboundary--'' @ [CR, LF])
   \<and> (\<exists>c req. CallTemplate sample_platform chat_template (keyed_model ''sk-1'') [] ''bonjour'' [] [] =
        Some c \<and>
      c_sent c = [req] \<and>
      rq_headers req =
        ''Content-Type: application/json'' @ [CR, LF] @ ''Authorization: Bearer sk-1'' @ [CR, LF] \<and>
      rq_body req = ''{"model":"gpt-4o","input":"bonjour"}'')\<close>
proof -
  let ?m = "keyed_model ''sk-1''"
  have name: "m_modelName ?m = ''gpt-4o''"
    by (simp add: keyed_model_def)
  have split: "''Content-Type: multipart/form-data'' @ [CR, LF] =
      ''Content-Type: '' @ ''multipart/form-data'' @ [CR, LF]"
    by simp
  have hd: "rendered_headers edit_template ?m [] ''make it blue'' img url =
      ''Content-Type: '' @ ''multipart/form-data'' @ [CR, LF]" for img url
    by (simp only: edit_headers split)
  have mp: "ContainsNoCase (rendered_headers edit_template ?m [] ''make it blue'' img url)
      ''multipart/form-data''" for img url
    by (simp only: edit_headers multipart_detected)
  have valid: "ep_valid (endpoint_of edit_template ?m [] ''make it blue'' img url)" for img url
    by (simp add: edit_endpoint edit_template_def)
  from multipart_request_fixed_boundary [OF valid, where P = sample_platform and bytes = "''PNG''"
      and pre = "''Content-Type: ''" and post = "[CR, LF]"
      and ?imageB64.0 = "''UE5H''" and ?imageDataUrl.0 = "''data:image/png;base64,UE5H''"]
  obtain c req where a:
    "CallTemplate sample_platform edit_template ?m [] ''make it blue'' ''UE5H''
       ''data:image/png;base64,UE5H'' = Some c"
    "c_sent c = [req]"
    \<open>ContainsNoCase
       (rendered_headers edit_template ?m [] ''make it blue'' ''UE5H'' ''data:image/png;base64,UE5H'')
       ''multipart/form-data'' \<and>
     ''UE5H'' \<noteq> [] \<and> CryptStringToBinary sample_platform ''UE5H'' = Some ''PNG'' \<and> ''PNG'' \<noteq> [] \<longrightarrow>
     rq_body req =
       ''--'' @ ToUtf8 sample_platform ''----cbfilterboundary'' @ [CR, LF] @
       ''Content-Disposition: form-data; name="model"'' @ [CR, LF, CR, LF] @
       ToUtf8 sample_platform (m_modelName ?m) @ [CR, LF] @
       ''--'' @ ToUtf8 sample_platform ''----cbfilterboundary'' @ [CR, LF] @
       ''Content-Disposition: form-data; name="prompt"'' @ [CR, LF, CR, LF] @
       ToUtf8 sample_platform ''make it blue'' @ [CR, LF] @
       ''--'' @ ToUtf8 sample_platform ''----cbfilterboundary'' @ [CR, LF] @
       ''Content-Disposition: form-data; name="image"; filename="image.png"'' @ [CR, LF] @
       ''Content-Type: image/png'' @ [CR, LF, CR, LF] @
       ''PNG'' @ [CR, LF] @
       ''--'' @ ToUtf8 sample_platform ''----cbfilterboundary'' @ ''--'' @ [CR, LF]\<close>
    "rendered_headers edit_template ?m [] ''make it blue'' ''UE5H'' ''data:image/png;base64,UE5H'' =
       ''Content-Type: '' @ ''multipart/form-data'' @ [CR, LF] \<and>
     \<not> ContainsNoCase ''Content-Type: '' ''multipart/form-data'' \<and>
     \<not> ContainsNoCase [CR, LF] ''multipart/form-data'' \<longrightarrow>
     rq_headers req =
       ''Content-Type: '' @ ''multipart/form-data; boundary=----cbfilterboundary'' @ [CR, LF]"
    by blast
  from a(3) mp sample_decode(1) have \<open>rq_body req =
       ''--'' @ ToUtf8 sample_platform ''----cbfilterboundary'' @ [CR, LF] @
       ''Content-Disposition: form-data; name="model"'' @ [CR, LF, CR, LF] @
       ToUtf8 sample_platform (m_modelName ?m) @ [CR, LF] @
       ''--'' @ ToUtf8 sample_platform ''----cbfilterboundary'' @ [CR, LF] @
       ''Content-Disposition: form-data; name="prompt"'' @ [CR, LF, CR, LF] @
       ToUtf8 sample_platform ''make it blue'' @ [CR, LF] @
       ''--'' @ ToUtf8 sample_platform ''----cbfilterboundary'' @ [CR, LF] @
       ''Content-Disposition: form-data; name="image"; filename="image.png"'' @ [CR, LF] @
       ''Content-Type: image/png'' @ [CR, LF, CR, LF] @
       ''PNG'' @ [CR, LF] @
       ''--'' @ ToUtf8 sample_platform ''----cbfilterboundary'' @ ''--'' @ [CR, LF]\<close>
    by simp
  then have body: \<open>rq_body req =
        ''------cbfilterboundary'' @ [CR, LF] @
        ''Content-Disposition: form-data; name="model"'' @ [CR, LF, CR, LF] @
        ''gpt-4o'' @ [CR, LF] @
        ''------cbfilterboundary'' @ [CR, LF] @
        ''Content-Disposition: form-data; name="prompt"'' @ [CR, LF, CR, LF] @
        ''make it blue'' @ [CR, LF] @
        ''------cbfilterboundary'' @ [CR, LF] @
        ''Content-Disposition: form-data; name="image"; filename="image.png"'' @ [CR, LF] @
        ''Content-Type: image/png'' @ [CR, LF, CR, LF] @
        ''PNG'' @ [CR, LF] @
        ''------cbfilterboundary--'' @ [CR, LF]\<close>
    by (simp add: sample_utf8 name)
  from a(4) hd content_type_parts have "rq_headers req =
       ''Content-Type: '' @ ''multipart/form-data; boundary=----cbfilterboundary'' @ [CR, LF]"
    by blast
  then have hdr: "rq_headers req =
      ''Content-Type: multipart/form-data; boundary=----cbfilterboundary'' @ [CR, LF]"
    by simp
  from a(1,2) hdr body have first: \<open>\<exists>c req. CallTemplate sample_platform edit_template ?m [] ''make it blue''
        ''UE5H'' ''data:image/png;base64,UE5H'' = Some c \<and>
      c_sent c = [req] \<and>
      rq_headers req = ''Content-Type: multipart/form-data; boundary=----cbfilterboundary'' @ [CR, LF] \<and>
      rq_body req =
        ''------cbfilterboundary'' @ [CR, LF] @
        ''Content-Disposition: form-data; name="model"'' @ [CR, LF, CR, LF] @
        ''gpt-4o'' @ [CR, LF] @
        ''------cbfilterboundary'' @ [CR, LF] @
        ''Content-Disposition: form-data; name="prompt"'' @ [CR, LF, CR, LF] @
        ''make it blue'' @ [CR, LF] @
        ''------cbfilterboundary'' @ [CR, LF] @
        ''Content-Disposition: form-data; name="image"; filename="image.png"'' @ [CR, LF] @
        ''Content-Type: image/png'' @ [CR, LF, CR, LF] @
        ''PNG'' @ [CR, LF] @
        ''------cbfilterboundary--'' @ [CR, LF]\<close>
    by blast
  from multipart_request_fixed_boundary [OF valid, where P = sample_platform
      and ?imageB64.0 = "[]" and ?imageDataUrl.0 = "[]"]
  obtain d rd where n:
    "CallTemplate sample_platform edit_template ?m [] ''make it blue'' [] [] = Some d"
    "c_sent d = [rd]"
    \<open>ContainsNoCase (rendered_headers edit_template ?m [] ''make it blue'' [] [])
       ''multipart/form-data'' \<and>
     (([]::wstring) = [] \<or> CryptStringToBinary sample_platform [] = None \<or>
      CryptStringToBinary sample_platform [] = Some []) \<longrightarrow>
     rq_body rd =
       ''--'' @ ToUtf8 sample_platform ''----cbfilterboundary'' @ [CR, LF] @
       ''Content-Disposition: form-data; name="model"'' @ [CR, LF, CR, LF] @
       ToUtf8 sample_platform (m_modelName ?m) @ [CR, LF] @
       ''--'' @ ToUtf8 sample_platform ''----cbfilterboundary'' @ [CR, LF] @
       ''Content-Disposition: form-data; name="prompt"'' @ [CR, LF, CR, LF] @
       ToUtf8 sample_platform ''make it blue'' @ [CR, LF] @
       ''--'' @ ToUtf8 sample_platform ''----cbfilterboundary'' @ ''--'' @ [CR, LF]\<close>
    by blast
  from n(3) mp have \<open>rq_body rd =
       ''--'' @ ToUtf8 sample_platform ''----cbfilterboundary'' @ [CR, LF] @
       ''Content-Disposition: form-data; name="model"'' @ [CR, LF, CR, LF] @
       ToUtf8 sample_platform (m_modelName ?m) @ [CR, LF] @
       ''--'' @ ToUtf8 sample_platform ''----cbfilterboundary'' @ [CR, LF] @
       ''Content-Disposition: form-data; name="prompt"'' @ [CR, LF, CR, LF] @
       ToUtf8 sample_platform ''make it blue'' @ [CR, LF] @
       ''--'' @ ToUtf8 sample_platform ''----cbfilterboundary'' @ ''--'' @ [CR, LF]\<close>
    by blast
  then have \<open>rq_body rd =
        ''------cbfilterboundary'' @ [CR, LF] @
        ''Content-Disposition: form-data; name="model"'' @ [CR, LF, CR, LF] @
        ''gpt-4o'' @ [CR, LF] @
        ''------cbfilterboundary'' @ [CR, LF] @
        ''Content-Disposition: form-data; name="prompt"'' @ [CR, LF, CR, LF] @
        ''make it blue'' @ [CR, LF] @
        ''------cbfilterboundary--'' @ [CR, LF]\<close>
    by (simp add: sample_utf8 name)
  with n(1,2) have second: \<open>\<exists>c req. CallTemplate sample_platform edit_template ?m [] ''make it blue''
        [] [] = Some c \<and>
      c_sent c = [req] \<and>
      rq_body req =
        ''------cbfilterboundary'' @ [CR, LF] @
        ''Content-Disposition: form-data; name="model"'' @ [CR, LF, CR, LF] @
        ''gpt-4o'' @ [CR, LF] @
        ''------cbfilterboundary'' @ [CR, LF] @
        ''Content-Disposition: form-data; name="prompt"'' @ [CR, LF, CR, LF] @
        ''make it blue'' @ [CR, LF] @
        ''------cbfilterboundary--'' @ [CR, LF]\<close>
    by blast
  have valid': "ep_valid (endpoint_of chat_template ?m [] ''bonjour'' [] [])"
    by (simp add: chat_endpoint)
  have json: "\<not> ContainsNoCase (rendered_headers chat_template ?m [] ''bonjour'' [] [])
      ''multipart/form-data''"
    by (simp only: sk1_headers json_headers_not_multipart not_False_eq_True)
  have utf8: \<open>ToUtf8 sample_platform ''{"model":"gpt-4o","input":"bonjour"}'' =
      ''{"model":"gpt-4o","input":"bonjour"}''\<close>
    by (simp add: ToUtf8_def sample_platform_def)
  from multipart_request_fixed_boundary [OF valid', where P = sample_platform]
  obtain c' req' where b:
    "CallTemplate sample_platform chat_template ?m [] ''bonjour'' [] [] = Some c'"
    "c_sent c' = [req']"
    "\<not> ContainsNoCase (rendered_headers chat_template ?m [] ''bonjour'' [] [])
       ''multipart/form-data'' \<longrightarrow>
     rq_headers req' = rendered_headers chat_template ?m [] ''bonjour'' [] [] \<and>
     rq_body req' = ToUtf8 sample_platform (rendered_payload chat_template ?m [] ''bonjour'' [] [])"
    by blast
  from b(3) json have "rq_headers req' = rendered_headers chat_template ?m [] ''bonjour'' [] []"
    and "rq_body req' = ToUtf8 sample_platform (rendered_payload chat_template ?m [] ''bonjour'' [] [])"
    by blast+
  then have "rq_headers req' =
        ''Content-Type: application/json'' @ [CR, LF] @ ''Authorization: Bearer sk-1'' @ [CR, LF]"
    and \<open>rq_body req' = ''{"model":"gpt-4o","input":"bonjour"}''\<close>
    by (simp_all add: sk1_headers bonjour_payload utf8)
  with b(1,2) have third: \<open>\<exists>c req. CallTemplate sample_platform chat_template ?m [] ''bonjour'' [] [] =
        Some c \<and>
      c_sent c = [req] \<and>
      rq_headers req =
        ''Content-Type: application/json'' @ [CR, LF] @ ''Authorization: Bearer sk-1'' @ [CR, LF] \<and>
      rq_body req = ''{"model":"gpt-4o","input":"bonjour"}''\<close>
    by blast
  from first second third show ?thesis by (intro conjI)
qed


lemma sent_headers:
  assumes "ep_valid (endpoint_of tpl m systemPrompt prompt imageB64 imageDataUrl)"
  shows "map_option (map rq_headers \<circ> c_sent) (CallTemplate P tpl m systemPrompt prompt imageB64 imageDataUrl) =
     Some [rq_headers (request_of P tpl m systemPrompt prompt imageB64 imageDataUrl)]"
    and "map_option (map rq_body \<circ> c_sent) (CallTemplate P tpl m systemPrompt prompt imageB64 imageDataUrl) =
     Some [rq_body (request_of P tpl m systemPrompt prompt imageB64 imageDataUrl)]"
  using CallTemplate_sends [OF assms, of P] by auto

text \<open>
  Claim C1 as stated fails three times. The boundary is no random token: two calls with
  different models and prompts send the same header, with the same fixed token. Image
  data that does not decode is present and gets no \<^verbatim>\<open>image\<close> part. And the header value
  \<^verbatim>\<open>Multipart/Form-Data\<close> is detected, the body is built as multipart, but the header is
  sent unchanged, without a boundary.
\<close>

theorem multipart_boundary_counterexample:
  \<open>ContainsNoCase
     (rendered_headers mixed_case_template (keyed_model ''sk-1'') [] ''make it blue'' [] [])
     ''multipart/form-data''
   \<and> map_option (map rq_headers \<circ> c_sent)
       (CallTemplate sample_platform mixed_case_template (keyed_model ''sk-1'') [] ''make it blue'' [] []) =
     Some [''Content-Type: Multipart/Form-Data'' @ [CR, LF]]
   \<and> map_option (map rq_body \<circ> c_sent)
       (CallTemplate sample_platform mixed_case_template (keyed_model ''sk-1'') [] ''make it blue'' [] []) =
     Some [''------cbfilterboundary'' @ [CR, LF] @
           ''Content-Disposition: form-data; name="model"'' @ [CR, LF, CR, LF] @
           ''gpt-4o'' @ [CR, LF] @
           ''------cbfilterboundary'' @ [CR, LF] @
           ''Content-Disposition: form-data; name="prompt"'' @ [CR, LF, CR, LF] @
           ''make it blue'' @ [CR, LF] @
           ''------cbfilterboundary--'' @ [CR, LF]]
   \<and> map_option (map rq_headers \<circ> c_sent)
       (CallTemplate sample_platform edit_template (keyed_model ''sk-1'') [] ''make it blue'' [] []) =
     Some [''Content-Type: multipart/form-data; boundary=----cbfilterboundary'' @ [CR, LF]]
   \<and> map_option (map rq_headers \<circ> c_sent)
       (CallTemplate sample_platform edit_template (keyed_model ''sk-9'') [] ''make it red'' [] []) =
     Some [''Content-Type: multipart/form-data; boundary=----cbfilterboundary'' @ [CR, LF]]
   \<and> ''!!'' \<noteq> []
   \<and> map_option (map rq_body \<circ> c_sent)
       (CallTemplate sample_platform edit_template (keyed_model ''sk-1'') [] ''make it blue'' ''!!''
          ''data:image/png;base64,!!'') =
     Some [''------cbfilterboundary'' @ [CR, LF] @
           ''Content-Disposition: form-data; name="model"'' @ [CR, LF, CR, LF] @
           ''gpt-4o'' @ [CR, LF] @
           ''------cbfilterboundary'' @ [CR, LF] @
           ''Content-Disposition: form-data; name="prompt"'' @ [CR, LF, CR, LF] @
           ''make it blue'' @ [CR, LF] @
           ''------cbfilterboundary--'' @ [CR, LF]]\<close>
proof (intro conjI)
  show mixed: "ContainsNoCase
     (rendered_headers mixed_case_template (keyed_model ''sk-1'') [] ''make it blue'' [] [])
     ''multipart/form-data''"
    by (simp only: mixed_headers multipart_detected)
  have valid: "ep_valid (endpoint_of mixed_case_template (keyed_model ''sk-1'') [] ''make it blue'' [] [])"
    by (simp add: edit_endpoint mixed_case_template_def edit_template_def)
  show "map_option (map rq_headers \<circ> c_sent)
       (CallTemplate sample_platform mixed_case_template (keyed_model ''sk-1'') [] ''make it blue'' [] []) =
     Some [''Content-Type: Multipart/Form-Data'' @ [CR, LF]]"
    by (simp only: sent_headers [OF valid] request_multipart [OF mixed] mixed_headers scan_headers)
  have name: "m_modelName (keyed_model ''sk-1'') = ''gpt-4o''"
    by (simp add: keyed_model_def)
  have plain: \<open>BuildMultipartBody sample_platform ''----cbfilterboundary'' ''gpt-4o'' ''make it blue'' img =
      ''------cbfilterboundary'' @ [CR, LF] @
      ''Content-Disposition: form-data; name="model"'' @ [CR, LF, CR, LF] @
      ''gpt-4o'' @ [CR, LF] @
      ''------cbfilterboundary'' @ [CR, LF] @
      ''Content-Disposition: form-data; name="prompt"'' @ [CR, LF, CR, LF] @
      ''make it blue'' @ [CR, LF] @
      ''------cbfilterboundary--'' @ [CR, LF]\<close>
    if "img = [] \<or> CryptStringToBinary sample_platform img = None \<or>
        CryptStringToBinary sample_platform img = Some []" for img
    by (simp add: multipart_body_without_image [OF that] sample_utf8)
  show \<open>map_option (map rq_body \<circ> c_sent)
       (CallTemplate sample_platform mixed_case_template (keyed_model ''sk-1'') [] ''make it blue'' [] []) =
     Some [''------cbfilterboundary'' @ [CR, LF] @
           ''Content-Disposition: form-data; name="model"'' @ [CR, LF, CR, LF] @
           ''gpt-4o'' @ [CR, LF] @
           ''------cbfilterboundary'' @ [CR, LF] @
           ''Content-Disposition: form-data; name="prompt"'' @ [CR, LF, CR, LF] @
           ''make it blue'' @ [CR, LF] @
           ''------cbfilterboundary--'' @ [CR, LF]]\<close>
    by (simp add: sent_headers [OF valid] request_multipart [OF mixed] name plain)
  have lower: "ContainsNoCase (rendered_headers edit_template m [] p img url) ''multipart/form-data''"
    for m p img url
    by (simp only: edit_headers multipart_detected)
  have valid': "ep_valid (endpoint_of edit_template (keyed_model key) [] p img url)" for key p img url
    by (simp add: edit_endpoint edit_template_def)
  show "map_option (map rq_headers \<circ> c_sent)
       (CallTemplate sample_platform edit_template (keyed_model ''sk-1'') [] ''make it blue'' [] []) =
     Some [''Content-Type: multipart/form-data; boundary=----cbfilterboundary'' @ [CR, LF]]"
    by (simp only: sent_headers [OF valid'] request_multipart [OF lower] edit_headers scan_headers)
  show "map_option (map rq_headers \<circ> c_sent)
       (CallTemplate sample_platform edit_template (keyed_model ''sk-9'') [] ''make it red'' [] []) =
     Some [''Content-Type: multipart/form-data; boundary=----cbfilterboundary'' @ [CR, LF]]"
    by (simp only: sent_headers [OF valid'] request_multipart [OF lower] edit_headers scan_headers)
  show "''!!'' \<noteq> []"
    by simp
  have undecoded: "''!!'' = [] \<or> CryptStringToBinary sample_platform ''!!'' = None \<or>
      CryptStringToBinary sample_platform ''!!'' = Some []"
    by (simp only: sample_decode simp_thms)
  show \<open>map_option (map rq_body \<circ> c_sent)
       (CallTemplate sample_platform edit_template (keyed_model ''sk-1'') [] ''make it blue'' ''!!''
          ''data:image/png;base64,!!'') =
     Some [''------cbfilterboundary'' @ [CR, LF] @
           ''Content-Disposition: form-data; name="model"'' @ [CR, LF, CR, LF] @
           ''gpt-4o'' @ [CR, LF] @
           ''------cbfilterboundary'' @ [CR, LF] @
           ''Content-Disposition: form-data; name="prompt"'' @ [CR, LF, CR, LF] @
           ''make it blue'' @ [CR, LF] @
           ''------cbfilterboundary--'' @ [CR, LF]]\<close>
    by (simp add: sent_headers [OF valid'] request_multipart [OF lower] name plain [OF undecoded])
qed

section \<open>One filter at a time\<close>

lemma invocation_rejected_while_window_exists:
  assumes "filter_running s"
  shows "step n (Hotkey choice os) s = Some (s\<lparr>beeps := Suc (beeps s)\<rparr>)"
    and "step n (Menu choice os) s = Some (s\<lparr>beeps := Suc (beeps s)\<rparr>)"
  using assms by (simp_all add: WndProc_WM_HOTKEY_def ShowFilterMenuAndRun_def)

lemma worker_started_only_without_window:
  assumes "step n e s = Some s'" and "created s' \<noteq> created s"
  shows "\<not> filter_running s \<and> created s' = Suc (created s) \<and>
         length (workers s') = Suc (length (workers s)) \<and> filter_running s'"
  using assms
  by (cases e)
     (auto simp: WndProc_WM_HOTKEY_def ShowFilterMenuAndRun_def ShowProgressAndRunFilter_def
        RunFilterThread_returns_def ProgressWndProc_WM_CLOSE_def ProgressWndProc_WM_DESTROY_def
        filter_running_def Let_def split: if_splits option.splits Creation.splits)

text \<open>
  Claim C5. While the progress window exists, an invocation by the hotkey or through the
  filter menu is rejected: it beeps and starts no worker, as the two lemmas above show for
  every state. But the window does not exist for as long as its worker runs: Escape or
  the close box destroys the window and the worker goes on. After the hotkey, the closing
  of the window and the hotkey again, two workers are in flight, where the claim allows
  one; when the first worker returns before the second invocation there is one.
\<close>

theorem single_flight_broken_by_closing_progress_window:
  "run_events 2 [Hotkey (Some 0) Created] startup =
     Some \<lparr>g_progressWnd = 1, windows = [1],
           workers = [\<lparr>wk_hwndProgress = 1, wk_filter = 0\<rparr>], created = 1, beeps = 0\<rparr>
   \<and> run_events 2 [Hotkey (Some 0) Created, Hotkey (Some 1) Created] startup =
     Some \<lparr>g_progressWnd = 1, windows = [1],
           workers = [\<lparr>wk_hwndProgress = 1, wk_filter = 0\<rparr>], created = 1, beeps = 1\<rparr>
   \<and> run_events 2 [Hotkey (Some 0) Created, Menu (Some 1) Created] startup =
     Some \<lparr>g_progressWnd = 1, windows = [1],
           workers = [\<lparr>wk_hwndProgress = 1, wk_filter = 0\<rparr>], created = 1, beeps = 1\<rparr>
   \<and> run_events 2 [Hotkey (Some 0) Created, CloseProgress] startup =
     Some \<lparr>g_progressWnd = 0, windows = [],
           workers = [\<lparr>wk_hwndProgress = 1, wk_filter = 0\<rparr>], created = 1, beeps = 0\<rparr>
   \<and> run_events 2 [Hotkey (Some 0) Created, CloseProgress, Hotkey (Some 1) Created] startup =
     Some \<lparr>g_progressWnd = 2, windows = [2],
           workers = [\<lparr>wk_hwndProgress = 1, wk_filter = 0\<rparr>, \<lparr>wk_hwndProgress = 2, wk_filter = 1\<rparr>],
           created = 2, beeps = 0\<rparr>
   \<and> run_events 2 [Hotkey (Some 0) Created, WorkerReturns 0, Hotkey (Some 1) Created] startup =
     Some \<lparr>g_progressWnd = 2, windows = [2],
           workers = [\<lparr>wk_hwndProgress = 2, wk_filter = 1\<rparr>], created = 2, beeps = 0\<rparr>"
  by (simp add: startup_def WndProc_WM_HOTKEY_def ShowFilterMenuAndRun_def
      ShowProgressAndRunFilter_def RunFilterThread_returns_def ProgressWndProc_WM_CLOSE_def
      ProgressWndProc_WM_DESTROY_def filter_running_def Let_def)

end
